theory Spec2Isabelle
  imports Complex_Main "HOL-Library.Multiset"
begin

section \<open>Values of the JavaScript runtime\<close>

text \<open>
  The repository is TypeScript; at run time its values are JavaScript values. Chain
  identifiers, addresses, URLs, symbols and statuses are strings. A decoded contract
  result has the type \<open>any\<close> in the source: the model keeps the shapes that the ABI
  decoder produces (strings, small unsigned integers as numbers, big numbers, structs)
  together with \<open>undefined\<close> and booleans.
\<close>

type_synonym EVMChain = string
type_synonym Address = string
type_synonym URL = string
type_synonym ABI = "string list"

datatype any =
    Undefined
  | Bool bool
  | Str string
  | Uint nat
  | BigNumber int
  | Object "(string \<times> any) list"

text \<open>JavaScript truthiness, as the loop conditions \<open>!result\<close> and \<open>!balance\<close> read it.\<close>

fun truthy :: "any \<Rightarrow> bool" where
  "truthy Undefined = False"
| "truthy (Bool b) = b"
| "truthy (Str s) = (s \<noteq> [])"
| "truthy (Uint n) = (n \<noteq> 0)"
| "truthy (BigNumber i) = True"
| "truthy (Object fs) = True"

text \<open>
  \<open>String.prototype.toLowerCase\<close> and \<open>toUpperCase\<close> on the ASCII letters (addresses
  and chain identifiers are ASCII).
\<close>

definition lower_char :: "char \<Rightarrow> char" where
  "lower_char c =
     (case map_of (zip ''ABCDEFGHIJKLMNOPQRSTUVWXYZ'' ''abcdefghijklmnopqrstuvwxyz'') c of
        None \<Rightarrow> c
      | Some d \<Rightarrow> d)"

definition upper_char :: "char \<Rightarrow> char" where
  "upper_char c =
     (case map_of (zip ''abcdefghijklmnopqrstuvwxyz'' ''ABCDEFGHIJKLMNOPQRSTUVWXYZ'') c of
        None \<Rightarrow> c
      | Some d \<Rightarrow> d)"

definition toLowerCase :: "string \<Rightarrow> string" where
  "toLowerCase s = map lower_char s"

definition toUpperCase :: "string \<Rightarrow> string" where
  "toUpperCase s = map upper_char s"

text \<open>\<open>Array.prototype.join\<close> with a comma, which a template literal applies to an array.\<close>

fun join_comma :: "string list \<Rightarrow> string" where
  "join_comma [] = []"
| "join_comma [x] = x"
| "join_comma (x # y # ys) = x @ '','' @ join_comma (y # ys)"

text \<open>Reading an array by index: out of range the result is \<open>undefined\<close>.\<close>

definition at_index :: "'a list \<Rightarrow> nat \<Rightarrow> 'a option" where
  "at_index xs i = (if i < length xs then Some (xs ! i) else None)"

section \<open>Errors\<close>

text \<open>
  \<open>WeaverError(chain, project, description, sourceError)\<close> is the repository's error
  class; \<open>TypeError\<close> is what the runtime throws on a property read of \<open>undefined\<close>;
  \<open>InvalidBigNumber\<close> is what \<open>ethers.BigNumber.from\<close> throws on a value that is no
  number. \<open>IllTyped\<close> is not an error of the source: it marks a decoded value whose
  shape is not the one the ABI declares for the method (a symbol that is no string, a
  number of decimals that is no unsigned integer). TypeScript does not check values of
  type \<open>any\<close> and the source would carry on with such a value; the model stops there.
\<close>

datatype error =
    WeaverError EVMChain "string option" string "string option"
  | TypeError
  | InvalidBigNumber
  | IllTyped

section \<open>Constants of the query engine\<close>

definition defaultTokenLogo :: URL where
  "defaultTokenLogo = ''https://cdn.jsdelivr.net/gh/atomiclabs/cryptocurrency-icons@d5c68edec1f5eaec59ac77ff2b48144679cebca1/32/icon/generic.png''"

definition defaultAddress :: Address where
  "defaultAddress = ''0xeeeeeeeeeeeeeeeeeeeeeeeeeeeeeeeeeeeeeeee''"

definition zero :: Address where
  "zero = ''0x0000000000000000000000000000000000000000''"

definition maxQueryRetries :: nat where
  "maxQueryRetries = 3"

definition ignoredErrors :: "(EVMChain \<times> Address) list" where
  "ignoredErrors =
     [(''poly'', ''0x8aaa5e259f74c8114e0a471d9f2adfc66bfe09ed''),
      (''poly'', ''0x9dd12421c637689c3fc6e661c9e2f02c2f61b3eb'')]"

section \<open>The chain registry and the network\<close>

text \<open>
  \<open>chains\<close> (module \<open>./chains\<close>) is the static registry: per chain the ordered list of
  RPC endpoints and the address of the batching helper. It is a parameter of the model, named \<open>registry\<close>
  (\<open>chains\<close> is a constant of the library).
\<close>

record ChainData =
  rpcs :: "URL list"
  multicall :: Address

text \<open>
  One attempt of \<open>query\<close> builds a provider for an endpoint and calls the method there.
  The network decides the outcome: \<open>Inl\<close> when the attempt throws, \<open>Inr v\<close> when it
  resolves to \<open>v\<close>. The outcome may differ from attempt to attempt, so the network takes
  the number of attempts made before this one. The endpoint is \<open>None\<close> when the
  endpoint list is read out of range (\<open>undefined\<close> in the source).
\<close>

type_synonym contract_call =
  "nat \<Rightarrow> URL option \<Rightarrow> Address \<Rightarrow> ABI \<Rightarrow> string \<Rightarrow> string list \<Rightarrow> string + any"

section \<open>The failover query executor\<close>

text \<open>
  The variables of \<open>query\<close>: \<open>result\<close>, \<open>errors\<close> and \<open>rpcID\<close>. \<open>thrown\<close> holds the
  error once the function has thrown, and \<open>sent\<close> records the endpoints contacted so
  far, oldest first (the trace of the network effect; not a variable of the source).
\<close>

record qstate =
  result :: any
  errors :: nat
  rpcID :: nat
  thrown :: "error option"
  sent :: "URL option list"

definition query_init :: qstate where
  "query_init = \<lparr>result = Undefined, errors = 0, rpcID = 0, thrown = None, sent = []\<rparr>"

text \<open>The condition of the \<open>while\<close> loop; a function that has thrown runs no further.\<close>

definition looping :: "qstate \<Rightarrow> bool" where
  "looping st = (thrown st = None \<and> \<not> truthy (result st) \<and> errors st < maxQueryRetries)"

definition ignored :: "EVMChain \<Rightarrow> Address \<Rightarrow> bool" where
  "ignored chain address =
     (List.find (\<lambda>i. fst i = chain \<and> snd i = toLowerCase address) ignoredErrors \<noteq> None)"

definition query_description :: "string \<Rightarrow> string list \<Rightarrow> Address \<Rightarrow> string" where
  "query_description method args address =
     ''Querying '' @ method @ ''('' @ join_comma args @ '') on '' @ address"

text \<open>
  The \<open>catch\<close> block of \<open>query\<close>. Both counters are incremented before they are
  compared (\<open>++rpcID\<close>, \<open>++errors\<close>).
\<close>

definition query_catch ::
  "(EVMChain \<rightharpoonup> ChainData) \<Rightarrow> EVMChain \<Rightarrow> Address \<Rightarrow> string \<Rightarrow> string list \<Rightarrow> qstate \<Rightarrow> qstate"
where
  "query_catch registry chain address method args st =
     (case registry chain of
        None \<Rightarrow> st\<lparr>thrown := Some TypeError\<rparr>
      | Some cd \<Rightarrow>
          (let st1 = st\<lparr>rpcID := rpcID st + 1\<rparr> in
           if rpcID st1 \<ge> length (rpcs cd) then
             (let st2 = st1\<lparr>errors := errors st1 + 1\<rparr> in
              if errors st2 \<ge> maxQueryRetries then
                (if \<not> ignored chain address
                 then st2\<lparr>thrown :=
                   Some (WeaverError chain None (query_description method args address) None)\<rparr>
                 else st2)
              else st2\<lparr>rpcID := 0\<rparr>)
           else st1))"

text \<open>One iteration of the loop body: the \<open>try\<close> block, then the \<open>catch\<close> block if it threw.\<close>

definition query_body ::
  "(EVMChain \<rightharpoonup> ChainData) \<Rightarrow> contract_call \<Rightarrow> EVMChain \<Rightarrow> Address \<Rightarrow> ABI \<Rightarrow> string \<Rightarrow>
   string list \<Rightarrow> qstate \<Rightarrow> qstate"
where
  "query_body registry net chain address abi method args st =
     (case registry chain of
        None \<Rightarrow> query_catch registry chain address method args st
      | Some cd \<Rightarrow>
          (let url = at_index (rpcs cd) (rpcID st);
               st1 = st\<lparr>sent := sent st @ [url]\<rparr>
           in case net (length (sent st)) url address abi method args of
                Inr v \<Rightarrow> st1\<lparr>result := v\<rparr>
              | Inl _ \<Rightarrow> query_catch registry chain address method args st1))"

text \<open>The loop, unrolled at most \<open>n\<close> times.\<close>

fun query_steps ::
  "nat \<Rightarrow> (EVMChain \<rightharpoonup> ChainData) \<Rightarrow> contract_call \<Rightarrow> EVMChain \<Rightarrow> Address \<Rightarrow> ABI \<Rightarrow> string \<Rightarrow>
   string list \<Rightarrow> qstate \<Rightarrow> qstate"
where
  "query_steps 0 registry net chain address abi method args st = st"
| "query_steps (Suc n) registry net chain address abi method args st =
     (if looping st
      then query_steps n registry net chain address abi method args
             (query_body registry net chain address abi method args st)
      else st)"

text \<open>
  \<open>query\<close> with fuel: \<open>None\<close> when the loop is still running after \<open>fuel\<close> iterations.
  Otherwise the outcome (the error thrown, or the value returned) and the endpoints
  contacted.
\<close>

definition query ::
  "nat \<Rightarrow> (EVMChain \<rightharpoonup> ChainData) \<Rightarrow> contract_call \<Rightarrow> EVMChain \<Rightarrow> Address \<Rightarrow> ABI \<Rightarrow> string \<Rightarrow>
   string list \<Rightarrow> ((error + any) \<times> URL option list) option"
where
  "query fuel registry net chain address abi method args =
     (let st = query_steps fuel registry net chain address abi method args query_init in
      if looping st then None
      else Some (case thrown st of Some e \<Rightarrow> Inl e | None \<Rightarrow> Inr (result st), sent st))"

text \<open>
  The number of failing attempts that a state of the loop still allows: the passes left,
  times the number of endpoints, less the endpoints already tried in this pass.
\<close>

definition remaining :: "nat \<Rightarrow> qstate \<Rightarrow> nat" where
  "remaining k st = (maxQueryRetries - errors st) * k - rpcID st"

section \<open>Numbers\<close>

text \<open>
  A JavaScript number is a double. The model takes the finite ones as exact rationals
  (rounding is not modelled); \<open>NonFinite\<close> stands for \<open>NaN\<close> and the infinities, which
  arise here from a division by zero and stay non-finite under the operations used.
\<close>

datatype number = Num rat | NonFinite

fun js_div :: "number \<Rightarrow> number \<Rightarrow> number" where
  "js_div (Num a) (Num b) = (if b = 0 then NonFinite else Num (a / b))"
| "js_div _ _ = NonFinite"

fun js_mul :: "number \<Rightarrow> number \<Rightarrow> number" where
  "js_mul (Num a) (Num b) = Num (a * b)"
| "js_mul _ _ = NonFinite"

text \<open>\<open>10 ** decimals\<close> for a number of decimals.\<close>

definition pow10 :: "nat \<Rightarrow> number" where
  "pow10 decimals = Num (10 ^ decimals)"

section \<open>The batching layer\<close>

text \<open>
  The call and result shapes of the batching library (\<open>ethereum-multicall\<close>), and the
  library call itself as a parameter: \<open>Inl cause\<close> when \<open>multicall.call\<close> throws,
  otherwise the \<open>results\<close> object, keyed by the reference of each contract context.
\<close>

record CallContext =
  reference :: string
  methodName :: string
  methodParameters :: "any list"

record ContractCallContext =
  reference :: string
  contractAddress :: Address
  abi :: ABI
  calls :: "CallContext list"

record CallReturnContext =
  returnValues :: "any list"
  decoded :: bool
  reference :: string
  methodName :: string
  methodParameters :: "any list"
  success :: bool

record ContractCallReturnContext =
  originalContractCallContext :: ContractCallContext
  callsReturnContext :: "CallReturnContext list"

type_synonym ContractCallResults = "string \<rightharpoonup> ContractCallReturnContext"

type_synonym batch_helper =
  "URL option \<Rightarrow> Address \<Rightarrow> ContractCallContext list \<Rightarrow> string + ContractCallResults"

text \<open>
  An operation of the pipeline yields an error or a value, together with the batches it
  handed to \<open>multicallQuery\<close>, in order (the trace of its batch calls).
\<close>

type_synonym 'a io = "(error + 'a) \<times> ContractCallContext list list"

definition ret :: "'a \<Rightarrow> 'a io" where
  "ret a = (Inr a, [])"

definition lift :: "error + 'a \<Rightarrow> 'a io" where
  "lift r = (r, [])"

definition and_then :: "'a io \<Rightarrow> ('a \<Rightarrow> 'b io) \<Rightarrow> 'b io" where
  "and_then m f =
     (case m of
        (Inl e, l) \<Rightarrow> (Inl e, l)
      | (Inr a, l) \<Rightarrow> (case f a of (r, l') \<Rightarrow> (r, l @ l')))"


text \<open>
  Where a parameter of the source has the name of a record field, the definition binds
  its parameters with \<open>\<lambda>\<close>, so that both keep their names.
\<close>

text \<open>
  \<open>multicallQuery\<close>: the first endpoint only, no retry; whatever is thrown inside the
  \<open>try\<close> block (also the \<open>TypeError\<close> of an unknown chain) is wrapped.
\<close>

definition multicallQuery ::
  "(EVMChain \<rightharpoonup> ChainData) \<Rightarrow> batch_helper \<Rightarrow> EVMChain \<Rightarrow> ContractCallContext list \<Rightarrow>
   ContractCallResults io"
where
  "multicallQuery registry helper chain queries =
     (case registry chain of
        None \<Rightarrow> Inl (WeaverError chain None ''Invalid multicall query'' (Some ''TypeError''))
      | Some cd \<Rightarrow>
          (case helper (at_index (rpcs cd) 0) (multicall cd) queries of
             Inl err \<Rightarrow> Inl (WeaverError chain None ''Invalid multicall query'' (Some err))
           | Inr results \<Rightarrow> Inr results),
      [queries])"

text \<open>
  The second \<open>forEach\<close> of \<open>multicallOneMethodQuery\<close>: a contract missing from the
  results throws (\<open>undefined.callsReturnContext\<close>); a contract whose first call result
  is missing or unsuccessful is skipped.
\<close>

fun oneMethod_forEach ::
  "ContractCallResults \<Rightarrow> Address list \<Rightarrow> (Address \<rightharpoonup> any list) \<Rightarrow> error + (Address \<rightharpoonup> any list)"
where
  "oneMethod_forEach multicallQueryResults [] results = Inr results"
| "oneMethod_forEach multicallQueryResults (contract # contracts) results =
     (case multicallQueryResults contract of
        None \<Rightarrow> Inl TypeError
      | Some rc \<Rightarrow>
          (case at_index (callsReturnContext rc) 0 of
             None \<Rightarrow> oneMethod_forEach multicallQueryResults contracts results
           | Some contractResults \<Rightarrow>
               if success contractResults
               then oneMethod_forEach multicallQueryResults contracts
                      (results(contract \<mapsto> returnValues contractResults))
               else oneMethod_forEach multicallQueryResults contracts results))"

definition multicallOneMethodQuery ::
  "(EVMChain \<rightharpoonup> ChainData) \<Rightarrow> batch_helper \<Rightarrow> EVMChain \<Rightarrow> Address list \<Rightarrow> ABI \<Rightarrow> string \<Rightarrow>
   any list \<Rightarrow> (Address \<rightharpoonup> any list) io"
where
  "multicallOneMethodQuery =
     (\<lambda>registry helper chain contracts abi methodName methodParameters.
      let calls = [\<lparr>CallContext.reference = '''', methodName = methodName,
                    methodParameters = methodParameters\<rparr>];
          queries = map (\<lambda>contract. \<lparr>ContractCallContext.reference = contract,
                      contractAddress = contract, abi = abi, calls = calls\<rparr>) contracts
      in and_then (multicallQuery registry helper chain queries)
           (\<lambda>multicallQueryResults.
              lift (oneMethod_forEach multicallQueryResults contracts Map.empty)))"

text \<open>The \<open>forEach\<close> of \<open>multicallOneContractQuery\<close>: only successful calls are stored.\<close>

definition oneContract_forEach :: "CallReturnContext list \<Rightarrow> (string \<rightharpoonup> any list)" where
  "oneContract_forEach rs =
     foldl (\<lambda>results result.
              if success result
              then results(CallReturnContext.reference result \<mapsto> returnValues result)
              else results)
       Map.empty rs"

definition multicallOneContractQuery ::
  "(EVMChain \<rightharpoonup> ChainData) \<Rightarrow> batch_helper \<Rightarrow> EVMChain \<Rightarrow> Address \<Rightarrow> ABI \<Rightarrow>
   CallContext list \<Rightarrow> (string \<rightharpoonup> any list) io"
where
  "multicallOneContractQuery =
     (\<lambda>registry helper chain contractAddress abi calls.
      let query = \<lparr>ContractCallContext.reference = ''oneContractQuery'',
                   contractAddress = contractAddress, abi = abi, calls = calls\<rparr>
      in and_then (multicallQuery registry helper chain [query])
           (\<lambda>multicallQueryResults.
              lift (case multicallQueryResults ''oneContractQuery'' of
                      None \<Rightarrow> Inl TypeError
                    | Some rc \<Rightarrow> Inr (oneContract_forEach (callsReturnContext rc)))))"

text \<open>
  The inner \<open>forEach\<close> of \<open>multicallComplexQuery\<close> stores every call result, whatever
  its success flag; the outer one throws on a contract missing from the results.
\<close>

definition complex_inner :: "CallReturnContext list \<Rightarrow> (string \<rightharpoonup> any list)" where
  "complex_inner rs =
     foldl (\<lambda>queryResults result.
              queryResults(CallReturnContext.reference result \<mapsto> returnValues result))
       Map.empty rs"

fun complex_forEach ::
  "ContractCallResults \<Rightarrow> Address list \<Rightarrow> (Address \<rightharpoonup> (string \<rightharpoonup> any list)) \<Rightarrow>
   error + (Address \<rightharpoonup> (string \<rightharpoonup> any list))"
where
  "complex_forEach multicallQueryResults [] results = Inr results"
| "complex_forEach multicallQueryResults (contract # contracts) results =
     (case multicallQueryResults contract of
        None \<Rightarrow> Inl TypeError
      | Some rc \<Rightarrow>
          complex_forEach multicallQueryResults contracts
            (results(contract \<mapsto> complex_inner (callsReturnContext rc))))"

definition multicallComplexQuery ::
  "(EVMChain \<rightharpoonup> ChainData) \<Rightarrow> batch_helper \<Rightarrow> EVMChain \<Rightarrow> Address list \<Rightarrow> ABI \<Rightarrow>
   CallContext list \<Rightarrow> (Address \<rightharpoonup> (string \<rightharpoonup> any list)) io"
where
  "multicallComplexQuery =
     (\<lambda>registry helper chain contracts abi calls.
      let queries = map (\<lambda>contract. \<lparr>ContractCallContext.reference = contract,
                      contractAddress = contract, abi = abi, calls = calls\<rparr>) contracts
      in and_then (multicallQuery registry helper chain queries)
           (\<lambda>multicallQueryResults.
              lift (complex_forEach multicallQueryResults contracts Map.empty)))"

section \<open>The tracked token catalog\<close>

text \<open>
  The module \<open>./tokens\<close> holds, per chain, the tracked tokens and a list of logos by
  symbol. Its tables are parameters of the model.
\<close>

record TokenData =
  address :: Address
  symbol :: string
  logo :: URL
  decimals :: nat

record LogoData =
  symbol :: string
  logo :: URL

record ChainTokenData =
  tokens :: "TokenData list"
  logos :: "LogoData list"

record tokens_module =
  eth_data :: ChainTokenData
  bsc_data :: ChainTokenData
  poly_data :: ChainTokenData
  ftm_data :: ChainTokenData
  avax_data :: ChainTokenData
  one_data :: ChainTokenData
  cronos_data :: ChainTokenData

definition getChainTokenData :: "tokens_module \<Rightarrow> EVMChain \<Rightarrow> ChainTokenData option" where
  "getChainTokenData =
     (\<lambda>td chain.
      if chain = ''eth'' then Some (eth_data td)
      else if chain = ''bsc'' then Some (bsc_data td)
      else if chain = ''poly'' then Some (poly_data td)
      else if chain = ''ftm'' then Some (ftm_data td)
      else if chain = ''avax'' then Some (avax_data td)
      else if chain = ''one'' then Some (one_data td)
      else if chain = ''cronos'' then Some (cronos_data td)
      else None)"

definition getTokens :: "tokens_module \<Rightarrow> EVMChain \<Rightarrow> TokenData list" where
  "getTokens =
     (\<lambda>td chain.
      case getChainTokenData td chain of
        Some chainTokenData \<Rightarrow> tokens chainTokenData
      | None \<Rightarrow> [])"

definition getTokenLogo :: "tokens_module \<Rightarrow> EVMChain \<Rightarrow> string \<Rightarrow> URL" where
  "getTokenLogo =
     (\<lambda>td chain symbol.
      case getChainTokenData td chain of
        None \<Rightarrow> defaultTokenLogo
      | Some data \<Rightarrow>
          (case List.find (\<lambda>token. TokenData.symbol token = symbol) (tokens data) of
             Some trackedToken \<Rightarrow> TokenData.logo trackedToken
           | None \<Rightarrow>
               (case List.find (\<lambda>i. LogoData.symbol i = symbol) (logos data) of
                  Some token \<Rightarrow> LogoData.logo token
                | None \<Rightarrow> defaultTokenLogo)))"

definition getTrackedTokenInfo :: "tokens_module \<Rightarrow> EVMChain \<Rightarrow> Address \<Rightarrow> TokenData option" where
  "getTrackedTokenInfo =
     (\<lambda>td chain address.
      case getChainTokenData td chain of
        Some data \<Rightarrow>
          List.find (\<lambda>token. toLowerCase (TokenData.address token) = toLowerCase address)
            (tokens data)
      | None \<Rightarrow> None)"

definition getNativeTokenSymbol :: "EVMChain \<Rightarrow> string" where
  "getNativeTokenSymbol =
     (\<lambda>chain.
      if chain = ''bsc'' then ''BNB''
      else if chain = ''poly'' then ''MATIC''
      else if chain = ''cronos'' then ''CRO''
      else toUpperCase chain)"

section \<open>The world of the normalization pipeline\<close>

text \<open>
  What the pipeline reads from outside: the chain registry, the batching helper, the
  token tables, the two ABIs of \<open>./ABIs\<close> (passed on to the helper unread), and the
  price lookup that the price oracle performs.
\<close>

record world =
  w_registry :: "EVMChain \<rightharpoonup> ChainData"
  w_helper :: batch_helper
  w_tokens :: tokens_module
  minABI :: ABI
  lpABI :: ABI
  w_price :: "EVMChain \<Rightarrow> Address \<Rightarrow> nat \<Rightarrow> string + rat"

text \<open>
  Modelled from the spec: \<open>getTokenPrice\<close> of the module \<open>./prices\<close>, which is not
  among the sources. The spec gives its interface as
  \<open>getPrice(chain, address, decimals) \<rightarrow> price | absent\<close> and says that a failure of the
  lookup must not propagate as an exception to the pipeline: the failure (\<open>Inl\<close>) of the
  underlying lookup becomes an absent price.
\<close>

definition getTokenPrice :: "world \<Rightarrow> EVMChain \<Rightarrow> Address \<Rightarrow> nat \<Rightarrow> rat option" where
  "getTokenPrice =
     (\<lambda>w chain address decimals.
      case w_price w chain address decimals of
        Inl failure \<Rightarrow> None
      | Inr price \<Rightarrow> Some price)"

section \<open>Reading decoded values\<close>

text \<open>
  \<open>results[key][0]\<close>: a missing key throws (\<open>undefined[0]\<close>), an empty list gives
  \<open>undefined\<close>. Then the value at the type the source declares for its variable.
\<close>

definition index_any :: "any list \<Rightarrow> nat \<Rightarrow> any" where
  "index_any vs i = (case at_index vs i of None \<Rightarrow> Undefined | Some v \<Rightarrow> v)"

definition first_value :: "(string \<rightharpoonup> any list) \<Rightarrow> string \<Rightarrow> error + any" where
  "first_value results key =
     (case results key of
        None \<Rightarrow> Inl TypeError
      | Some vs \<Rightarrow> Inr (index_any vs 0))"

definition as_string :: "any \<Rightarrow> error + string" where
  "as_string v = (case v of Str s \<Rightarrow> Inr s | _ \<Rightarrow> Inl IllTyped)"

definition as_decimals :: "any \<Rightarrow> error + nat" where
  "as_decimals v = (case v of Uint n \<Rightarrow> Inr n | _ \<Rightarrow> Inl IllTyped)"

definition first_string :: "(string \<rightharpoonup> any list) \<Rightarrow> string \<Rightarrow> error + string" where
  "first_string results key =
     (case first_value results key of Inl e \<Rightarrow> Inl e | Inr v \<Rightarrow> as_string v)"

definition first_decimals :: "(string \<rightharpoonup> any list) \<Rightarrow> string \<Rightarrow> error + nat" where
  "first_decimals results key =
     (case first_value results key of Inl e \<Rightarrow> Inl e | Inr v \<Rightarrow> as_decimals v)"

text \<open>
  \<open>parseBN\<close>: \<open>parseInt(ethers.BigNumber.from(bn).toString())\<close>. A big number or an
  integer number converts; \<open>undefined\<close>, a boolean or another object makes
  \<open>BigNumber.from\<close> throw. Strings are not among the values decoded for an integer.
\<close>

definition parseBN :: "any \<Rightarrow> error + int" where
  "parseBN bn =
     (case bn of
        BigNumber i \<Rightarrow> Inr i
      | Uint n \<Rightarrow> Inr (int n)
      | Str s \<Rightarrow> Inl IllTyped
      | _ \<Rightarrow> Inl InvalidBigNumber)"

text \<open>\<open>parseBN(results[key][0])\<close> and \<open>parseBN(values[i])\<close> of a list that may be missing.\<close>

definition first_bignumber :: "(string \<rightharpoonup> any list) \<Rightarrow> string \<Rightarrow> error + int" where
  "first_bignumber results key =
     (case first_value results key of Inl e \<Rightarrow> Inl e | Inr v \<Rightarrow> parseBN v)"

definition bignumber_at :: "any list option \<Rightarrow> nat \<Rightarrow> error + int" where
  "bignumber_at values i =
     (case values of None \<Rightarrow> Inl TypeError | Some vs \<Rightarrow> parseBN (index_any vs i))"

section \<open>Holding records\<close>

record PricedToken =
  symbol :: string
  address :: Address
  balance :: number
  price :: "rat option"
  logo :: URL

record Token =
  type :: string
  chain :: EVMChain
  location :: string
  status :: string
  owner :: Address
  symbol :: string
  address :: Address
  balance :: number
  price :: "rat option"
  logo :: URL

record LPToken =
  type :: string
  chain :: EVMChain
  location :: string
  status :: string
  owner :: Address
  symbol :: string
  address :: Address
  balance :: number
  token0 :: PricedToken
  token1 :: PricedToken

record XToken =
  type :: string
  chain :: EVMChain
  location :: string
  status :: string
  owner :: Address
  symbol :: string
  address :: Address
  balance :: number
  logo :: URL
  underlyingToken :: PricedToken

text \<open>The two calls that read a token's own metadata.\<close>

definition metadata_calls :: "CallContext list" where
  "metadata_calls =
     [\<lparr>CallContext.reference = ''symbol'', methodName = ''symbol'', methodParameters = []\<rparr>,
      \<lparr>CallContext.reference = ''decimals'', methodName = ''decimals'', methodParameters = []\<rparr>]"

text \<open>The six calls that \<open>addLPToken\<close> batches against the pool.\<close>

definition lp_calls :: "CallContext list" where
  "lp_calls =
     [\<lparr>CallContext.reference = ''symbol'', methodName = ''symbol'', methodParameters = []\<rparr>,
      \<lparr>CallContext.reference = ''decimals'', methodName = ''decimals'', methodParameters = []\<rparr>,
      \<lparr>CallContext.reference = ''reserves'', methodName = ''getReserves'', methodParameters = []\<rparr>,
      \<lparr>CallContext.reference = ''totalSupply'', methodName = ''totalSupply'', methodParameters = []\<rparr>,
      \<lparr>CallContext.reference = ''token0'', methodName = ''token0'', methodParameters = []\<rparr>,
      \<lparr>CallContext.reference = ''token1'', methodName = ''token1'', methodParameters = []\<rparr>]"

section \<open>The token normalization pipeline\<close>

definition addNativeToken :: "world \<Rightarrow> EVMChain \<Rightarrow> number \<Rightarrow> Address \<Rightarrow> Token" where
  "addNativeToken =
     (\<lambda>w chain rawBalance owner.
      let type = ''nativeToken'';
          location = ''wallet'';
          status = ''none'';
          address = defaultAddress;
          decimals = 18;
          balance = js_div rawBalance (pow10 decimals);
          price = getTokenPrice w chain defaultAddress decimals;
          symbol = getNativeTokenSymbol chain;
          logo = getTokenLogo (w_tokens w) chain symbol
      in \<lparr>Token.type = type, chain = chain, location = location, status = status,
          owner = owner, symbol = symbol, address = address, balance = balance,
          price = price, logo = logo\<rparr>)"

text \<open>
  \<open>addToken\<close>: the first step finds symbol, decimals and logo (the native sentinel, then
  the catalog, then one batch call); the second computes balance and price.
\<close>

definition addToken ::
  "world \<Rightarrow> EVMChain \<Rightarrow> string \<Rightarrow> string \<Rightarrow> Address \<Rightarrow> number \<Rightarrow> Address \<Rightarrow> Token io"
where
  "addToken =
     (\<lambda>w chain location status address rawBalance owner.
      let type = ''token'';
          calls =
            [\<lparr>CallContext.reference = ''symbol'', methodName = ''symbol'', methodParameters = []\<rparr>,
             \<lparr>CallContext.reference = ''decimals'', methodName = ''decimals'', methodParameters = []\<rparr>]
      in and_then
           (if toLowerCase address = defaultAddress then
              (let symbol = getNativeTokenSymbol chain
               in ret (symbol, 18, getTokenLogo (w_tokens w) chain symbol))
            else
              (case getTrackedTokenInfo (w_tokens w) chain address of
                 Some token \<Rightarrow>
                   ret (TokenData.symbol token, TokenData.decimals token, TokenData.logo token)
               | None \<Rightarrow>
                   and_then
                     (multicallOneContractQuery (w_registry w) (w_helper w) chain address
                        (minABI w) calls)
                     (\<lambda>multicallResults.
                        and_then (lift (first_string multicallResults ''symbol'')) (\<lambda>symbol.
                        and_then (lift (first_decimals multicallResults ''decimals'')) (\<lambda>decimals.
                        ret (symbol, decimals, getTokenLogo (w_tokens w) chain symbol))))))
           (\<lambda>(symbol, decimals, logo).
              let balance = js_div rawBalance (pow10 decimals);
                  price = getTokenPrice w chain address decimals
              in ret \<lparr>Token.type = type, chain = chain, location = location, status = status,
                      owner = owner, symbol = symbol, address = address, balance = balance,
                      price = price, logo = logo\<rparr>))"

text \<open>
  \<open>addLPToken\<close>, statement by statement. \<open>lpTokenReserves\<close> is read without an index
  first, so a missing \<open>reserves\<close> key throws only where \<open>lpTokenReserves[0]\<close> is read.
\<close>

definition addLPToken ::
  "world \<Rightarrow> EVMChain \<Rightarrow> string \<Rightarrow> string \<Rightarrow> Address \<Rightarrow> number \<Rightarrow> Address \<Rightarrow> LPToken io"
where
  "addLPToken =
     (\<lambda>w chain location status address rawBalance owner.
      let type = ''lpToken'';
          lpCalls =
            [\<lparr>CallContext.reference = ''symbol'', methodName = ''symbol'', methodParameters = []\<rparr>,
             \<lparr>CallContext.reference = ''decimals'', methodName = ''decimals'', methodParameters = []\<rparr>,
             \<lparr>CallContext.reference = ''reserves'', methodName = ''getReserves'', methodParameters = []\<rparr>,
             \<lparr>CallContext.reference = ''totalSupply'', methodName = ''totalSupply'', methodParameters = []\<rparr>,
             \<lparr>CallContext.reference = ''token0'', methodName = ''token0'', methodParameters = []\<rparr>,
             \<lparr>CallContext.reference = ''token1'', methodName = ''token1'', methodParameters = []\<rparr>];
          tokenCalls =
            [\<lparr>CallContext.reference = ''symbol'', methodName = ''symbol'', methodParameters = []\<rparr>,
             \<lparr>CallContext.reference = ''decimals'', methodName = ''decimals'', methodParameters = []\<rparr>]
      in
      and_then (multicallOneContractQuery (w_registry w) (w_helper w) chain address (lpABI w) lpCalls)
        (\<lambda>lpMulticallResults.
      and_then (lift (first_string lpMulticallResults ''symbol'')) (\<lambda>symbol.
      and_then (lift (first_decimals lpMulticallResults ''decimals'')) (\<lambda>decimals.
      let balance = js_div rawBalance (pow10 decimals);
          lpTokenReserves = lpMulticallResults ''reserves''
      in
      and_then (lift (first_bignumber lpMulticallResults ''totalSupply'')) (\<lambda>totalSupply.
      let lpTokenSupply = js_div (Num (of_int totalSupply)) (pow10 decimals) in
      and_then (lift (first_string lpMulticallResults ''token0'')) (\<lambda>address0.
      and_then (lift (first_string lpMulticallResults ''token1'')) (\<lambda>address1.
      let trackedToken0 = getTrackedTokenInfo (w_tokens w) chain address0;
          trackedToken1 = getTrackedTokenInfo (w_tokens w) chain address1
      in
      and_then
        (case trackedToken0 of
           Some t0 \<Rightarrow> ret (TokenData.symbol t0, TokenData.decimals t0)
         | None \<Rightarrow>
             and_then (multicallOneContractQuery (w_registry w) (w_helper w) chain address0
                         (minABI w) tokenCalls)
               (\<lambda>tokenMulticallResults.
                  and_then (lift (first_string tokenMulticallResults ''symbol'')) (\<lambda>symbol0.
                  and_then (lift (first_decimals tokenMulticallResults ''decimals'')) (\<lambda>decimals0.
                  ret (symbol0, decimals0)))))
        (\<lambda>(symbol0, decimals0).
      and_then
        (case trackedToken1 of
           Some t1 \<Rightarrow> ret (TokenData.symbol t1, TokenData.decimals t1)
         | None \<Rightarrow>
             and_then (multicallOneContractQuery (w_registry w) (w_helper w) chain address1
                         (minABI w) tokenCalls)
               (\<lambda>tokenMulticallResults.
                  and_then (lift (first_string tokenMulticallResults ''symbol'')) (\<lambda>symbol1.
                  and_then (lift (first_decimals tokenMulticallResults ''decimals'')) (\<lambda>decimals1.
                  ret (symbol1, decimals1)))))
        (\<lambda>(symbol1, decimals1).
      and_then (lift (bignumber_at lpTokenReserves 0)) (\<lambda>reserve0.
      let supply0 = js_div (Num (of_int reserve0)) (pow10 decimals0) in
      and_then (lift (bignumber_at lpTokenReserves 1)) (\<lambda>reserve1.
      let supply1 = js_div (Num (of_int reserve1)) (pow10 decimals1);
          token0 =
            \<lparr>PricedToken.symbol = symbol0, address = address0,
             balance = js_mul supply0 (js_div balance lpTokenSupply),
             price = getTokenPrice w chain address0 decimals0,
             logo = getTokenLogo (w_tokens w) chain symbol0\<rparr>;
          token1 =
            \<lparr>PricedToken.symbol = symbol1, address = address1,
             balance = js_mul supply1 (js_div balance lpTokenSupply),
             price = getTokenPrice w chain address1 decimals1,
             logo = getTokenLogo (w_tokens w) chain symbol1\<rparr>
      in ret \<lparr>LPToken.type = type, chain = chain, location = location, status = status,
              owner = owner, symbol = symbol, address = address, balance = balance,
              token0 = token0, token1 = token1\<rparr>)))))))))))"

definition addDebtToken ::
  "world \<Rightarrow> EVMChain \<Rightarrow> string \<Rightarrow> Address \<Rightarrow> number \<Rightarrow> Address \<Rightarrow> Token io"
where
  "addDebtToken =
     (\<lambda>w chain location address rawBalance owner.
      let type = ''debt'';
          status = ''borrowed'';
          calls =
            [\<lparr>CallContext.reference = ''symbol'', methodName = ''symbol'', methodParameters = []\<rparr>,
             \<lparr>CallContext.reference = ''decimals'', methodName = ''decimals'', methodParameters = []\<rparr>]
      in and_then
           (if toLowerCase address = defaultAddress then
              (let symbol = getNativeTokenSymbol chain
               in ret (symbol, 18, getTokenLogo (w_tokens w) chain symbol))
            else
              (case getTrackedTokenInfo (w_tokens w) chain address of
                 Some token \<Rightarrow>
                   ret (TokenData.symbol token, TokenData.decimals token, TokenData.logo token)
               | None \<Rightarrow>
                   and_then
                     (multicallOneContractQuery (w_registry w) (w_helper w) chain address
                        (minABI w) calls)
                     (\<lambda>multicallResults.
                        and_then (lift (first_string multicallResults ''symbol'')) (\<lambda>symbol.
                        and_then (lift (first_decimals multicallResults ''decimals'')) (\<lambda>decimals.
                        ret (symbol, decimals, getTokenLogo (w_tokens w) chain symbol))))))
           (\<lambda>(symbol, decimals, logo).
              let balance = js_div rawBalance (pow10 decimals);
                  price = getTokenPrice w chain address decimals
              in ret \<lparr>Token.type = type, chain = chain, location = location, status = status,
                      owner = owner, symbol = symbol, address = address, balance = balance,
                      price = price, logo = logo\<rparr>))"

text \<open>
  \<open>addXToken\<close>. The catalog lookup for the underlying token is made with \<open>address\<close>,
  the derivative token's own address, as the source has it.
\<close>

definition addXToken ::
  "world \<Rightarrow> EVMChain \<Rightarrow> string \<Rightarrow> string \<Rightarrow> Address \<Rightarrow> number \<Rightarrow> Address \<Rightarrow> Address \<Rightarrow> number \<Rightarrow>
   XToken io"
where
  "addXToken =
     (\<lambda>w chain location status address rawBalance owner underlyingAddress underlyingRawBalance.
      let type = ''xToken'';
          calls =
            [\<lparr>CallContext.reference = ''symbol'', methodName = ''symbol'', methodParameters = []\<rparr>,
             \<lparr>CallContext.reference = ''decimals'', methodName = ''decimals'', methodParameters = []\<rparr>]
      in
      and_then (multicallOneContractQuery (w_registry w) (w_helper w) chain address (minABI w) calls)
        (\<lambda>multicallResults.
      and_then (lift (first_string multicallResults ''symbol'')) (\<lambda>symbol.
      and_then (lift (first_decimals multicallResults ''decimals'')) (\<lambda>decimals.
      let balance = js_div rawBalance (pow10 decimals);
          logo = getTokenLogo (w_tokens w) chain symbol
      in
      and_then
        (case getTrackedTokenInfo (w_tokens w) chain address of
           Some token \<Rightarrow>
             ret (TokenData.symbol token, TokenData.decimals token, TokenData.logo token)
         | None \<Rightarrow>
             and_then (multicallOneContractQuery (w_registry w) (w_helper w) chain
                         underlyingAddress (minABI w) calls)
               (\<lambda>underlyingMulticallResults.
                  and_then (lift (first_string underlyingMulticallResults ''symbol''))
                    (\<lambda>underlyingSymbol.
                  and_then (lift (first_decimals underlyingMulticallResults ''decimals''))
                    (\<lambda>underlyingDecimals.
                  ret (underlyingSymbol, underlyingDecimals,
                       getTokenLogo (w_tokens w) chain underlyingSymbol)))))
        (\<lambda>(underlyingSymbol, underlyingDecimals, underlyingLogo).
      let underlyingToken =
            \<lparr>PricedToken.symbol = underlyingSymbol, address = underlyingAddress,
             balance = js_div underlyingRawBalance (pow10 underlyingDecimals),
             price = getTokenPrice w chain underlyingAddress underlyingDecimals,
             logo = underlyingLogo\<rparr>
      in ret \<lparr>XToken.type = type, chain = chain, location = location, status = status,
              owner = owner, symbol = symbol, address = address, balance = balance,
              logo = logo, underlyingToken = underlyingToken\<rparr>)))))"

definition addTrackedToken ::
  "world \<Rightarrow> EVMChain \<Rightarrow> string \<Rightarrow> string \<Rightarrow> TokenData \<Rightarrow> number \<Rightarrow> Address \<Rightarrow> Token"
where
  "addTrackedToken =
     (\<lambda>w chain location status token rawBalance owner.
      let type = ''token'';
          address = TokenData.address token;
          symbol = TokenData.symbol token;
          logo = TokenData.logo token;
          decimals = TokenData.decimals token;
          balance = js_div rawBalance (pow10 decimals);
          price = getTokenPrice w chain address decimals
      in \<lparr>Token.type = type, chain = chain, location = location, status = status,
          owner = owner, symbol = symbol, address = address, balance = balance,
          price = price, logo = logo\<rparr>)"

section \<open>The wallet scan\<close>

text \<open>
  \<open>provider.getBalance(wallet)\<close> at an endpoint, per attempt: \<open>Inl\<close> when it throws,
  otherwise the balance in base units (after \<open>parseInt\<close> of its decimal string).
\<close>

type_synonym balance_call = "nat \<Rightarrow> URL option \<Rightarrow> Address \<Rightarrow> string + nat"

text \<open>
  The variables of \<open>getWalletNativeTokenBalance\<close>: \<open>balance\<close> (\<open>undefined\<close> at first),
  \<open>errors\<close> and \<open>rpcID\<close>; the error thrown, if any, and the number of attempts made.
\<close>

record nstate =
  nb_balance :: "nat option"
  nb_errors :: nat
  nb_rpcID :: nat
  nb_thrown :: "error option"
  nb_attempts :: nat

definition native_init :: nstate where
  "native_init =
     \<lparr>nb_balance = None, nb_errors = 0, nb_rpcID = 0, nb_thrown = None, nb_attempts = 0\<rparr>"

text \<open>\<open>while(!balance && errors < maxQueryRetries)\<close>: \<open>undefined\<close> and \<open>0\<close> are falsy.\<close>

definition native_looping :: "nstate \<Rightarrow> bool" where
  "native_looping st =
     (nb_thrown st = None \<and> (nb_balance st = None \<or> nb_balance st = Some 0)
      \<and> nb_errors st < maxQueryRetries)"

text \<open>
  One iteration. The \<open>catch\<close> block throws nothing of its own; on an unknown chain the
  read of \<open>chains[chain].rpcs\<close> throws in the \<open>try\<close> block and again in the \<open>catch\<close> block.
\<close>

definition native_body ::
  "(EVMChain \<rightharpoonup> ChainData) \<Rightarrow> balance_call \<Rightarrow> EVMChain \<Rightarrow> Address \<Rightarrow> nstate \<Rightarrow> nstate"
where
  "native_body registry getBalance ch wallet st =
     (case registry ch of
        None \<Rightarrow> st\<lparr>nb_thrown := Some TypeError\<rparr>
      | Some cd \<Rightarrow>
          (let st1 = st\<lparr>nb_attempts := nb_attempts st + 1\<rparr> in
           case getBalance (nb_attempts st) (at_index (rpcs cd) (nb_rpcID st)) wallet of
             Inr b \<Rightarrow> st1\<lparr>nb_balance := Some b\<rparr>
           | Inl _ \<Rightarrow>
               (let st2 = st1\<lparr>nb_rpcID := nb_rpcID st1 + 1\<rparr> in
                if nb_rpcID st2 \<ge> length (rpcs cd)
                then st2\<lparr>nb_errors := nb_errors st2 + 1, nb_rpcID := 0\<rparr>
                else st2)))"

fun native_steps ::
  "nat \<Rightarrow> (EVMChain \<rightharpoonup> ChainData) \<Rightarrow> balance_call \<Rightarrow> EVMChain \<Rightarrow> Address \<Rightarrow> nstate \<Rightarrow> nstate"
where
  "native_steps 0 registry getBalance ch wallet st = st"
| "native_steps (Suc n) registry getBalance ch wallet st =
     (if native_looping st
      then native_steps n registry getBalance ch wallet
             (native_body registry getBalance ch wallet st)
      else st)"

text \<open>
  \<open>getWalletNativeTokenBalance\<close> with fuel: \<open>None\<close> when the loop is still running after
  \<open>fuel\<close> iterations.
\<close>

definition getWalletNativeTokenBalance ::
  "nat \<Rightarrow> world \<Rightarrow> balance_call \<Rightarrow> EVMChain \<Rightarrow> Address \<Rightarrow> (error + Token list) option"
where
  "getWalletNativeTokenBalance =
     (\<lambda>fuel w getBalance chain wallet.
      let st = native_steps fuel (w_registry w) getBalance chain wallet native_init in
      if native_looping st then None
      else Some
        (case nb_thrown st of
           Some e \<Rightarrow> Inl e
         | None \<Rightarrow>
             (case nb_balance st of
                None \<Rightarrow> Inr []
              | Some bal \<Rightarrow>
                  if bal > 0
                  then Inr [addNativeToken w chain (Num (of_nat bal)) wallet]
                  else Inr [])))"

text \<open>
  The branches of \<open>getWalletTokenBalance\<close>, one per tracked token, joined by
  \<open>Promise.all\<close>: a branch that throws makes the whole function throw. The tokens are
  pushed in the order in which the branches complete; the model lists them in catalog
  order, and what is proved of the list does not depend on its order.
\<close>

fun wallet_branches ::
  "world \<Rightarrow> EVMChain \<Rightarrow> Address \<Rightarrow> (Address \<rightharpoonup> any list) \<Rightarrow> TokenData list \<Rightarrow>
   error + Token list"
where
  "wallet_branches w ch wallet multicallResults [] = Inr []"
| "wallet_branches w ch wallet multicallResults (token # rest) =
     (case multicallResults (TokenData.address token) of
        None \<Rightarrow> wallet_branches w ch wallet multicallResults rest
      | Some balanceResults \<Rightarrow>
          (case parseBN (index_any balanceResults 0) of
             Inl e \<Rightarrow> Inl e
           | Inr rawBalance \<Rightarrow>
               if rawBalance > 0 then
                 (case wallet_branches w ch wallet multicallResults rest of
                    Inl e \<Rightarrow> Inl e
                  | Inr pushed \<Rightarrow>
                      Inr (addTrackedToken w ch ''wallet'' ''none'' token
                             (Num (of_int rawBalance)) wallet # pushed))
               else wallet_branches w ch wallet multicallResults rest))"

definition getWalletTokenBalance :: "world \<Rightarrow> EVMChain \<Rightarrow> Address \<Rightarrow> Token list io" where
  "getWalletTokenBalance =
     (\<lambda>w chain wallet.
      case getChainTokenData (w_tokens w) chain of
        None \<Rightarrow> ret []
      | Some data \<Rightarrow>
          (let addresses = map TokenData.address (tokens data) in
           and_then
             (multicallOneMethodQuery (w_registry w) (w_helper w) chain addresses (minABI w)
                ''balanceOf'' [Str wallet])
             (\<lambda>multicallResults.
                lift (wallet_branches w chain wallet multicallResults (tokens data)))))"

definition getWalletBalance ::
  "nat \<Rightarrow> world \<Rightarrow> balance_call \<Rightarrow> EVMChain \<Rightarrow> Address \<Rightarrow> (Token list io) option"
where
  "getWalletBalance =
     (\<lambda>fuel w getBalance chain wallet.
      case getWalletNativeTokenBalance fuel w getBalance chain wallet of
        None \<Rightarrow> None
      | Some (Inl e) \<Rightarrow> Some (Inl e, [])
      | Some (Inr native) \<Rightarrow>
          Some (and_then (getWalletTokenBalance w chain wallet)
                  (\<lambda>tokens. ret (native @ tokens))))"

section \<open>A protocol adapter: axial on avax\<close>

text \<open>
  The adapter awaits contract queries and build operations. What each of them yields
  for this wallet is a parameter: \<open>Inl\<close> when the awaited call throws, \<open>Inr\<close> its value.
  \<^item> \<open>q_poolLength\<close>: \<open>parseInt(await query(chain, masterChef, abi, 'poolLength', []))\<close>;
  \<^item> \<open>q_userInfo poolID\<close>: \<open>parseInt((await query(.., 'userInfo', [poolID, wallet])).amount)\<close>;
  \<^item> \<open>q_poolInfo poolID\<close>: \<open>(await query(.., 'poolInfo', [poolID])).lpToken\<close>;
  \<^item> \<open>q_symbol token\<close>: \<open>await query(chain, token, minABI, 'symbol', [])\<close>;
  \<^item> \<open>q_pendingTokens poolID\<close>: \<open>await query(.., 'pendingTokens', [poolID, wallet])\<close>;
  \<^item> \<open>r_addLPToken token balance\<close>: \<open>await addLPToken(chain, project, 'staked', token, balance, wallet)\<close>;
  \<^item> \<open>r_addAxialToken token balance\<close>: the same call of \<open>addAxialToken\<close>, which is not among
    the sources;
  \<^item> \<open>r_addToken address balance\<close>: \<open>await addToken(chain, project, 'unclaimed', address, balance, wallet)\<close>.
  An awaited call that never settles is outside this model.
\<close>

datatype holding = TokenHolding Token | LPHolding LPToken

record pending =
  pendingAxial :: int
  pendingBonusToken :: int
  bonusTokenAddress :: Address

record axial_calls =
  q_poolLength :: "error + nat"
  q_userInfo :: "nat \<Rightarrow> error + int"
  q_poolInfo :: "nat \<Rightarrow> error + Address"
  q_symbol :: "Address \<Rightarrow> error + string"
  q_pendingTokens :: "nat \<Rightarrow> error + pending"
  r_addLPToken :: "Address \<Rightarrow> int \<Rightarrow> error + LPToken"
  r_addAxialToken :: "Address \<Rightarrow> int \<Rightarrow> error + Token"
  r_addToken :: "Address \<Rightarrow> int \<Rightarrow> error + Token"

definition axialToken :: Address where
  "axialToken = ''0xcF8419A615c57511807236751c0AF38Db4ba3351''"

text \<open>
  One branch of \<open>getPoolBalances\<close>, the async function mapped over the pool ids: the
  holdings it has pushed to \<open>balances\<close>, and the error with which its promise rejects, if
  it does. There is no \<open>try\<close> inside the branch.
\<close>

definition pool_branch :: "axial_calls \<Rightarrow> nat \<Rightarrow> holding list \<times> error option" where
  "pool_branch env poolID =
     (case q_userInfo env poolID of
        Inl e \<Rightarrow> ([], Some e)
      | Inr staked \<Rightarrow>
          if staked > 0 then
            (case q_poolInfo env poolID of
               Inl e \<Rightarrow> ([], Some e)
             | Inr token \<Rightarrow>
                 (case q_symbol env token of
                    Inl e \<Rightarrow> ([], Some e)
                  | Inr poolSymbol \<Rightarrow>
                      (case (if poolSymbol = ''JLP'' \<or> poolSymbol = ''PGL''
                             then map_sum id LPHolding (r_addLPToken env token staked)
                             else map_sum id TokenHolding (r_addAxialToken env token staked)) of
                         Inl e \<Rightarrow> ([], Some e)
                       | Inr newToken \<Rightarrow>
                           (case q_pendingTokens env poolID of
                              Inl e \<Rightarrow> ([newToken], Some e)
                            | Inr rewards \<Rightarrow>
                                (case (if pendingAxial rewards > 0
                                       then map_sum id (\<lambda>t. [TokenHolding t])
                                              (r_addToken env axialToken (pendingAxial rewards))
                                       else Inr []) of
                                   Inl e \<Rightarrow> ([newToken], Some e)
                                 | Inr axialRewards \<Rightarrow>
                                     (case (if pendingBonusToken rewards > 0
                                            then map_sum id (\<lambda>t. [TokenHolding t])
                                                   (r_addToken env (bonusTokenAddress rewards)
                                                      (pendingBonusToken rewards))
                                            else Inr []) of
                                        Inl e \<Rightarrow> (newToken # axialRewards, Some e)
                                      | Inr bonusRewards \<Rightarrow>
                                          (newToken # axialRewards @ bonusRewards, None)))))))
          else ([], None))"

text \<open>
  \<open>getPoolBalances\<close>: \<open>Promise.all\<close> rejects when a branch rejects, and the function
  throws; otherwise it returns what the branches have pushed. The branches push in the
  order in which they complete; the model lists the holdings in pool order, and which
  rejection \<open>Promise.all\<close> passes on does not matter to \<open>get\<close>.
\<close>

definition getPoolBalances :: "axial_calls \<Rightarrow> error + holding list" where
  "getPoolBalances env =
     (case q_poolLength env of
        Inl e \<Rightarrow> Inl e
      | Inr poolCount \<Rightarrow>
          (let pools = [0..<poolCount];
               promises = map (pool_branch env) pools
           in case List.find (\<lambda>p. snd p \<noteq> None) promises of
                Some rejected \<Rightarrow> (case snd rejected of Some e \<Rightarrow> Inl e | None \<Rightarrow> Inl TypeError)
              | None \<Rightarrow> Inr (concat (map fst promises))))"

text \<open>\<open>get\<close>: whatever \<open>getPoolBalances\<close> throws is caught (and logged); \<open>balance\<close> stays empty.\<close>

definition get :: "axial_calls \<Rightarrow> holding list" where
  "get env =
     (case getPoolBalances env of
        Inl e \<Rightarrow> []
      | Inr balances \<Rightarrow> balances)"

section \<open>Concrete worlds for the examples\<close>

text \<open>A network on which every attempt throws.\<close>

definition fail_net :: contract_call where
  "fail_net t u addr iface m args = Inl ''timeout''"


text \<open>
  A chain with one endpoint, and a network on which every attempt succeeds and resolves
  to the empty string, as \<open>symbol()\<close> of a token without a symbol does.
\<close>

definition one_rpc_registry :: "EVMChain \<rightharpoonup> ChainData" where
  "one_rpc_registry = [''avax'' \<mapsto> \<lparr>rpcs = [''https://rpc''], multicall = ''0xmc''\<rparr>]"

definition empty_symbol_net :: contract_call where
  "empty_symbol_net t u addr iface m args = Inr (Str [])"

text \<open>
  A batching helper that answers from a table of the chain's state: per contract and
  method the decoded values, or \<open>None\<close> when that call fails inside the batch. Each
  contract context is answered under its reference, call by call, in order.
\<close>

definition answering :: "(Address \<Rightarrow> string \<Rightarrow> any list option) \<Rightarrow> batch_helper" where
  "answering table url mc queries =
     Inr (map_of (map (\<lambda>q. (ContractCallContext.reference q,
            \<lparr>originalContractCallContext = q,
             callsReturnContext = map (\<lambda>c.
               \<lparr>returnValues =
                  (case table (contractAddress q) (CallContext.methodName c) of
                     None \<Rightarrow> [] | Some vs \<Rightarrow> vs),
                decoded = (table (contractAddress q) (CallContext.methodName c) \<noteq> None),
                reference = CallContext.reference c,
                methodName = CallContext.methodName c,
                methodParameters = CallContext.methodParameters c,
                success = (table (contractAddress q) (CallContext.methodName c) \<noteq> None)\<rparr>)
               (calls q)\<rparr>)) queries))"

text \<open>A pool whose \<open>decimals()\<close> call fails inside the batch, and a batch of three calls.\<close>

definition pool_table :: "Address \<Rightarrow> string \<Rightarrow> any list option" where
  "pool_table contract m =
     (if contract = ''0xpool'' \<and> m = ''symbol'' then Some [Str ''JLP'']
      else if contract = ''0xpool'' \<and> m = ''totalSupply'' then Some [BigNumber 100]
      else None)"

definition three_calls :: "CallContext list" where
  "three_calls =
     [\<lparr>CallContext.reference = ''first'', methodName = ''symbol'', methodParameters = []\<rparr>,
      \<lparr>CallContext.reference = ''second'', methodName = ''decimals'', methodParameters = []\<rparr>,
      \<lparr>CallContext.reference = ''third'', methodName = ''totalSupply'', methodParameters = []\<rparr>]"

text \<open>
  Token tables without entries, and a world over them: chain \<open>avax\<close> with one endpoint,
  a helper whose calls all fail inside the batch, and a price lookup that fails.
\<close>

definition no_tokens :: ChainTokenData where
  "no_tokens = \<lparr>tokens = [], logos = []\<rparr>"

definition empty_tokens :: tokens_module where
  "empty_tokens =
     \<lparr>eth_data = no_tokens, bsc_data = no_tokens, poly_data = no_tokens, ftm_data = no_tokens,
      avax_data = no_tokens, one_data = no_tokens, cronos_data = no_tokens\<rparr>"

definition base_world :: world where
  "base_world =
     \<lparr>w_registry = one_rpc_registry, w_helper = answering (\<lambda>contract m. None),
      w_tokens = empty_tokens, minABI = [''symbol'', ''decimals'', ''balanceOf''],
      lpABI = [''symbol'', ''decimals'', ''getReserves'', ''totalSupply'', ''token0'', ''token1''],
      w_price = (\<lambda>ch a d. Inl ''no price'')\<rparr>"

text \<open>A catalog for chain \<open>eth\<close> that lists the native sentinel address as a token.\<close>

definition sentinel_entry :: TokenData where
  "sentinel_entry =
     \<lparr>TokenData.address = ''0xeeeeeeeeeeeeeeeeeeeeeeeeeeeeeeeeeeeeeeee'', symbol = ''WRAPPED'',
      logo = ''https://logos/wrapped.png'', decimals = 6\<rparr>"

definition sentinel_world :: world where
  "sentinel_world =
     base_world\<lparr>w_tokens := empty_tokens\<lparr>eth_data := \<lparr>tokens = [sentinel_entry], logos = []\<rparr>\<rparr>\<rparr>"

text \<open>
  A catalog for chain \<open>avax\<close> with one tracked token, a chain state that answers for one
  untracked token, and a price for the tracked one.
\<close>

definition wavax_entry :: TokenData where
  "wavax_entry =
     \<lparr>TokenData.address = ''0xB31f66AA3C1e785363F0875A1B74E27b85FD66c7'', symbol = ''WAVAX'',
      logo = ''https://logos/wavax.png'', decimals = 18\<rparr>"

definition avax_table :: "Address \<Rightarrow> string \<Rightarrow> any list option" where
  "avax_table contract m =
     (if contract = ''0xc7198437980c041c805a1edcba50c1ce5db95118'' \<and> m = ''symbol''
      then Some [Str ''USDT.e'']
      else if contract = ''0xc7198437980c041c805a1edcba50c1ce5db95118'' \<and> m = ''decimals''
      then Some [Uint 6]
      else None)"

definition avax_world :: world where
  "avax_world =
     base_world\<lparr>w_helper := answering avax_table,
       w_tokens := empty_tokens\<lparr>avax_data := \<lparr>tokens = [wavax_entry], logos = []\<rparr>\<rparr>,
       w_price := (\<lambda>ch a d. if a = ''0xb31f66aa3c1e785363f0875a1b74e27b85fd66c7''
                              then Inr 20 else Inl ''no price'')\<rparr>"

text \<open>
  A derivative token and its underlying token, both answering for their own metadata on
  chain, with a catalog that tracks both and a catalog that tracks the underlying only.
\<close>

definition xusdc_entry :: TokenData where
  "xusdc_entry =
     \<lparr>TokenData.address = ''0x1111111111111111111111111111111111111111'', symbol = ''xUSDC'',
      logo = ''https://logos/xusdc.png'', decimals = 18\<rparr>"

definition usdc_entry :: TokenData where
  "usdc_entry =
     \<lparr>TokenData.address = ''0x2222222222222222222222222222222222222222'', symbol = ''USDC'',
      logo = ''https://logos/usdc.png'', decimals = 6\<rparr>"

definition x_table :: "Address \<Rightarrow> string \<Rightarrow> any list option" where
  "x_table contract m =
     (if contract = ''0x1111111111111111111111111111111111111111'' \<and> m = ''symbol''
      then Some [Str ''xUSDC'']
      else if contract = ''0x1111111111111111111111111111111111111111'' \<and> m = ''decimals''
      then Some [Uint 18]
      else if contract = ''0x2222222222222222222222222222222222222222'' \<and> m = ''symbol''
      then Some [Str ''USDC'']
      else if contract = ''0x2222222222222222222222222222222222222222'' \<and> m = ''decimals''
      then Some [Uint 6]
      else None)"

definition both_tracked_world :: world where
  "both_tracked_world =
     base_world\<lparr>w_helper := answering x_table,
       w_tokens := empty_tokens\<lparr>avax_data := \<lparr>tokens = [xusdc_entry, usdc_entry], logos = []\<rparr>\<rparr>\<rparr>"

definition underlying_tracked_world :: world where
  "underlying_tracked_world =
     base_world\<lparr>w_helper := answering x_table,
       w_tokens := empty_tokens\<lparr>avax_data := \<lparr>tokens = [usdc_entry], logos = []\<rparr>\<rparr>\<rparr>"

text \<open>
  A pool on chain \<open>avax\<close> with 18 decimals: reserves of 1000 units of a token with 6
  decimals (not tracked, answering for its metadata) and 2000 units of the tracked
  \<open>WAVAX\<close>, and a total supply of 100 units.
\<close>

definition pool_address :: Address where
  "pool_address = ''0x3333333333333333333333333333333333333333''"

definition lp_table :: "Address \<Rightarrow> string \<Rightarrow> any list option" where
  "lp_table contract m =
     (if contract = ''0x3333333333333333333333333333333333333333'' then
        (if m = ''symbol'' then Some [Str ''JLP'']
         else if m = ''decimals'' then Some [Uint 18]
         else if m = ''getReserves''
           then Some [BigNumber 1000000000, BigNumber 2000000000000000000000, Uint 1650000000]
         else if m = ''totalSupply'' then Some [BigNumber 100000000000000000000]
         else if m = ''token0'' then Some [Str ''0x2222222222222222222222222222222222222222'']
         else if m = ''token1'' then Some [Str ''0xB31f66AA3C1e785363F0875A1B74E27b85FD66c7'']
         else None)
      else x_table contract m)"

definition lp_world :: world where
  "lp_world =
     base_world\<lparr>w_helper := answering lp_table,
       w_tokens := empty_tokens\<lparr>avax_data := \<lparr>tokens = [wavax_entry], logos = []\<rparr>\<rparr>\<rparr>"

definition lp_underlying :: "rat \<Rightarrow> rat \<Rightarrow> PricedToken \<times> PricedToken" where
  "lp_underlying share0 share1 =
     (\<lparr>PricedToken.symbol = ''USDC'', address = ''0x2222222222222222222222222222222222222222'',
       balance = Num share0, price = None, logo = defaultTokenLogo\<rparr>,
      \<lparr>PricedToken.symbol = ''WAVAX'', address = ''0xB31f66AA3C1e785363F0875A1B74E27b85FD66c7'',
       balance = Num share1, price = None, logo = ''https://logos/wavax.png''\<rparr>)"

definition lp_holding :: "rat \<Rightarrow> rat \<Rightarrow> rat \<Rightarrow> LPToken" where
  "lp_holding held share0 share1 =
     \<lparr>LPToken.type = ''lpToken'', chain = ''avax'', location = ''pangolin'', status = ''staked'',
      owner = ''0xowner'', symbol = ''JLP'', address = pool_address, balance = Num held,
      token0 = fst (lp_underlying share0 share1), token1 = snd (lp_underlying share0 share1)\<rparr>"

definition lp_batches :: "ContractCallContext list list" where
  "lp_batches =
     [[\<lparr>ContractCallContext.reference = ''oneContractQuery'', contractAddress = pool_address,
        abi = [''symbol'', ''decimals'', ''getReserves'', ''totalSupply'', ''token0'', ''token1''],
        calls = lp_calls\<rparr>],
      [\<lparr>ContractCallContext.reference = ''oneContractQuery'',
        contractAddress = ''0x2222222222222222222222222222222222222222'',
        abi = [''symbol'', ''decimals'', ''balanceOf''], calls = metadata_calls\<rparr>]]"

text \<open>
  A wallet on chain \<open>avax\<close>: three tracked tokens, of which the wallet holds none of the
  first, five units of the second, and the \<open>balanceOf\<close> call of the third fails inside
  the batch; the provider reports a native balance of three units.
\<close>

definition wallet_table :: "Address \<Rightarrow> string \<Rightarrow> any list option" where
  "wallet_table contract m =
     (if contract = ''0xB31f66AA3C1e785363F0875A1B74E27b85FD66c7'' \<and> m = ''balanceOf''
      then Some [BigNumber 0]
      else if contract = ''0x2222222222222222222222222222222222222222'' \<and> m = ''balanceOf''
      then Some [BigNumber 5000000]
      else None)"

definition wallet_world :: world where
  "wallet_world =
     base_world\<lparr>w_helper := answering wallet_table,
       w_tokens := empty_tokens\<lparr>avax_data :=
         \<lparr>tokens = [wavax_entry, usdc_entry, xusdc_entry], logos = []\<rparr>\<rparr>\<rparr>"

definition three_units :: balance_call where
  "three_units t u wallet = Inr 3000000000000000000"

definition wallet_holdings :: "Token list" where
  "wallet_holdings =
     [\<lparr>Token.type = ''nativeToken'', chain = ''avax'', location = ''wallet'', status = ''none'',
       owner = ''0xowner'', symbol = ''AVAX'',
       address = ''0xeeeeeeeeeeeeeeeeeeeeeeeeeeeeeeeeeeeeeeee'', balance = Num 3, price = None,
       logo = defaultTokenLogo\<rparr>,
      \<lparr>Token.type = ''token'', chain = ''avax'', location = ''wallet'', status = ''none'',
       owner = ''0xowner'', symbol = ''USDC'',
       address = ''0x2222222222222222222222222222222222222222'', balance = Num 5, price = None,
       logo = ''https://logos/usdc.png''\<rparr>]"

text \<open>A provider that reports a native balance of zero on every attempt.\<close>

definition zero_units :: balance_call where
  "zero_units t u wallet = Inr 0"

text \<open>
  Two pools for the adapter: the \<open>userInfo\<close> query of pool 0 throws; in pool 1 the wallet
  has staked 10 units of the example pool token and has nothing pending.
\<close>

definition two_pools :: axial_calls where
  "two_pools =
     \<lparr>q_poolLength = Inr 2,
      q_userInfo = (\<lambda>poolID. if poolID = 0
                     then Inl (WeaverError ''avax'' None ''Querying userInfo(0,0xowner) on 0x958C0d0baA8F220846d3966742D4Fb5edc5493D3'' None)
                     else Inr 10000000000000000000),
      q_poolInfo = (\<lambda>poolID. Inr pool_address),
      q_symbol = (\<lambda>token. Inr ''JLP''),
      q_pendingTokens = (\<lambda>poolID. Inr \<lparr>pendingAxial = 0, pendingBonusToken = 0,
                                       bonusTokenAddress = zero\<rparr>),
      r_addLPToken = (\<lambda>token staked. Inr (lp_holding 10 100 200)),
      r_addAxialToken = (\<lambda>token staked. Inl TypeError),
      r_addToken = (\<lambda>a staked. Inl TypeError)\<rparr>"

text \<open>The same pools when the \<open>userInfo\<close> query of pool 0 answers with a balance of zero.\<close>

definition two_pools_ok :: axial_calls where
  "two_pools_ok = two_pools\<lparr>q_userInfo := (\<lambda>poolID. if poolID = 0 then Inr 0
                                                    else Inr 10000000000000000000)\<rparr>"

section \<open>Properties of the failover query executor\<close>

lemma query_steps_idle:
  "\<not> looping st \<Longrightarrow> query_steps n registry net ch addr iface m args st = st"
  by (cases n) simp_all

lemma query_steps_add:
  "query_steps (a + b) registry net ch addr iface m args st =
   query_steps b registry net ch addr iface m args
     (query_steps a registry net ch addr iface m args st)"
proof (induction a arbitrary: st)
  case 0
  show ?case by simp
next
  case (Suc a)
  show ?case
  proof (cases "looping st")
    case True
    then show ?thesis using Suc by simp
  next
    case False
    then show ?thesis by (simp add: query_steps_idle)
  qed
qed

lemma query_pass:
  assumes reg: "registry ch = Some cd"
      and fail: "\<forall>t u. isl (net t u addr iface m args)"
  shows "i < length (rpcs cd) \<Longrightarrow> e < maxQueryRetries \<Longrightarrow> n = length (rpcs cd) - i \<Longrightarrow>
     query_steps n registry net ch addr iface m args
       \<lparr>result = Undefined, errors = e, rpcID = i, thrown = None, sent = s\<rparr> =
     \<lparr>result = Undefined, errors = Suc e,
      rpcID = (if Suc e < maxQueryRetries then 0 else length (rpcs cd)),
      thrown = (if Suc e < maxQueryRetries \<or> ignored ch addr then None
                else Some (WeaverError ch None (query_description m args addr) None)),
      sent = s @ map Some (drop i (rpcs cd))\<rparr>"
proof (induction n arbitrary: i s)
  case 0
  then show ?case by simp
next
  case (Suc n)
  let ?st = "\<lparr>result = Undefined, errors = e, rpcID = i, thrown = None, sent = s\<rparr>"
  have lp: "looping ?st" using Suc.prems by (simp add: looping_def)
  obtain x where x: "net (length s) (Some (rpcs cd ! i)) addr iface m args = Inl x"
    using fail by (auto simp: isl_def)
  have dr: "drop i (rpcs cd) = rpcs cd ! i # drop (Suc i) (rpcs cd)"
    using Suc.prems by (simp add: Cons_nth_drop_Suc)
  show ?case
  proof (cases "Suc i < length (rpcs cd)")
    case True
    have body: "query_body registry net ch addr iface m args ?st =
        \<lparr>result = Undefined, errors = e, rpcID = Suc i, thrown = None,
         sent = s @ [Some (rpcs cd ! i)]\<rparr>"
      using True Suc.prems reg x by (simp add: query_body_def query_catch_def at_index_def)
    have n: "n = length (rpcs cd) - Suc i" using Suc.prems by simp
    show ?thesis
      using lp body Suc.IH[OF True Suc.prems(2) n, of "s @ [Some (rpcs cd ! i)]"] dr
      by simp
  next
    case False
    then have n0: "n = 0" and last: "Suc i = length (rpcs cd)" using Suc.prems by simp_all
    have body: "query_body registry net ch addr iface m args ?st =
        \<lparr>result = Undefined, errors = Suc e,
         rpcID = (if Suc e < maxQueryRetries then 0 else length (rpcs cd)),
         thrown = (if Suc e < maxQueryRetries \<or> ignored ch addr then None
                else Some (WeaverError ch None (query_description m args addr) None)),
         sent = s @ [Some (rpcs cd ! i)]\<rparr>"
      using last Suc.prems reg x
      by (simp add: query_body_def query_catch_def at_index_def Let_def)
    show ?thesis using lp body n0 dr last by simp
  qed
qed


lemma query_exhausted:
  assumes reg: "registry ch = Some cd"
      and fail: "\<forall>t u. isl (net t u addr iface m args)"
      and k: "rpcs cd \<noteq> []"
  shows "query_steps (maxQueryRetries * length (rpcs cd)) registry net ch addr iface m args
           query_init =
         \<lparr>result = Undefined, errors = maxQueryRetries, rpcID = length (rpcs cd),
          thrown = (if ignored ch addr then None
                    else Some (WeaverError ch None (query_description m args addr) None)),
          sent = concat (replicate maxQueryRetries (map Some (rpcs cd)))\<rparr>"
proof -
  let ?k = "length (rpcs cd)"
  have k0: "0 < ?k" using k by simp
  have split: "maxQueryRetries * ?k = ?k + (?k + ?k)" by (simp add: maxQueryRetries_def)
  have p1: "query_steps ?k registry net ch addr iface m args query_init =
      \<lparr>result = Undefined, errors = 1, rpcID = 0, thrown = None, sent = map Some (rpcs cd)\<rparr>"
    using query_pass[where registry=registry and ch=ch and net=net and addr=addr and iface=iface and m=m and args=args and i=0 and e=0 and n="?k" and s="[]", OF reg fail] k0
    by (simp add: query_init_def maxQueryRetries_def)
  have p2: "query_steps ?k registry net ch addr iface m args
      \<lparr>result = Undefined, errors = 1, rpcID = 0, thrown = None, sent = map Some (rpcs cd)\<rparr> =
      \<lparr>result = Undefined, errors = 2, rpcID = 0, thrown = None,
       sent = map Some (rpcs cd) @ map Some (rpcs cd)\<rparr>"
    using query_pass[where registry=registry and ch=ch and net=net and addr=addr and iface=iface and m=m and args=args and i=0 and e=1 and n="?k" and s="map Some (rpcs cd)", OF reg fail] k0
    by (simp add: maxQueryRetries_def)
  have p3: "query_steps ?k registry net ch addr iface m args
      \<lparr>result = Undefined, errors = 2, rpcID = 0, thrown = None,
       sent = map Some (rpcs cd) @ map Some (rpcs cd)\<rparr> =
      \<lparr>result = Undefined, errors = 3, rpcID = ?k,
       thrown = (if ignored ch addr then None
                 else Some (WeaverError ch None (query_description m args addr) None)),
       sent = map Some (rpcs cd) @ map Some (rpcs cd) @ map Some (rpcs cd)\<rparr>"
    using query_pass[where registry=registry and ch=ch and net=net and addr=addr and iface=iface and m=m and args=args and i=0 and e=2 and n="?k" and s="map Some (rpcs cd) @ map Some (rpcs cd)", OF reg fail] k0
    by (simp add: maxQueryRetries_def)
  have rep: "concat (replicate maxQueryRetries (map Some (rpcs cd))) =
      map Some (rpcs cd) @ map Some (rpcs cd) @ map Some (rpcs cd)"
    by (simp add: maxQueryRetries_def numeral_3_eq_3)
  show ?thesis
    unfolding split query_steps_add p1 p2 p3 rep by (simp add: maxQueryRetries_def)
qed

text \<open>
  C1. On a chain of the registry with \<open>k \<ge> 1\<close> endpoints, when every attempt throws,
  \<open>query\<close> returns once it has enough fuel, after exactly \<open>k * 3\<close> attempts (three
  passes over the endpoints in order): it throws the \<open>WeaverError\<close> that carries the
  chain and a description naming the method, the arguments and the address, unless
  \<open>(chain, toLowerCase address)\<close> is in \<open>ignoredErrors\<close>, where it returns
  \<open>undefined\<close> after the same attempts. The first entry of the list is suppressed.
\<close>

theorem query_every_attempt_fails:
  assumes reg: "registry ch = Some cd"
      and k: "rpcs cd \<noteq> []"
      and fail: "\<forall>t u. isl (net t u addr iface m args)"
      and fuel: "maxQueryRetries * length (rpcs cd) \<le> fuel"
  shows "query fuel registry net ch addr iface m args =
           Some (if ignored ch addr then Inr Undefined
                 else Inl (WeaverError ch None (query_description m args addr) None),
                 concat (replicate maxQueryRetries (map Some (rpcs cd))))
         \<and> length (concat (replicate maxQueryRetries (map Some (rpcs cd)))) =
             length (rpcs cd) * 3
         \<and> ignored ''poly'' ''0x8aaa5e259f74c8114e0a471d9f2adfc66bfe09ed''"
proof -
  let ?n = "maxQueryRetries * length (rpcs cd)"
  let ?fin = "query_steps ?n registry net ch addr iface m args query_init"
  have fin: "?fin = \<lparr>result = Undefined, errors = maxQueryRetries, rpcID = length (rpcs cd),
          thrown = (if ignored ch addr then None
                    else Some (WeaverError ch None (query_description m args addr) None)),
          sent = concat (replicate maxQueryRetries (map Some (rpcs cd)))\<rparr>"
    by (rule query_exhausted[where registry=registry and ch=ch and net=net and addr=addr and iface=iface and m=m and args=args, OF reg fail k])
  have stop: "\<not> looping ?fin" unfolding fin by (simp add: looping_def)
  have "query_steps fuel registry net ch addr iface m args query_init =
        query_steps (?n + (fuel - ?n)) registry net ch addr iface m args query_init"
    using fuel by simp
  also have "\<dots> = ?fin"
    unfolding query_steps_add using stop by (rule query_steps_idle)
  finally have run: "query_steps fuel registry net ch addr iface m args query_init = ?fin" .
  have q: "query fuel registry net ch addr iface m args =
           Some (if ignored ch addr then Inr Undefined
                 else Inl (WeaverError ch None (query_description m args addr) None),
                 concat (replicate maxQueryRetries (map Some (rpcs cd))))"
    unfolding query_def run using stop unfolding fin by (simp add: Let_def)
  have len: "length (concat (replicate maxQueryRetries (map Some (rpcs cd)))) = length (rpcs cd) * 3"
    by (simp add: maxQueryRetries_def numeral_3_eq_3)
  have poly: "ignored ''poly'' ''0x8aaa5e259f74c8114e0a471d9f2adfc66bfe09ed''"
    by (simp add: ignored_def ignoredErrors_def toLowerCase_def lower_char_def Let_def)
  from q len poly show ?thesis by simp
qed

text \<open>
  The theorem at chain \<open>poly\<close> with two endpoints: the suppressed address (in mixed
  case) resolves to \<open>undefined\<close> and another address throws, each after six attempts.
\<close>

theorem query_every_attempt_fails_witness:
  "query 6 [''poly'' \<mapsto> \<lparr>rpcs = [''https://a'', ''https://b''], multicall = ''0xmc''\<rparr>] fail_net
      ''poly'' ''0x8AAA5e259F74c8114e0a471d9f2ADFc66Bfe09ed'' [] ''allPairs'' [''0'']
     = Some (Inr Undefined,
         [Some ''https://a'', Some ''https://b'', Some ''https://a'', Some ''https://b'',
          Some ''https://a'', Some ''https://b''])
   \<and> query 6 [''poly'' \<mapsto> \<lparr>rpcs = [''https://a'', ''https://b''], multicall = ''0xmc''\<rparr>] fail_net
      ''poly'' ''0x1111111111111111111111111111111111111111'' [] ''balanceOf'' [''0xab'', ''7'']
     = Some (Inl (WeaverError ''poly'' None
           ''Querying balanceOf(0xab,7) on 0x1111111111111111111111111111111111111111'' None),
         [Some ''https://a'', Some ''https://b'', Some ''https://a'', Some ''https://b'',
          Some ''https://a'', Some ''https://b''])"
proof -
  let ?reg = "[''poly'' \<mapsto> \<lparr>rpcs = [''https://a'', ''https://b''], multicall = ''0xmc''\<rparr>]"
  let ?cd = "\<lparr>rpcs = [''https://a'', ''https://b''], multicall = ''0xmc''\<rparr>"
  have reg: "?reg ''poly'' = Some ?cd" by simp
  have k: "rpcs ?cd \<noteq> []" by simp
  have fuel: "maxQueryRetries * length (rpcs ?cd) \<le> 6" by (simp add: maxQueryRetries_def)
  have f: "\<And>addr iface m args. \<forall>t u. isl (fail_net t u addr iface m args)"
    by (simp add: fail_net_def)
  have ig1: "ignored ''poly'' ''0x8AAA5e259F74c8114e0a471d9f2ADFc66Bfe09ed''"
    by (simp add: ignored_def ignoredErrors_def toLowerCase_def lower_char_def Let_def)
  have ig2: "\<not> ignored ''poly'' ''0x1111111111111111111111111111111111111111''"
    by (simp add: ignored_def ignoredErrors_def toLowerCase_def lower_char_def Let_def)
  show ?thesis
    using query_every_attempt_fails[where registry="[''poly'' \<mapsto> \<lparr>rpcs = [''https://a'', ''https://b''], multicall = ''0xmc''\<rparr>]" and ch="''poly''" and net=fail_net and addr="''0x8AAA5e259F74c8114e0a471d9f2ADFc66Bfe09ed''" and iface="[]" and m="''allPairs''" and args="[''0'']", OF reg k f fuel]
          query_every_attempt_fails[where registry="[''poly'' \<mapsto> \<lparr>rpcs = [''https://a'', ''https://b''], multicall = ''0xmc''\<rparr>]" and ch="''poly''" and net=fail_net and addr="''0x1111111111111111111111111111111111111111''" and iface="[]" and m="''balanceOf''" and args="[''0xab'', ''7'']", OF reg k f fuel]
          ig1 ig2
    by (simp add: maxQueryRetries_def numeral_3_eq_3 query_description_def)
qed

lemma query_steps_falsy:
  "\<not> truthy r \<Longrightarrow>
   query_steps n one_rpc_registry empty_symbol_net ''avax'' addr iface m args
     \<lparr>result = r, errors = 0, rpcID = 0, thrown = None, sent = s\<rparr> =
   \<lparr>result = (if n = 0 then r else Str []), errors = 0, rpcID = 0, thrown = None,
    sent = s @ replicate n (Some ''https://rpc'')\<rparr>"
proof (induction n arbitrary: r s)
  case 0
  show ?case by simp
next
  case (Suc n)
  have lp: "looping \<lparr>result = r, errors = 0, rpcID = 0, thrown = None, sent = s\<rparr>"
    using Suc.prems by (simp add: looping_def maxQueryRetries_def)
  have body: "query_body one_rpc_registry empty_symbol_net ''avax'' addr iface m args
      \<lparr>result = r, errors = 0, rpcID = 0, thrown = None, sent = s\<rparr> =
      \<lparr>result = Str [], errors = 0, rpcID = 0, thrown = None, sent = s @ [Some ''https://rpc'']\<rparr>"
    by (simp add: query_body_def one_rpc_registry_def empty_symbol_net_def at_index_def)
  have "\<not> truthy (Str [])" by simp
  from Suc.IH[OF this, of "s @ [Some ''https://rpc'']"] lp body
  show ?case by (simp add: replicate_append_same)
qed

text \<open>
  C5. The loop condition reads \<open>!result\<close>, so an attempt that succeeds with a falsy value
  (here the empty string) does not stop the loop and does not count as an error: on a chain
  with one endpoint, where the bound is \<open>1 * 3\<close> attempts, \<open>query\<close> does not return
  for any amount of fuel, and after four iterations four attempts have been sent.
\<close>

theorem query_repeats_falsy_success:
  "query fuel one_rpc_registry empty_symbol_net ''avax'' ''0xa7d7079b0fead91f3e65f86e8915cb59c1a4c664''
      [''symbol''] ''symbol'' [] = None
   \<and> sent (query_steps 4 one_rpc_registry empty_symbol_net ''avax''
        ''0xa7d7079b0fead91f3e65f86e8915cb59c1a4c664'' [''symbol''] ''symbol'' [] query_init) =
      [Some ''https://rpc'', Some ''https://rpc'', Some ''https://rpc'', Some ''https://rpc'']
   \<and> length (rpcs \<lparr>rpcs = [''https://rpc''], multicall = ''0xmc''\<rparr>) * maxQueryRetries = 3"
proof -
  have u: "\<not> truthy Undefined" by simp
  have steps: "\<And>n. query_steps n one_rpc_registry empty_symbol_net ''avax''
        ''0xa7d7079b0fead91f3e65f86e8915cb59c1a4c664'' [''symbol''] ''symbol'' [] query_init =
      \<lparr>result = (if n = 0 then Undefined else Str []), errors = 0, rpcID = 0, thrown = None,
       sent = replicate n (Some ''https://rpc'')\<rparr>"
    using query_steps_falsy[OF u, of _ _ _ _ _ "[]"] by (simp add: query_init_def)
  have none: "query fuel one_rpc_registry empty_symbol_net ''avax''
      ''0xa7d7079b0fead91f3e65f86e8915cb59c1a4c664'' [''symbol''] ''symbol'' [] = None"
    unfolding query_def steps by (simp add: looping_def maxQueryRetries_def)
  have four: "replicate 4 (Some ''https://rpc'') =
      [Some ''https://rpc'', Some ''https://rpc'', Some ''https://rpc'', Some ''https://rpc'']"
    by (simp add: numeral_eq_Suc)
  show ?thesis using none four by (simp add: steps maxQueryRetries_def)
qed

lemma remaining_pos:
  "errors st < maxQueryRetries \<Longrightarrow> rpcID st < k \<Longrightarrow> 0 < remaining k st"
proof -
  assume e: "errors st < maxQueryRetries" and r: "rpcID st < k"
  from e have "errors st = 0 \<or> errors st = 1 \<or> errors st = 2"
    by (auto simp: maxQueryRetries_def)
  with r show ?thesis by (auto simp: remaining_def maxQueryRetries_def)
qed

lemma query_bounded_steps:
  assumes reg: "registry ch = Some cd"
      and tr: "\<forall>t u v. net t u addr iface m args = Inr v \<longrightarrow> truthy v"
  shows "thrown st = None \<Longrightarrow> \<not> truthy (result st) \<Longrightarrow> errors st < maxQueryRetries \<Longrightarrow>
     rpcID st < length (rpcs cd) \<Longrightarrow> remaining (length (rpcs cd)) st \<le> n \<Longrightarrow>
     \<not> looping (query_steps n registry net ch addr iface m args st)
     \<and> length (sent (query_steps n registry net ch addr iface m args st))
         \<le> length (sent st) + remaining (length (rpcs cd)) st"
proof (induction n arbitrary: st)
  case 0
  let ?k = "length (rpcs cd)"
  from remaining_pos[OF "0.prems"(3) "0.prems"(4)] "0.prems"(5) show ?case by simp
next
  case (Suc n)
  let ?k = "length (rpcs cd)"
  let ?b = "query_body registry net ch addr iface m args st"
  have lp: "looping st" using Suc.prems by (simp add: looping_def)
  have e3: "errors st = 0 \<or> errors st = 1 \<or> errors st = 2"
    using Suc.prems(3) by (auto simp: maxQueryRetries_def)
  show ?case
  proof (cases "net (length (sent st)) (at_index (rpcs cd) (rpcID st)) addr iface m args")
    case (Inr v)
    with tr have v: "truthy v" by blast
    have b: "?b = st\<lparr>sent := sent st @ [at_index (rpcs cd) (rpcID st)], result := v\<rparr>"
      using Inr reg by (simp add: query_body_def Let_def)
    have stop: "\<not> looping ?b" using v by (simp add: b looping_def)
    have pos: "0 < remaining ?k st"
      by (rule remaining_pos[OF Suc.prems(3) Suc.prems(4)])
    show ?thesis
      using lp stop pos by (simp add: query_steps_idle) (simp add: b)
  next
    case (Inl x)
    show ?thesis
    proof (cases "Suc (rpcID st) < ?k")
      case True
      have b: "?b = st\<lparr>sent := sent st @ [at_index (rpcs cd) (rpcID st)], rpcID := Suc (rpcID st)\<rparr>"
        using Inl reg True by (simp add: query_body_def query_catch_def Let_def)
      have r: "remaining ?k ?b = remaining ?k st - 1"
        by (simp add: b remaining_def)
      have rpos: "0 < remaining ?k st"
        by (rule remaining_pos[OF Suc.prems(3) Suc.prems(4)])
      have "\<not> looping (query_steps n registry net ch addr iface m args ?b)
         \<and> length (sent (query_steps n registry net ch addr iface m args ?b))
             \<le> length (sent ?b) + remaining ?k ?b"
        using Suc.prems True r rpos by (intro Suc.IH) (simp_all add: b)
      then show ?thesis using lp r rpos by (simp add: b)
    next
      case False
      then have last: "Suc (rpcID st) = ?k" using Suc.prems(4) by simp
      show ?thesis
      proof (cases "Suc (errors st) < maxQueryRetries")
        case True
        have b: "?b = st\<lparr>sent := sent st @ [at_index (rpcs cd) (rpcID st)],
            rpcID := 0, errors := Suc (errors st)\<rparr>"
          using Inl reg last True
          by (simp add: query_body_def query_catch_def Let_def)
        have r: "Suc (remaining ?k ?b) = remaining ?k st"
          using last True e3
          by (auto simp: b remaining_def maxQueryRetries_def numeral_3_eq_3 numeral_2_eq_2)
        have kpos: "rpcs cd \<noteq> []" using last by auto
        have "\<not> looping (query_steps n registry net ch addr iface m args ?b)
           \<and> length (sent (query_steps n registry net ch addr iface m args ?b))
               \<le> length (sent ?b) + remaining ?k ?b"
          using Suc.prems True r last kpos by (intro Suc.IH) (simp_all add: b)
        then show ?thesis using lp r by (simp add: b)
      next
        case False
        then have e2: "errors st = 2" using e3 by (auto simp: maxQueryRetries_def)
        have stop: "\<not> looping ?b"
          using Inl reg last e2
          by (simp add: query_body_def query_catch_def Let_def looping_def maxQueryRetries_def)
        have len: "length (sent ?b) = Suc (length (sent st))"
          using Inl reg last e2
          by (simp add: query_body_def query_catch_def Let_def maxQueryRetries_def)
        have r: "remaining ?k st = 1"
          using last e2 by (auto simp: remaining_def maxQueryRetries_def)
        show ?thesis using lp stop len r by (simp add: query_steps_idle)
      qed
    qed
  qed
qed

text \<open>
  The bound of \<open>endpoints * retries\<close> attempts does hold when every attempt that succeeds
  resolves to a truthy value: then \<open>query\<close> returns with that much fuel.
\<close>

lemma query_bounded_when_truthy:
  assumes reg: "registry ch = Some cd"
      and k: "rpcs cd \<noteq> []"
      and tr: "\<forall>t u v. net t u addr iface m args = Inr v \<longrightarrow> truthy v"
      and fuel: "maxQueryRetries * length (rpcs cd) \<le> fuel"
  shows "\<exists>outcome attempts.
       query fuel registry net ch addr iface m args = Some (outcome, attempts)
     \<and> length attempts \<le> length (rpcs cd) * maxQueryRetries"
proof -
  have r: "remaining (length (rpcs cd)) query_init = maxQueryRetries * length (rpcs cd)"
    by (simp add: remaining_def query_init_def)
  have s0: "length (sent query_init) = 0" by (simp add: query_init_def)
  have g: "thrown query_init = None" "\<not> truthy (result query_init)"
      "errors query_init < maxQueryRetries" "rpcID query_init < length (rpcs cd)"
    using k by (simp_all add: query_init_def maxQueryRetries_def)
  have f: "remaining (length (rpcs cd)) query_init \<le> fuel" using fuel by (simp add: r)
  have b: "\<not> looping (query_steps fuel registry net ch addr iface m args query_init)
     \<and> length (sent (query_steps fuel registry net ch addr iface m args query_init))
         \<le> length (sent query_init) + remaining (length (rpcs cd)) query_init"
    by (rule query_bounded_steps[where registry=registry and ch=ch and net=net and addr=addr
          and iface=iface and m=m and args=args, OF reg tr g f])
  then have "length (sent (query_steps fuel registry net ch addr iface m args query_init))
      \<le> length (rpcs cd) * maxQueryRetries"
    unfolding s0 r by (simp add: mult.commute)
  with b show ?thesis
    by (simp add: query_def Let_def)
qed



text \<open>
  A chain with an empty endpoint list is outside C1: each pass then makes one attempt
  with an undefined endpoint, three in all.
\<close>

lemma query_no_endpoints:
  assumes reg: "registry ch = Some cd"
      and k: "rpcs cd = []"
      and fail: "\<forall>t u. isl (net t u addr iface m args)"
  shows "query 3 registry net ch addr iface m args =
           Some (if ignored ch addr then Inr Undefined
                 else Inl (WeaverError ch None (query_description m args addr) None),
                 [None, None, None])"
proof -
  have f: "\<And>t. \<exists>x. net t None addr iface m args = Inl x"
    using fail by (auto simp: isl_def)
  let ?s1 = "\<lparr>result = Undefined, errors = 1, rpcID = 0, thrown = None, sent = [None]\<rparr>"
  let ?s2 = "\<lparr>result = Undefined, errors = 2, rpcID = 0, thrown = None, sent = [None, None]\<rparr>"
  let ?s3 = "\<lparr>result = Undefined, errors = 3, rpcID = 1,
      thrown = (if ignored ch addr then None
                else Some (WeaverError ch None (query_description m args addr) None)),
      sent = [None, None, None]\<rparr>"
  obtain x0 where x0: "net 0 None addr iface m args = Inl x0" using f[of 0] by blast
  obtain x1 where x1: "net (Suc 0) None addr iface m args = Inl x1" using f[of "Suc 0"] by blast
  obtain x2 where x2: "net (Suc (Suc 0)) None addr iface m args = Inl x2"
    using f[of "Suc (Suc 0)"] by blast
  have b1: "query_body registry net ch addr iface m args query_init = ?s1"
    by (simp add: query_init_def query_body_def query_catch_def at_index_def maxQueryRetries_def
        reg k x0 Let_def)
  have b2: "query_body registry net ch addr iface m args ?s1 = ?s2"
    by (simp add: query_body_def query_catch_def at_index_def maxQueryRetries_def
        reg k x1 Let_def)
  have b3: "query_body registry net ch addr iface m args ?s2 = ?s3"
    by (simp add: query_body_def query_catch_def at_index_def maxQueryRetries_def
        reg k x2 Let_def)
  have l0: "looping query_init" by (simp add: looping_def query_init_def maxQueryRetries_def)
  have l1: "looping ?s1" by (simp add: looping_def maxQueryRetries_def)
  have l2: "looping ?s2" by (simp add: looping_def maxQueryRetries_def)
  have l3: "\<not> looping ?s3" by (simp add: looping_def maxQueryRetries_def)
  have run: "query_steps (Suc (Suc (Suc 0))) registry net ch addr iface m args query_init = ?s3"
    by (simp only: query_steps.simps l0 l1 l2 b1 b2 b3 if_True)
  have run3: "query_steps 3 registry net ch addr iface m args query_init = ?s3"
    using run by (simp only: numeral_3_eq_3)
  show ?thesis
    unfolding query_def run3 Let_def using l3 by simp
qed

section \<open>Properties of the batching layer\<close>

text \<open>
  The keys of the mapping that each variant returns. The one-contract and one-method
  variants keep exactly the calls whose success flag is set; the many-contracts variant
  keeps every call.
\<close>

lemma oneContract_fold_dom:
  "dom (foldl (\<lambda>results result.
              if success result
              then results(CallReturnContext.reference result \<mapsto> returnValues result)
              else results) acc rs) =
   dom acc \<union> CallReturnContext.reference ` {r \<in> set rs. success r}"
  by (induction rs arbitrary: acc) auto

lemma oneContract_forEach_dom:
  "dom (oneContract_forEach rs) = CallReturnContext.reference ` {r \<in> set rs. success r}"
  by (simp add: oneContract_forEach_def oneContract_fold_dom)

lemma complex_fold_dom:
  "dom (foldl (\<lambda>queryResults result.
              queryResults(CallReturnContext.reference result \<mapsto> returnValues result)) acc rs) =
   dom acc \<union> CallReturnContext.reference ` set rs"
  by (induction rs arbitrary: acc) auto

lemma complex_inner_dom:
  "dom (complex_inner rs) = CallReturnContext.reference ` set rs"
  by (simp add: complex_inner_def complex_fold_dom)

lemma oneMethod_forEach_dom:
  "oneMethod_forEach res cs acc = Inr m \<Longrightarrow>
   dom m = dom acc \<union>
     {c \<in> set cs. \<exists>rc cr. res c = Some rc \<and> at_index (callsReturnContext rc) 0 = Some cr \<and> success cr}"
proof (induction cs arbitrary: acc)
  case Nil
  then show ?case by simp
next
  case (Cons c cs)
  then show ?case
    by (auto split: option.splits if_splits)
qed

text \<open>
  C2. A batch of three calls to one pool, where the helper invocation succeeds and the
  second call fails inside it. \<open>multicallComplexQuery\<close> does not test the success flag:
  the mapping for the pool holds all three references, the failed one with an empty list
  of values. \<open>multicallOneContractQuery\<close>, on the same batch, holds exactly the first
  and the third.
\<close>

theorem multicallComplexQuery_keeps_failed_call:
  "(case fst (multicallComplexQuery one_rpc_registry (answering pool_table) ''avax''
               [''0xpool''] [] three_calls) of
      Inl e \<Rightarrow> False
    | Inr results \<Rightarrow>
        (case results ''0xpool'' of
           None \<Rightarrow> False
         | Some queryResults \<Rightarrow>
             queryResults ''second'' = Some [] \<and>
             dom queryResults = {''first'', ''second'', ''third''}))
   \<and> (case fst (multicallOneContractQuery one_rpc_registry (answering pool_table) ''avax''
               ''0xpool'' [] three_calls) of
      Inl e \<Rightarrow> False
    | Inr results \<Rightarrow> dom results = {''first'', ''third''})"
  by (simp add: multicallComplexQuery_def multicallOneContractQuery_def multicallQuery_def
      one_rpc_registry_def answering_def pool_table_def three_calls_def at_index_def
      and_then_def lift_def complex_inner_def oneContract_forEach_def insert_commute)

section \<open>Properties of the normalization pipeline\<close>

text \<open>Laws of sequencing, used to read the operations step by step.\<close>

lemma and_then_ret [simp]: "and_then (ret a) f = f a"
  by (simp add: and_then_def ret_def split: prod.splits)

lemma and_then_lift_Inr [simp]: "and_then (lift (Inr a)) f = f a"
  by (simp add: and_then_def lift_def split: prod.splits)

lemma and_then_lift_Inl [simp]: "and_then (lift (Inl e)) f = (Inl e, [])"
  by (simp add: and_then_def lift_def)

lemma and_then_Inl [simp]: "and_then (Inl e, l) f = (Inl e, l)"
  by (simp add: and_then_def)

lemma and_then_Inr_nil [simp]: "and_then (Inr a, []) f = f a"
  by (simp add: and_then_def split: prod.splits)

lemma and_then_Inr: "and_then (Inr a, l) f = (fst (f a), l @ snd (f a))"
  by (simp add: and_then_def split: prod.splits)

lemma and_then_assoc:
  "and_then (and_then m f) g = and_then m (\<lambda>a. and_then (f a) g)"
  by (auto simp: and_then_def split: prod.splits sum.splits)

lemma and_then_InrD:
  "and_then m f = (Inr b, l) \<Longrightarrow>
   \<exists>a l1 l2. m = (Inr a, l1) \<and> f a = (Inr b, l2) \<and> l = l1 @ l2"
  by (auto simp: and_then_def split: prod.splits sum.splits)

lemma lift_InrD: "lift r = (Inr a, l) \<Longrightarrow> r = Inr a \<and> l = []"
  by (simp add: lift_def)

lemma multicallOneContractQuery_log:
  "snd (multicallOneContractQuery reg h ch a ab cs) =
     [[\<lparr>ContractCallContext.reference = ''oneContractQuery'', contractAddress = a, abi = ab,
        calls = cs\<rparr>]]"
  by (simp add: multicallOneContractQuery_def multicallQuery_def and_then_def lift_def Let_def
      split: option.splits sum.splits)

lemma addToken_native:
  "toLowerCase a = defaultAddress \<Longrightarrow>
   addToken w ch loc st a raw ow =
     (Inr \<lparr>Token.type = ''token'', chain = ch, location = loc, status = st, owner = ow,
           symbol = getNativeTokenSymbol ch, address = a,
           balance = js_div raw (pow10 18), price = getTokenPrice w ch a 18,
           logo = getTokenLogo (w_tokens w) ch (getNativeTokenSymbol ch)\<rparr>, [])"
  by (simp add: addToken_def Let_def ret_def)

lemma addToken_tracked:
  "toLowerCase a \<noteq> defaultAddress \<Longrightarrow> getTrackedTokenInfo (w_tokens w) ch a = Some tok \<Longrightarrow>
   addToken w ch loc st a raw ow =
     (Inr \<lparr>Token.type = ''token'', chain = ch, location = loc, status = st, owner = ow,
           symbol = TokenData.symbol tok, address = a,
           balance = js_div raw (pow10 (TokenData.decimals tok)),
           price = getTokenPrice w ch a (TokenData.decimals tok),
           logo = TokenData.logo tok\<rparr>, [])"
  by (simp add: addToken_def Let_def ret_def)

lemma addToken_untracked:
  "toLowerCase a \<noteq> defaultAddress \<Longrightarrow> getTrackedTokenInfo (w_tokens w) ch a = None \<Longrightarrow>
   addToken w ch loc st a raw ow =
     and_then (multicallOneContractQuery (w_registry w) (w_helper w) ch a (minABI w) metadata_calls)
       (\<lambda>multicallResults.
          and_then (lift (first_string multicallResults ''symbol'')) (\<lambda>symbol.
          and_then (lift (first_decimals multicallResults ''decimals'')) (\<lambda>decimals.
          ret \<lparr>Token.type = ''token'', chain = ch, location = loc, status = st, owner = ow,
           symbol = symbol, address = a,
           balance = js_div raw (pow10 decimals),
           price = getTokenPrice w ch a decimals,
           logo = getTokenLogo (w_tokens w) ch symbol\<rparr>)))"
  by (simp add: addToken_def Let_def metadata_calls_def and_then_assoc ret_def[symmetric])

lemma addToken_untracked_log:
  "toLowerCase a \<noteq> defaultAddress \<Longrightarrow> getTrackedTokenInfo (w_tokens w) ch a = None \<Longrightarrow>
   snd (addToken w ch loc st a raw ow) =
     [[\<lparr>ContractCallContext.reference = ''oneContractQuery'', contractAddress = a,
        abi = minABI w, calls = metadata_calls\<rparr>]]"
proof -
  assume a: "toLowerCase a \<noteq> defaultAddress" "getTrackedTokenInfo (w_tokens w) ch a = None"
  obtain r l where m: "multicallOneContractQuery (w_registry w) (w_helper w) ch a (minABI w) metadata_calls = (r, l)"
    by (cases "multicallOneContractQuery (w_registry w) (w_helper w) ch a (minABI w) metadata_calls")
  have l: "l = [[\<lparr>ContractCallContext.reference = ''oneContractQuery'', contractAddress = a,
        abi = minABI w, calls = metadata_calls\<rparr>]]"
    using multicallOneContractQuery_log[of "w_registry w" "w_helper w" ch a "minABI w" metadata_calls] m
    by simp
  show ?thesis
    unfolding addToken_untracked[OF a] m
    by (cases r) (auto simp: l and_then_Inr ret_def lift_def and_then_def split: sum.splits)
qed

lemma addDebtToken_native:
  "toLowerCase a = defaultAddress \<Longrightarrow>
   addDebtToken w ch loc a raw ow =
     (Inr \<lparr>Token.type = ''debt'', chain = ch, location = loc, status = ''borrowed'', owner = ow,
           symbol = getNativeTokenSymbol ch, address = a,
           balance = js_div raw (pow10 18), price = getTokenPrice w ch a 18,
           logo = getTokenLogo (w_tokens w) ch (getNativeTokenSymbol ch)\<rparr>, [])"
  by (simp add: addDebtToken_def Let_def ret_def)

lemma addDebtToken_tracked:
  "toLowerCase a \<noteq> defaultAddress \<Longrightarrow> getTrackedTokenInfo (w_tokens w) ch a = Some tok \<Longrightarrow>
   addDebtToken w ch loc a raw ow =
     (Inr \<lparr>Token.type = ''debt'', chain = ch, location = loc, status = ''borrowed'', owner = ow,
           symbol = TokenData.symbol tok, address = a,
           balance = js_div raw (pow10 (TokenData.decimals tok)),
           price = getTokenPrice w ch a (TokenData.decimals tok),
           logo = TokenData.logo tok\<rparr>, [])"
  by (simp add: addDebtToken_def Let_def ret_def)

lemma addDebtToken_untracked:
  "toLowerCase a \<noteq> defaultAddress \<Longrightarrow> getTrackedTokenInfo (w_tokens w) ch a = None \<Longrightarrow>
   addDebtToken w ch loc a raw ow =
     and_then (multicallOneContractQuery (w_registry w) (w_helper w) ch a (minABI w) metadata_calls)
       (\<lambda>multicallResults.
          and_then (lift (first_string multicallResults ''symbol'')) (\<lambda>symbol.
          and_then (lift (first_decimals multicallResults ''decimals'')) (\<lambda>decimals.
          ret \<lparr>Token.type = ''debt'', chain = ch, location = loc, status = ''borrowed'', owner = ow,
           symbol = symbol, address = a,
           balance = js_div raw (pow10 decimals),
           price = getTokenPrice w ch a decimals,
           logo = getTokenLogo (w_tokens w) ch symbol\<rparr>)))"
  by (simp add: addDebtToken_def Let_def metadata_calls_def and_then_assoc ret_def[symmetric])

lemma addDebtToken_untracked_log:
  "toLowerCase a \<noteq> defaultAddress \<Longrightarrow> getTrackedTokenInfo (w_tokens w) ch a = None \<Longrightarrow>
   snd (addDebtToken w ch loc a raw ow) =
     [[\<lparr>ContractCallContext.reference = ''oneContractQuery'', contractAddress = a,
        abi = minABI w, calls = metadata_calls\<rparr>]]"
proof -
  assume a: "toLowerCase a \<noteq> defaultAddress" "getTrackedTokenInfo (w_tokens w) ch a = None"
  obtain r l where m: "multicallOneContractQuery (w_registry w) (w_helper w) ch a (minABI w) metadata_calls = (r, l)"
    by (cases "multicallOneContractQuery (w_registry w) (w_helper w) ch a (minABI w) metadata_calls")
  have l: "l = [[\<lparr>ContractCallContext.reference = ''oneContractQuery'', contractAddress = a,
        abi = minABI w, calls = metadata_calls\<rparr>]]"
    using multicallOneContractQuery_log[of "w_registry w" "w_helper w" ch a "minABI w" metadata_calls] m
    by simp
  show ?thesis
    unfolding addDebtToken_untracked[OF a] m
    by (cases r) (auto simp: l and_then_Inr ret_def lift_def and_then_def split: sum.splits)
qed

text \<open>
  C4, as stated, fails at the native sentinel address. \<open>addToken\<close> tests for the
  sentinel before it consults the catalog: with a catalog entry for the sentinel
  (symbol \<open>WRAPPED\<close>, 6 decimals) the holding carries the native symbol \<open>ETH\<close>, 18
  decimals and the logo found by symbol, not the entry's symbol, decimals and logo. And
  for the sentinel a catalog miss issues no batch call at all.
\<close>

theorem addToken_sentinel_ignores_catalog:
  "getTrackedTokenInfo (w_tokens sentinel_world) ''eth'' ''0xEeeeeEeeeEeEeeEeEeEeeEEEeeeeEeeeeeeeEEeE''
     = Some sentinel_entry
   \<and> addToken sentinel_world ''eth'' ''wallet'' ''none''
       ''0xEeeeeEeeeEeEeeEeEeEeeEEEeeeeEeeeeeeeEEeE'' (Num 1500000) ''0xowner'' =
     (Inr \<lparr>Token.type = ''token'', chain = ''eth'', location = ''wallet'', status = ''none'',
           owner = ''0xowner'', symbol = ''ETH'',
           address = ''0xEeeeeEeeeEeEeeEeEeEeeEEEeeeeEeeeeeeeEEeE'',
           balance = Num (3 / 2000000000000), price = None, logo = defaultTokenLogo\<rparr>, [])
   \<and> TokenData.symbol sentinel_entry = ''WRAPPED''
   \<and> TokenData.decimals sentinel_entry = 6
   \<and> js_div (Num 1500000) (pow10 (TokenData.decimals sentinel_entry)) = Num (3 / 2)
   \<and> getTrackedTokenInfo (w_tokens base_world) ''avax''
       ''0xeeeeeeeeeeeeeeeeeeeeeeeeeeeeeeeeeeeeeeee'' = None
   \<and> snd (addToken base_world ''avax'' ''wallet'' ''none''
       ''0xeeeeeeeeeeeeeeeeeeeeeeeeeeeeeeeeeeeeeeee'' (Num 1) ''0xowner'') = []"
proof -
  have miss: "getTrackedTokenInfo (w_tokens base_world) ''avax''
       ''0xeeeeeeeeeeeeeeeeeeeeeeeeeeeeeeeeeeeeeeee'' = None"
    by (simp add: getTrackedTokenInfo_def getChainTokenData_def base_world_def empty_tokens_def
        no_tokens_def)
  have low: "toLowerCase ''0xEeeeeEeeeEeEeeEeEeEeeEEEeeeeEeeeeeeeEEeE'' = defaultAddress"
    by (simp add: toLowerCase_def lower_char_def defaultAddress_def)
  have low2: "toLowerCase ''0xeeeeeeeeeeeeeeeeeeeeeeeeeeeeeeeeeeeeeeee'' = defaultAddress"
    by (simp add: toLowerCase_def lower_char_def defaultAddress_def)
  have tr: "getTrackedTokenInfo (w_tokens sentinel_world) ''eth'' ''0xEeeeeEeeeEeEeeEeEeEeeEEEeeeeEeeeeeeeEEeE''
     = Some sentinel_entry"
    by (simp add: getTrackedTokenInfo_def getChainTokenData_def sentinel_world_def
        empty_tokens_def low) (simp add: sentinel_entry_def low2)
  have sym: "getNativeTokenSymbol ''eth'' = ''ETH''"
    by (simp add: getNativeTokenSymbol_def toUpperCase_def upper_char_def)
  have logo: "getTokenLogo (w_tokens sentinel_world) ''eth'' ''ETH'' = defaultTokenLogo"
    by (simp add: getTokenLogo_def getChainTokenData_def sentinel_world_def empty_tokens_def
        sentinel_entry_def)
  have price: "getTokenPrice sentinel_world ''eth'' ''0xEeeeeEeeeEeEeeEeEeEeeEEEeeeeEeeeeeeeEEeE'' 18 = None"
    by (simp add: getTokenPrice_def sentinel_world_def base_world_def)
  have bal: "js_div (Num 1500000) (pow10 18) = Num (3 / 2000000000000)"
    by (simp add: pow10_def)
  have nobatch: "snd (addToken base_world ''avax'' ''wallet'' ''none''
       ''0xeeeeeeeeeeeeeeeeeeeeeeeeeeeeeeeeeeeeeeee'' (Num 1) ''0xowner'') = []"
    by (simp add: addToken_native[OF low2])
  have main: "addToken sentinel_world ''eth'' ''wallet'' ''none''
       ''0xEeeeeEeeeEeEeeEeEeEeeEEEeeeeEeeeeeeeEEeE'' (Num 1500000) ''0xowner'' =
     (Inr \<lparr>Token.type = ''token'', chain = ''eth'', location = ''wallet'', status = ''none'',
           owner = ''0xowner'', symbol = ''ETH'',
           address = ''0xEeeeeEeeeEeEeeEeEeEeeEEEeeeeEeeeeeeeEEeE'',
           balance = Num (3 / 2000000000000), price = None, logo = defaultTokenLogo\<rparr>, [])"
    by (simp add: addToken_native[OF low] sym logo price bal)
  have entry: "TokenData.symbol sentinel_entry = ''WRAPPED''"
      "TokenData.decimals sentinel_entry = 6"
      "js_div (Num 1500000) (pow10 (TokenData.decimals sentinel_entry)) = Num (3 / 2)"
    by (simp_all add: sentinel_entry_def pow10_def)
  from tr main entry miss nobatch show ?thesis by (intro conjI)
qed

text \<open>
  C4, amended. For an address other than the native sentinel: with a catalog entry,
  \<open>addToken\<close> and \<open>addDebtToken\<close> hand no batch to the batching layer and take symbol,
  decimals and logo from the entry; without one, each hands over exactly one batch, the
  one-contract query of \<open>symbol\<close> and \<open>decimals\<close> on the token's address. For the
  sentinel address no batch is handed over and the native symbol with 18 decimals is used,
  whatever the catalog holds.
\<close>

theorem metadata_resolution_precedence:
  "(toLowerCase a \<noteq> defaultAddress \<and> getTrackedTokenInfo (w_tokens w) ch a = Some tok \<longrightarrow>
      addToken w ch loc st a raw ow =
        (Inr \<lparr>Token.type = ''token'', chain = ch, location = loc, status = st, owner = ow,
              symbol = TokenData.symbol tok, address = a,
              balance = js_div raw (pow10 (TokenData.decimals tok)),
              price = getTokenPrice w ch a (TokenData.decimals tok),
              logo = TokenData.logo tok\<rparr>, [])
      \<and> addDebtToken w ch loc a raw ow =
        (Inr \<lparr>Token.type = ''debt'', chain = ch, location = loc, status = ''borrowed'', owner = ow,
              symbol = TokenData.symbol tok, address = a,
              balance = js_div raw (pow10 (TokenData.decimals tok)),
              price = getTokenPrice w ch a (TokenData.decimals tok),
              logo = TokenData.logo tok\<rparr>, []))
   \<and> (toLowerCase a \<noteq> defaultAddress \<and> getTrackedTokenInfo (w_tokens w) ch a = None \<longrightarrow>
      snd (addToken w ch loc st a raw ow) =
        [[\<lparr>ContractCallContext.reference = ''oneContractQuery'', contractAddress = a,
           abi = minABI w, calls = metadata_calls\<rparr>]]
      \<and> snd (addDebtToken w ch loc a raw ow) =
        [[\<lparr>ContractCallContext.reference = ''oneContractQuery'', contractAddress = a,
           abi = minABI w, calls = metadata_calls\<rparr>]])
   \<and> (toLowerCase a = defaultAddress \<longrightarrow>
      addToken w ch loc st a raw ow =
        (Inr \<lparr>Token.type = ''token'', chain = ch, location = loc, status = st, owner = ow,
              symbol = getNativeTokenSymbol ch, address = a,
              balance = js_div raw (pow10 18), price = getTokenPrice w ch a 18,
              logo = getTokenLogo (w_tokens w) ch (getNativeTokenSymbol ch)\<rparr>, [])
      \<and> addDebtToken w ch loc a raw ow =
        (Inr \<lparr>Token.type = ''debt'', chain = ch, location = loc, status = ''borrowed'', owner = ow,
              symbol = getNativeTokenSymbol ch, address = a,
              balance = js_div raw (pow10 18), price = getTokenPrice w ch a 18,
              logo = getTokenLogo (w_tokens w) ch (getNativeTokenSymbol ch)\<rparr>, []))"
  using addToken_tracked[of a w ch tok loc st raw ow] addDebtToken_tracked[of a w ch tok loc raw ow]
        addToken_untracked_log[of a w ch loc st raw ow] addDebtToken_untracked_log[of a w ch loc raw ow]
        addToken_native[of a w ch loc st raw ow] addDebtToken_native[of a w ch loc raw ow]
  by blast

text \<open>
  The theorem on chain \<open>avax\<close>: a tracked token, an untracked token and the sentinel.
\<close>

theorem metadata_resolution_precedence_witness:
  "addToken avax_world ''avax'' ''aave'' ''lent'' ''0xb31f66aa3c1e785363f0875a1b74e27b85fd66c7''
       (Num 2500000000000000000) ''0xowner'' =
     (Inr \<lparr>Token.type = ''token'', chain = ''avax'', location = ''aave'', status = ''lent'',
           owner = ''0xowner'', symbol = ''WAVAX'',
           address = ''0xb31f66aa3c1e785363f0875a1b74e27b85fd66c7'',
           balance = Num (5 / 2), price = Some 20, logo = ''https://logos/wavax.png''\<rparr>, [])
   \<and> snd (addDebtToken avax_world ''avax'' ''aave'' ''0xc7198437980c041c805a1edcba50c1ce5db95118''
       (Num 7000000) ''0xowner'') =
     [[\<lparr>ContractCallContext.reference = ''oneContractQuery'',
        contractAddress = ''0xc7198437980c041c805a1edcba50c1ce5db95118'',
        abi = [''symbol'', ''decimals'', ''balanceOf''], calls = metadata_calls\<rparr>]]
   \<and> snd (addToken avax_world ''avax'' ''aave'' ''unclaimed''
       ''0xeeeeeeeeeeeeeeeeeeeeeeeeeeeeeeeeeeeeeeee'' (Num 1) ''0xowner'') = []"
proof -
  have l1: "toLowerCase ''0xb31f66aa3c1e785363f0875a1b74e27b85fd66c7'' =
      ''0xb31f66aa3c1e785363f0875a1b74e27b85fd66c7''"
    by (simp add: toLowerCase_def lower_char_def)
  have l1': "toLowerCase ''0xB31f66AA3C1e785363F0875A1B74E27b85FD66c7'' =
      ''0xb31f66aa3c1e785363f0875a1b74e27b85fd66c7''"
    by (simp add: toLowerCase_def lower_char_def)
  have l2: "toLowerCase ''0xc7198437980c041c805a1edcba50c1ce5db95118'' =
      ''0xc7198437980c041c805a1edcba50c1ce5db95118''"
    by (simp add: toLowerCase_def lower_char_def)
  have l3: "toLowerCase ''0xeeeeeeeeeeeeeeeeeeeeeeeeeeeeeeeeeeeeeeee'' = defaultAddress"
    by (simp add: toLowerCase_def lower_char_def defaultAddress_def)
  have n1: "toLowerCase ''0xb31f66aa3c1e785363f0875a1b74e27b85fd66c7'' \<noteq> defaultAddress"
    unfolding l1 by (simp add: defaultAddress_def)
  have n2: "toLowerCase ''0xc7198437980c041c805a1edcba50c1ce5db95118'' \<noteq> defaultAddress"
    unfolding l2 by (simp add: defaultAddress_def)
  have t1: "getTrackedTokenInfo (w_tokens avax_world) ''avax''
      ''0xb31f66aa3c1e785363f0875a1b74e27b85fd66c7'' = Some wavax_entry"
    by (simp add: getTrackedTokenInfo_def getChainTokenData_def avax_world_def base_world_def
        empty_tokens_def l1) (simp add: wavax_entry_def l1')
  have t2: "getTrackedTokenInfo (w_tokens avax_world) ''avax''
      ''0xc7198437980c041c805a1edcba50c1ce5db95118'' = None"
    by (simp add: getTrackedTokenInfo_def getChainTokenData_def avax_world_def base_world_def
        empty_tokens_def l2) (simp add: wavax_entry_def l1')
  have p: "getTokenPrice avax_world ''avax'' ''0xb31f66aa3c1e785363f0875a1b74e27b85fd66c7'' 18 = Some 20"
    by (simp add: getTokenPrice_def avax_world_def base_world_def)
  have abi: "minABI avax_world = [''symbol'', ''decimals'', ''balanceOf'']"
    by (simp add: avax_world_def base_world_def)
  have bal: "js_div (Num 2500000000000000000) (pow10 18) = Num (5 / 2)"
    by (simp add: pow10_def)
  from metadata_resolution_precedence[of "''0xb31f66aa3c1e785363f0875a1b74e27b85fd66c7''"
      avax_world "''avax''" wavax_entry "''aave''" "''lent''" "Num 2500000000000000000" "''0xowner''"]
    n1 t1
  have a: "addToken avax_world ''avax'' ''aave'' ''lent'' ''0xb31f66aa3c1e785363f0875a1b74e27b85fd66c7''
       (Num 2500000000000000000) ''0xowner'' =
     (Inr \<lparr>Token.type = ''token'', chain = ''avax'', location = ''aave'', status = ''lent'',
           owner = ''0xowner'', symbol = ''WAVAX'',
           address = ''0xb31f66aa3c1e785363f0875a1b74e27b85fd66c7'',
           balance = Num (5 / 2), price = Some 20, logo = ''https://logos/wavax.png''\<rparr>, [])"
    by (simp add: wavax_entry_def p bal)
  from metadata_resolution_precedence[of "''0xc7198437980c041c805a1edcba50c1ce5db95118''"
      avax_world "''avax''" wavax_entry "''aave''" "''lent''" "Num 7000000" "''0xowner''"]
    n2 t2
  have b: "snd (addDebtToken avax_world ''avax'' ''aave'' ''0xc7198437980c041c805a1edcba50c1ce5db95118''
       (Num 7000000) ''0xowner'') =
     [[\<lparr>ContractCallContext.reference = ''oneContractQuery'',
        contractAddress = ''0xc7198437980c041c805a1edcba50c1ce5db95118'',
        abi = [''symbol'', ''decimals'', ''balanceOf''], calls = metadata_calls\<rparr>]]"
    by (simp add: abi)
  from metadata_resolution_precedence[of "''0xeeeeeeeeeeeeeeeeeeeeeeeeeeeeeeeeeeeeeeee''"
      avax_world "''avax''" wavax_entry "''aave''" "''unclaimed''" "Num 1" "''0xowner''"] l3
  have c: "snd (addToken avax_world ''avax'' ''aave'' ''unclaimed''
       ''0xeeeeeeeeeeeeeeeeeeeeeeeeeeeeeeeeeeeeeeee'' (Num 1) ''0xowner'') = []"
    by simp
  from a b c show ?thesis by simp
qed

lemma and_then_InrE:
  assumes "and_then m f = (Inr b, l)"
  obtains a l1 l2 where "m = (Inr a, l1)" and "f a = (Inr b, l2)" and "l = l1 @ l2"
  using assms by (auto simp: and_then_def split: prod.splits sum.splits)

lemma lift_InrE:
  assumes "lift r = (Inr a, l)"
  obtains "r = Inr a" and "l = []"
  using assms by (simp add: lift_def)

lemma ret_InrE:
  assumes "ret x = (Inr a, l)"
  obtains "a = x" and "l = []"
  using assms by (simp add: ret_def)





section \<open>The derivative holding\<close>

lemma lower_x: "toLowerCase ''0x1111111111111111111111111111111111111111'' =
    ''0x1111111111111111111111111111111111111111''"
  by (simp add: toLowerCase_def lower_char_def)

lemma lower_u: "toLowerCase ''0x2222222222222222222222222222222222222222'' =
    ''0x2222222222222222222222222222222222222222''"
  by (simp add: toLowerCase_def lower_char_def)

lemma x_batch:
  "multicallOneContractQuery one_rpc_registry (answering x_table) ''avax''
     ''0x1111111111111111111111111111111111111111'' ab metadata_calls =
   (Inr [''symbol'' \<mapsto> [Str ''xUSDC''], ''decimals'' \<mapsto> [Uint 18]],
    [[\<lparr>ContractCallContext.reference = ''oneContractQuery'',
       contractAddress = ''0x1111111111111111111111111111111111111111'', abi = ab,
       calls = metadata_calls\<rparr>]])"
  by (simp add: multicallOneContractQuery_def multicallQuery_def one_rpc_registry_def
      answering_def x_table_def metadata_calls_def at_index_def and_then_def lift_def
      oneContract_forEach_def)

lemma u_batch:
  "multicallOneContractQuery one_rpc_registry (answering x_table) ''avax''
     ''0x2222222222222222222222222222222222222222'' ab metadata_calls =
   (Inr [''symbol'' \<mapsto> [Str ''USDC''], ''decimals'' \<mapsto> [Uint 6]],
    [[\<lparr>ContractCallContext.reference = ''oneContractQuery'',
       contractAddress = ''0x2222222222222222222222222222222222222222'', abi = ab,
       calls = metadata_calls\<rparr>]])"
  by (simp add: multicallOneContractQuery_def multicallQuery_def one_rpc_registry_def
      answering_def x_table_def metadata_calls_def at_index_def and_then_def lift_def
      oneContract_forEach_def)

lemma first_string_upd: "first_string [''symbol'' \<mapsto> [Str s], ''decimals'' \<mapsto> [Uint d]] ''symbol'' = Inr s"
  by (simp add: first_string_def first_value_def index_any_def at_index_def as_string_def)

lemma first_decimals_upd: "first_decimals [''symbol'' \<mapsto> [Str s], ''decimals'' \<mapsto> [Uint d]] ''decimals'' = Inr d"
  by (simp add: first_decimals_def first_value_def index_any_def at_index_def as_decimals_def)

lemma both_tracked_run:
  "addXToken both_tracked_world ''avax'' ''project'' ''staked''
        ''0x1111111111111111111111111111111111111111'' (Num 2000000000000000000) ''0xowner''
        ''0x2222222222222222222222222222222222222222'' (Num 3000000) =
      (Inr \<lparr>XToken.type = ''xToken'', chain = ''avax'', location = ''project'',
            status = ''staked'', owner = ''0xowner'', symbol = ''xUSDC'',
            address = ''0x1111111111111111111111111111111111111111'', balance = Num 2,
            logo = ''https://logos/xusdc.png'',
            underlyingToken =
              \<lparr>PricedToken.symbol = ''xUSDC'',
               address = ''0x2222222222222222222222222222222222222222'',
               balance = Num (3 / 1000000000000), price = None,
               logo = ''https://logos/xusdc.png''\<rparr>\<rparr>,
       [[\<lparr>ContractCallContext.reference = ''oneContractQuery'',
          contractAddress = ''0x1111111111111111111111111111111111111111'',
          abi = [''symbol'', ''decimals'', ''balanceOf''], calls = metadata_calls\<rparr>]])"
proof -
  have t1x: "getTrackedTokenInfo (w_tokens both_tracked_world) ''avax''
      ''0x1111111111111111111111111111111111111111'' = Some xusdc_entry"
    by (simp add: getTrackedTokenInfo_def getChainTokenData_def both_tracked_world_def
        base_world_def empty_tokens_def lower_x) (simp add: xusdc_entry_def usdc_entry_def lower_x lower_u)
  have logo1: "getTokenLogo (w_tokens both_tracked_world) ''avax'' ''xUSDC'' = ''https://logos/xusdc.png''"
    by (simp add: getTokenLogo_def getChainTokenData_def both_tracked_world_def
        base_world_def empty_tokens_def xusdc_entry_def usdc_entry_def)
  have w1: "w_registry both_tracked_world = one_rpc_registry"
       "w_helper both_tracked_world = answering x_table"
       "minABI both_tracked_world = [''symbol'', ''decimals'', ''balanceOf'']"
    by (simp_all add: both_tracked_world_def base_world_def)
  have p1: "\<And>a d. getTokenPrice both_tracked_world ''avax'' a d = None"
    by (simp add: getTokenPrice_def both_tracked_world_def base_world_def)
  show ?thesis
    unfolding addXToken_def Let_def metadata_calls_def[symmetric] w1 x_batch t1x
    by (simp add: and_then_def first_string_upd first_decimals_upd lift_def ret_def logo1 p1
        pow10_def xusdc_entry_def)
qed

text \<open>
  C6. \<open>addXToken\<close> looks the underlying token up in the catalog under \<open>address\<close>, the
  derivative token's own address, not under \<open>underlyingAddress\<close>. With both tokens
  tracked, the underlying record carries the derivative's symbol, logo and 18 decimals
  (balance \<open>3000000 / 10^18\<close>) where the underlying's entry says \<open>USDC\<close> with 6 decimals.
  With only the underlying tracked, a second batch is issued against the underlying's
  contract although the catalog has its entry.
\<close>

theorem addXToken_underlying_lookup_by_own_address:
  "getTrackedTokenInfo (w_tokens both_tracked_world) ''avax''
      ''0x2222222222222222222222222222222222222222'' = Some usdc_entry
   \<and> addXToken both_tracked_world ''avax'' ''project'' ''staked''
        ''0x1111111111111111111111111111111111111111'' (Num 2000000000000000000) ''0xowner''
        ''0x2222222222222222222222222222222222222222'' (Num 3000000) =
      (Inr \<lparr>XToken.type = ''xToken'', chain = ''avax'', location = ''project'',
            status = ''staked'', owner = ''0xowner'', symbol = ''xUSDC'',
            address = ''0x1111111111111111111111111111111111111111'', balance = Num 2,
            logo = ''https://logos/xusdc.png'',
            underlyingToken =
              \<lparr>PricedToken.symbol = ''xUSDC'',
               address = ''0x2222222222222222222222222222222222222222'',
               balance = Num (3 / 1000000000000), price = None,
               logo = ''https://logos/xusdc.png''\<rparr>\<rparr>,
       [[\<lparr>ContractCallContext.reference = ''oneContractQuery'',
          contractAddress = ''0x1111111111111111111111111111111111111111'',
          abi = [''symbol'', ''decimals'', ''balanceOf''], calls = metadata_calls\<rparr>]])
   \<and> getTrackedTokenInfo (w_tokens underlying_tracked_world) ''avax''
      ''0x2222222222222222222222222222222222222222'' = Some usdc_entry
   \<and> snd (addXToken underlying_tracked_world ''avax'' ''project'' ''staked''
        ''0x1111111111111111111111111111111111111111'' (Num 2000000000000000000) ''0xowner''
        ''0x2222222222222222222222222222222222222222'' (Num 3000000)) =
      [[\<lparr>ContractCallContext.reference = ''oneContractQuery'',
         contractAddress = ''0x1111111111111111111111111111111111111111'',
         abi = [''symbol'', ''decimals'', ''balanceOf''], calls = metadata_calls\<rparr>],
       [\<lparr>ContractCallContext.reference = ''oneContractQuery'',
         contractAddress = ''0x2222222222222222222222222222222222222222'',
         abi = [''symbol'', ''decimals'', ''balanceOf''], calls = metadata_calls\<rparr>]]"
proof -
  have t1: "getTrackedTokenInfo (w_tokens both_tracked_world) ''avax''
      ''0x2222222222222222222222222222222222222222'' = Some usdc_entry"
    by (simp add: getTrackedTokenInfo_def getChainTokenData_def both_tracked_world_def
        base_world_def empty_tokens_def lower_u) (simp add: xusdc_entry_def usdc_entry_def lower_x lower_u)
  have t2: "getTrackedTokenInfo (w_tokens underlying_tracked_world) ''avax''
      ''0x2222222222222222222222222222222222222222'' = Some usdc_entry"
    by (simp add: getTrackedTokenInfo_def getChainTokenData_def underlying_tracked_world_def
        base_world_def empty_tokens_def lower_u) (simp add: usdc_entry_def lower_u)
  have t2x: "getTrackedTokenInfo (w_tokens underlying_tracked_world) ''avax''
      ''0x1111111111111111111111111111111111111111'' = None"
    by (simp add: getTrackedTokenInfo_def getChainTokenData_def underlying_tracked_world_def
        base_world_def empty_tokens_def lower_x) (simp add: usdc_entry_def lower_u)
  have w2: "w_registry underlying_tracked_world = one_rpc_registry"
       "w_helper underlying_tracked_world = answering x_table"
       "minABI underlying_tracked_world = [''symbol'', ''decimals'', ''balanceOf'']"
    by (simp_all add: underlying_tracked_world_def base_world_def)
  have a: "addXToken both_tracked_world ''avax'' ''project'' ''staked''
        ''0x1111111111111111111111111111111111111111'' (Num 2000000000000000000) ''0xowner''
        ''0x2222222222222222222222222222222222222222'' (Num 3000000) =
      (Inr \<lparr>XToken.type = ''xToken'', chain = ''avax'', location = ''project'',
            status = ''staked'', owner = ''0xowner'', symbol = ''xUSDC'',
            address = ''0x1111111111111111111111111111111111111111'', balance = Num 2,
            logo = ''https://logos/xusdc.png'',
            underlyingToken =
              \<lparr>PricedToken.symbol = ''xUSDC'',
               address = ''0x2222222222222222222222222222222222222222'',
               balance = Num (3 / 1000000000000), price = None,
               logo = ''https://logos/xusdc.png''\<rparr>\<rparr>,
       [[\<lparr>ContractCallContext.reference = ''oneContractQuery'',
          contractAddress = ''0x1111111111111111111111111111111111111111'',
          abi = [''symbol'', ''decimals'', ''balanceOf''], calls = metadata_calls\<rparr>]])"
    by (rule both_tracked_run)
  have b: "snd (addXToken underlying_tracked_world ''avax'' ''project'' ''staked''
        ''0x1111111111111111111111111111111111111111'' (Num 2000000000000000000) ''0xowner''
        ''0x2222222222222222222222222222222222222222'' (Num 3000000)) =
      [[\<lparr>ContractCallContext.reference = ''oneContractQuery'',
         contractAddress = ''0x1111111111111111111111111111111111111111'',
         abi = [''symbol'', ''decimals'', ''balanceOf''], calls = metadata_calls\<rparr>],
       [\<lparr>ContractCallContext.reference = ''oneContractQuery'',
         contractAddress = ''0x2222222222222222222222222222222222222222'',
         abi = [''symbol'', ''decimals'', ''balanceOf''], calls = metadata_calls\<rparr>]]"
    unfolding addXToken_def Let_def metadata_calls_def[symmetric] w2 x_batch u_batch t2x
    by (simp add: and_then_def first_string_upd first_decimals_upd lift_def ret_def u_batch)
  from t1 a t2 b show ?thesis by simp
qed

section \<open>The liquidity pool holding\<close>

lemma resolve_pair_InrD:
  assumes "(case getTrackedTokenInfo td ch a0 of
              None \<Rightarrow>
                and_then (multicallOneContractQuery reg h ch a0 ab metadata_calls)
                  (\<lambda>r. and_then (lift (first_string r ''symbol'')) (\<lambda>s.
                       and_then (lift (first_decimals r ''decimals'')) (\<lambda>d. ret (s, d))))
            | Some t0 \<Rightarrow> ret (TokenData.symbol t0, TokenData.decimals t0)) = (Inr p, l)"
  shows "case getTrackedTokenInfo td ch a0 of
           Some t0 \<Rightarrow> fst p = TokenData.symbol t0 \<and> snd p = TokenData.decimals t0
         | None \<Rightarrow>
             (\<exists>res0 l0. multicallOneContractQuery reg h ch a0 ab metadata_calls = (Inr res0, l0)
                \<and> first_string res0 ''symbol'' = Inr (fst p)
                \<and> first_decimals res0 ''decimals'' = Inr (snd p))"
proof (cases "getTrackedTokenInfo td ch a0")
  case None
  with assms show ?thesis
    by (auto elim!: and_then_InrE lift_InrE ret_InrE)
next
  case (Some t0)
  with assms show ?thesis by (auto elim!: ret_InrE)
qed

lemma addLPToken_InrD:
  assumes run: "addLPToken w ch loc st a raw ow = (Inr lp, l)"
  shows "\<exists>res l0 sym d ts a0 a1 s0 d0 s1 d1 r0 r1.
     multicallOneContractQuery (w_registry w) (w_helper w) ch a (lpABI w) lp_calls = (Inr res, l0)
     \<and> first_string res ''symbol'' = Inr sym
     \<and> first_decimals res ''decimals'' = Inr d
     \<and> first_bignumber res ''totalSupply'' = Inr ts
     \<and> first_string res ''token0'' = Inr a0
     \<and> first_string res ''token1'' = Inr a1
     \<and> bignumber_at (res ''reserves'') 0 = Inr r0
     \<and> bignumber_at (res ''reserves'') 1 = Inr r1
     \<and> (case getTrackedTokenInfo (w_tokens w) ch a0 of
           Some t0 \<Rightarrow> s0 = TokenData.symbol t0 \<and> d0 = TokenData.decimals t0
         | None \<Rightarrow>
             (\<exists>res0 l0. multicallOneContractQuery (w_registry w) (w_helper w) ch a0 (minABI w)
                           metadata_calls = (Inr res0, l0)
                \<and> first_string res0 ''symbol'' = Inr s0
                \<and> first_decimals res0 ''decimals'' = Inr d0))
     \<and> (case getTrackedTokenInfo (w_tokens w) ch a1 of
           Some t1 \<Rightarrow> s1 = TokenData.symbol t1 \<and> d1 = TokenData.decimals t1
         | None \<Rightarrow>
             (\<exists>res1 l1. multicallOneContractQuery (w_registry w) (w_helper w) ch a1 (minABI w)
                           metadata_calls = (Inr res1, l1)
                \<and> first_string res1 ''symbol'' = Inr s1
                \<and> first_decimals res1 ''decimals'' = Inr d1))
     \<and> lp = \<lparr>LPToken.type = ''lpToken'', chain = ch, location = loc, status = st,
              owner = ow, symbol = sym, address = a, balance = js_div raw (pow10 d),
              token0 =
                \<lparr>PricedToken.symbol = s0, address = a0,
                 balance = js_mul (js_div (Num (of_int r0)) (pow10 d0))
                             (js_div (js_div raw (pow10 d)) (js_div (Num (of_int ts)) (pow10 d))),
                 price = getTokenPrice w ch a0 d0,
                 logo = getTokenLogo (w_tokens w) ch s0\<rparr>,
              token1 =
                \<lparr>PricedToken.symbol = s1, address = a1,
                 balance = js_mul (js_div (Num (of_int r1)) (pow10 d1))
                             (js_div (js_div raw (pow10 d)) (js_div (Num (of_int ts)) (pow10 d))),
                 price = getTokenPrice w ch a1 d1,
                 logo = getTokenLogo (w_tokens w) ch s1\<rparr>\<rparr>"
  using run unfolding addLPToken_def Let_def lp_calls_def[symmetric] metadata_calls_def[symmetric]
  apply (elim and_then_InrE lift_InrE ret_InrE)
  apply (simp add: split_def)
  apply (elim and_then_InrE lift_InrE ret_InrE)
  apply (drule resolve_pair_InrD)+
  apply simp
  apply blast
  done


text \<open>
  C3. Whenever \<open>addLPToken\<close> returns a holding, its balance is the raw balance over
  \<open>10^decimals\<close> of the pool, and each underlying balance is the reserve of that token
  (over \<open>10^decimals\<close> of the token, resolved from the catalog or by a batch call) times
  the holder's balance over the total supply (over \<open>10^decimals\<close> of the pool). With a
  finite raw balance and a total supply other than zero this is the rational number
  \<open>reserve * (balance / supply)\<close>, and when the raw balance is the total supply it is the
  reserve itself.
\<close>

theorem addLPToken_underlying_shares:
  assumes run: "addLPToken w ch loc st a raw ow = (Inr lp, l)"
  shows "\<exists>res l0 d ts r0 r1 a0 a1 d0 d1.
     multicallOneContractQuery (w_registry w) (w_helper w) ch a (lpABI w) lp_calls = (Inr res, l0)
     \<and> first_decimals res ''decimals'' = Inr d
     \<and> first_bignumber res ''totalSupply'' = Inr ts
     \<and> bignumber_at (res ''reserves'') 0 = Inr r0
     \<and> bignumber_at (res ''reserves'') 1 = Inr r1
     \<and> first_string res ''token0'' = Inr a0
     \<and> first_string res ''token1'' = Inr a1
     \<and> (case getTrackedTokenInfo (w_tokens w) ch a0 of
           Some t0 \<Rightarrow> d0 = TokenData.decimals t0
         | None \<Rightarrow>
             (\<exists>res0 l0. multicallOneContractQuery (w_registry w) (w_helper w) ch a0 (minABI w)
                           metadata_calls = (Inr res0, l0)
                \<and> first_decimals res0 ''decimals'' = Inr d0))
     \<and> (case getTrackedTokenInfo (w_tokens w) ch a1 of
           Some t1 \<Rightarrow> d1 = TokenData.decimals t1
         | None \<Rightarrow>
             (\<exists>res1 l1. multicallOneContractQuery (w_registry w) (w_helper w) ch a1 (minABI w)
                           metadata_calls = (Inr res1, l1)
                \<and> first_decimals res1 ''decimals'' = Inr d1))
     \<and> LPToken.balance lp = js_div raw (pow10 d)
     \<and> PricedToken.balance (token0 lp) =
         js_mul (js_div (Num (of_int r0)) (pow10 d0))
           (js_div (LPToken.balance lp) (js_div (Num (of_int ts)) (pow10 d)))
     \<and> PricedToken.balance (token1 lp) =
         js_mul (js_div (Num (of_int r1)) (pow10 d1))
           (js_div (LPToken.balance lp) (js_div (Num (of_int ts)) (pow10 d)))
     \<and> (\<forall>b. raw = Num b \<and> ts \<noteq> 0 \<longrightarrow>
           PricedToken.balance (token0 lp) =
             Num ((of_int r0 / 10 ^ d0) * ((b / 10 ^ d) / (of_int ts / 10 ^ d)))
         \<and> PricedToken.balance (token1 lp) =
             Num ((of_int r1 / 10 ^ d1) * ((b / 10 ^ d) / (of_int ts / 10 ^ d))))
     \<and> (raw = Num (of_int ts) \<and> ts \<noteq> 0 \<longrightarrow>
           PricedToken.balance (token0 lp) = Num (of_int r0 / 10 ^ d0)
         \<and> PricedToken.balance (token1 lp) = Num (of_int r1 / 10 ^ d1))"
proof -
  from addLPToken_InrD[OF run] obtain res l0 sym d ts a0 a1 s0 d0 s1 d1 r0 r1 where
    q: "multicallOneContractQuery (w_registry w) (w_helper w) ch a (lpABI w) lp_calls = (Inr res, l0)"
    and d: "first_decimals res ''decimals'' = Inr d"
    and ts: "first_bignumber res ''totalSupply'' = Inr ts"
    and a0: "first_string res ''token0'' = Inr a0"
    and a1: "first_string res ''token1'' = Inr a1"
    and r0: "bignumber_at (res ''reserves'') 0 = Inr r0"
    and r1: "bignumber_at (res ''reserves'') 1 = Inr r1"
    and m0: "case getTrackedTokenInfo (w_tokens w) ch a0 of
           Some t0 \<Rightarrow> s0 = TokenData.symbol t0 \<and> d0 = TokenData.decimals t0
         | None \<Rightarrow>
             (\<exists>res0 l0. multicallOneContractQuery (w_registry w) (w_helper w) ch a0 (minABI w)
                           metadata_calls = (Inr res0, l0)
                \<and> first_string res0 ''symbol'' = Inr s0
                \<and> first_decimals res0 ''decimals'' = Inr d0)"
    and m1: "case getTrackedTokenInfo (w_tokens w) ch a1 of
           Some t1 \<Rightarrow> s1 = TokenData.symbol t1 \<and> d1 = TokenData.decimals t1
         | None \<Rightarrow>
             (\<exists>res1 l1. multicallOneContractQuery (w_registry w) (w_helper w) ch a1 (minABI w)
                           metadata_calls = (Inr res1, l1)
                \<and> first_string res1 ''symbol'' = Inr s1
                \<and> first_decimals res1 ''decimals'' = Inr d1)"
    and lp: "lp = \<lparr>LPToken.type = ''lpToken'', chain = ch, location = loc, status = st,
              owner = ow, symbol = sym, address = a, balance = js_div raw (pow10 d),
              token0 =
                \<lparr>PricedToken.symbol = s0, address = a0,
                 balance = js_mul (js_div (Num (of_int r0)) (pow10 d0))
                             (js_div (js_div raw (pow10 d)) (js_div (Num (of_int ts)) (pow10 d))),
                 price = getTokenPrice w ch a0 d0,
                 logo = getTokenLogo (w_tokens w) ch s0\<rparr>,
              token1 =
                \<lparr>PricedToken.symbol = s1, address = a1,
                 balance = js_mul (js_div (Num (of_int r1)) (pow10 d1))
                             (js_div (js_div raw (pow10 d)) (js_div (Num (of_int ts)) (pow10 d))),
                 price = getTokenPrice w ch a1 d1,
                 logo = getTokenLogo (w_tokens w) ch s1\<rparr>\<rparr>"
    by blast
  have m0': "case getTrackedTokenInfo (w_tokens w) ch a0 of
           Some t0 \<Rightarrow> d0 = TokenData.decimals t0
         | None \<Rightarrow>
             (\<exists>res0 l0. multicallOneContractQuery (w_registry w) (w_helper w) ch a0 (minABI w)
                           metadata_calls = (Inr res0, l0)
                \<and> first_decimals res0 ''decimals'' = Inr d0)"
    using m0 by (auto split: option.splits)
  have m1': "case getTrackedTokenInfo (w_tokens w) ch a1 of
           Some t1 \<Rightarrow> d1 = TokenData.decimals t1
         | None \<Rightarrow>
             (\<exists>res1 l1. multicallOneContractQuery (w_registry w) (w_helper w) ch a1 (minABI w)
                           metadata_calls = (Inr res1, l1)
                \<and> first_decimals res1 ''decimals'' = Inr d1)"
    using m1 by (auto split: option.splits)
  have b: "LPToken.balance lp = js_div raw (pow10 d)" by (simp add: lp)
  have s0: "PricedToken.balance (token0 lp) =
         js_mul (js_div (Num (of_int r0)) (pow10 d0))
           (js_div (LPToken.balance lp) (js_div (Num (of_int ts)) (pow10 d)))"
    by (simp add: lp)
  have s1: "PricedToken.balance (token1 lp) =
         js_mul (js_div (Num (of_int r1)) (pow10 d1))
           (js_div (LPToken.balance lp) (js_div (Num (of_int ts)) (pow10 d)))"
    by (simp add: lp)
  have fin: "\<forall>b. raw = Num b \<and> ts \<noteq> 0 \<longrightarrow>
           PricedToken.balance (token0 lp) =
             Num ((of_int r0 / 10 ^ d0) * ((b / 10 ^ d) / (of_int ts / 10 ^ d)))
         \<and> PricedToken.balance (token1 lp) =
             Num ((of_int r1 / 10 ^ d1) * ((b / 10 ^ d) / (of_int ts / 10 ^ d)))"
    by (simp add: lp pow10_def)
  have full: "raw = Num (of_int ts) \<and> ts \<noteq> 0 \<longrightarrow>
           PricedToken.balance (token0 lp) = Num (of_int r0 / 10 ^ d0)
         \<and> PricedToken.balance (token1 lp) = Num (of_int r1 / 10 ^ d1)"
    by (simp add: lp pow10_def)
  from q d ts r0 r1 a0 a1 m0' m1' b s0 s1 fin full show ?thesis by blast
qed


lemma lp_batch:
  "multicallOneContractQuery one_rpc_registry (answering lp_table) ''avax''
     ''0x3333333333333333333333333333333333333333'' ab lp_calls =
   (Inr [''symbol'' \<mapsto> [Str ''JLP''], ''decimals'' \<mapsto> [Uint 18],
         ''reserves'' \<mapsto> [BigNumber 1000000000, BigNumber 2000000000000000000000, Uint 1650000000],
         ''totalSupply'' \<mapsto> [BigNumber 100000000000000000000],
         ''token0'' \<mapsto> [Str ''0x2222222222222222222222222222222222222222''],
         ''token1'' \<mapsto> [Str ''0xB31f66AA3C1e785363F0875A1B74E27b85FD66c7'']],
    [[\<lparr>ContractCallContext.reference = ''oneContractQuery'',
       contractAddress = ''0x3333333333333333333333333333333333333333'', abi = ab,
       calls = lp_calls\<rparr>]])"
  by (simp add: multicallOneContractQuery_def multicallQuery_def one_rpc_registry_def
      answering_def lp_table_def lp_calls_def at_index_def and_then_def lift_def
      oneContract_forEach_def)

lemma lp_u_batch:
  "multicallOneContractQuery one_rpc_registry (answering lp_table) ''avax''
     ''0x2222222222222222222222222222222222222222'' ab metadata_calls =
   (Inr [''symbol'' \<mapsto> [Str ''USDC''], ''decimals'' \<mapsto> [Uint 6]],
    [[\<lparr>ContractCallContext.reference = ''oneContractQuery'',
       contractAddress = ''0x2222222222222222222222222222222222222222'', abi = ab,
       calls = metadata_calls\<rparr>]])"
  by (simp add: multicallOneContractQuery_def multicallQuery_def one_rpc_registry_def
      answering_def lp_table_def x_table_def metadata_calls_def at_index_def and_then_def lift_def
      oneContract_forEach_def)

lemma lp_world_run:
  "addLPToken lp_world ''avax'' ''pangolin'' ''staked'' pool_address (Num held) ''0xowner'' =
     (Inr (lp_holding (held / 10 ^ 18)
             (1000 * (held / 10 ^ 18 / 100)) (2000 * (held / 10 ^ 18 / 100))), lp_batches)"
proof -
  have lu: "toLowerCase ''0x2222222222222222222222222222222222222222'' =
      ''0x2222222222222222222222222222222222222222''"
    by (simp add: toLowerCase_def lower_char_def)
  have lw: "toLowerCase ''0xB31f66AA3C1e785363F0875A1B74E27b85FD66c7'' =
      ''0xb31f66aa3c1e785363f0875a1b74e27b85fd66c7''"
    by (simp add: toLowerCase_def lower_char_def)
  have t0: "getTrackedTokenInfo (w_tokens lp_world) ''avax''
      ''0x2222222222222222222222222222222222222222'' = None"
    by (simp add: getTrackedTokenInfo_def getChainTokenData_def lp_world_def base_world_def
        empty_tokens_def lu) (simp add: wavax_entry_def lw)
  have t1: "getTrackedTokenInfo (w_tokens lp_world) ''avax''
      ''0xB31f66AA3C1e785363F0875A1B74E27b85FD66c7'' = Some wavax_entry"
    by (simp add: getTrackedTokenInfo_def getChainTokenData_def lp_world_def base_world_def
        empty_tokens_def lw) (simp add: wavax_entry_def lw)
  have logo0: "getTokenLogo (w_tokens lp_world) ''avax'' ''USDC'' = defaultTokenLogo"
    by (simp add: getTokenLogo_def getChainTokenData_def lp_world_def base_world_def
        empty_tokens_def wavax_entry_def)
  have logo1: "getTokenLogo (w_tokens lp_world) ''avax'' ''WAVAX'' = ''https://logos/wavax.png''"
    by (simp add: getTokenLogo_def getChainTokenData_def lp_world_def base_world_def
        empty_tokens_def wavax_entry_def)
  have w: "w_registry lp_world = one_rpc_registry" "w_helper lp_world = answering lp_table"
      "minABI lp_world = [''symbol'', ''decimals'', ''balanceOf'']"
      "lpABI lp_world = [''symbol'', ''decimals'', ''getReserves'', ''totalSupply'', ''token0'', ''token1'']"
    by (simp_all add: lp_world_def base_world_def)
  have p: "\<And>a d. getTokenPrice lp_world ''avax'' a d = None"
    by (simp add: getTokenPrice_def lp_world_def base_world_def)
  show ?thesis
    unfolding addLPToken_def Let_def lp_calls_def[symmetric] metadata_calls_def[symmetric] w
      pool_address_def lp_batch
    apply (simp add: and_then_def lift_def ret_def first_string_def first_decimals_def
        first_bignumber_def first_value_def index_any_def at_index_def as_string_def
        as_decimals_def parseBN_def bignumber_at_def t0 t1 lp_u_batch logo0 logo1 p)
    apply (simp add: lp_holding_def lp_underlying_def lp_batches_def pool_address_def
        wavax_entry_def pow10_def logo0 logo1)
    done
qed

text \<open>
  The theorem at the example pool: reserves 1000 and 2000, total supply 100. A holder of
  10 has 100 and 200; a holder of the whole supply has 1000 and 2000.
\<close>

theorem addLPToken_underlying_shares_witness:
  "addLPToken lp_world ''avax'' ''pangolin'' ''staked'' pool_address (Num 10000000000000000000)
       ''0xowner'' = (Inr (lp_holding 10 100 200), lp_batches)
   \<and> addLPToken lp_world ''avax'' ''pangolin'' ''staked'' pool_address (Num 100000000000000000000)
       ''0xowner'' = (Inr (lp_holding 100 1000 2000), lp_batches)
   \<and> PricedToken.balance (token0 (lp_holding 10 100 200)) = Num 100
   \<and> PricedToken.balance (token1 (lp_holding 10 100 200)) = Num 200
   \<and> (\<exists>r0 r1 d0 d1 ts d.
         PricedToken.balance (token0 (lp_holding 10 100 200)) =
           js_mul (js_div (Num (of_int r0)) (pow10 d0))
             (js_div (LPToken.balance (lp_holding 10 100 200)) (js_div (Num (of_int ts)) (pow10 d)))
       \<and> PricedToken.balance (token1 (lp_holding 10 100 200)) =
           js_mul (js_div (Num (of_int r1)) (pow10 d1))
             (js_div (LPToken.balance (lp_holding 10 100 200)) (js_div (Num (of_int ts)) (pow10 d))))"
proof -
  have run1: "addLPToken lp_world ''avax'' ''pangolin'' ''staked'' pool_address
      (Num 10000000000000000000) ''0xowner'' = (Inr (lp_holding 10 100 200), lp_batches)"
    using lp_world_run[of 10000000000000000000] by simp
  have run2: "addLPToken lp_world ''avax'' ''pangolin'' ''staked'' pool_address
      (Num 100000000000000000000) ''0xowner'' = (Inr (lp_holding 100 1000 2000), lp_batches)"
    using lp_world_run[of 100000000000000000000] by simp
  have b: "PricedToken.balance (token0 (lp_holding 10 100 200)) = Num 100"
      "PricedToken.balance (token1 (lp_holding 10 100 200)) = Num 200"
    by (simp_all add: lp_holding_def lp_underlying_def)
  from addLPToken_underlying_shares[OF run1]
  have ex: "\<exists>r0 r1 d0 d1 ts d.
         PricedToken.balance (token0 (lp_holding 10 100 200)) =
           js_mul (js_div (Num (of_int r0)) (pow10 d0))
             (js_div (LPToken.balance (lp_holding 10 100 200)) (js_div (Num (of_int ts)) (pow10 d)))
       \<and> PricedToken.balance (token1 (lp_holding 10 100 200)) =
           js_mul (js_div (Num (of_int r1)) (pow10 d1))
             (js_div (LPToken.balance (lp_holding 10 100 200)) (js_div (Num (of_int ts)) (pow10 d)))"
    by blast
  from run1 run2 b ex show ?thesis by blast
qed

section \<open>Balances are normalized\<close>

lemma addXToken_InrD:
  assumes run: "addXToken w ch loc st a raw ow ua uraw = (Inr x, l)"
  shows "\<exists>res l0 sym d us ud ulogo.
     multicallOneContractQuery (w_registry w) (w_helper w) ch a (minABI w) metadata_calls
       = (Inr res, l0)
     \<and> first_string res ''symbol'' = Inr sym
     \<and> first_decimals res ''decimals'' = Inr d
     \<and> (case getTrackedTokenInfo (w_tokens w) ch a of
           Some t \<Rightarrow> us = TokenData.symbol t \<and> ud = TokenData.decimals t
                     \<and> ulogo = TokenData.logo t
         | None \<Rightarrow>
             (\<exists>res1 l1. multicallOneContractQuery (w_registry w) (w_helper w) ch ua (minABI w)
                           metadata_calls = (Inr res1, l1)
                \<and> first_string res1 ''symbol'' = Inr us
                \<and> first_decimals res1 ''decimals'' = Inr ud
                \<and> ulogo = getTokenLogo (w_tokens w) ch us))
     \<and> x = \<lparr>XToken.type = ''xToken'', chain = ch, location = loc, status = st, owner = ow,
             symbol = sym, address = a, balance = js_div raw (pow10 d),
             logo = getTokenLogo (w_tokens w) ch sym,
             underlyingToken =
               \<lparr>PricedToken.symbol = us, address = ua,
                balance = js_div uraw (pow10 ud),
                price = getTokenPrice w ch ua ud, logo = ulogo\<rparr>\<rparr>"
proof (cases "getTrackedTokenInfo (w_tokens w) ch a")
  case None
  with run show ?thesis
    unfolding addXToken_def Let_def metadata_calls_def[symmetric]
    by (elim and_then_InrE lift_InrE ret_InrE)
       (auto simp: split_def elim!: and_then_InrE lift_InrE ret_InrE)
next
  case (Some t)
  with run show ?thesis
    unfolding addXToken_def Let_def metadata_calls_def[symmetric]
    by (elim and_then_InrE lift_InrE ret_InrE)
       (auto simp: split_def elim!: and_then_InrE lift_InrE ret_InrE)
qed

lemma addToken_InrD:
  assumes run: "addToken w ch loc st a raw ow = (Inr t, l)"
  shows "\<exists>d. Token.balance t = js_div raw (pow10 d)
     \<and> (if toLowerCase a = defaultAddress then d = 18
         else case getTrackedTokenInfo (w_tokens w) ch a of
                Some tok \<Rightarrow> d = TokenData.decimals tok
              | None \<Rightarrow>
                  (\<exists>res l0. multicallOneContractQuery (w_registry w) (w_helper w) ch a (minABI w)
                               metadata_calls = (Inr res, l0)
                     \<and> first_decimals res ''decimals'' = Inr d))"
proof (cases "toLowerCase a = defaultAddress")
  case True
  with run show ?thesis by (auto simp: addToken_native)
next
  case False
  show ?thesis
  proof (cases "getTrackedTokenInfo (w_tokens w) ch a")
    case (Some tok)
    with False run show ?thesis by (auto simp: addToken_tracked)
  next
    case None
    with False run show ?thesis
      unfolding addToken_untracked[OF False None]
      by (elim and_then_InrE lift_InrE ret_InrE) auto
  qed
qed

lemma addDebtToken_InrD:
  assumes run: "addDebtToken w ch loc a raw ow = (Inr t, l)"
  shows "\<exists>d. Token.balance t = js_div raw (pow10 d)
     \<and> (if toLowerCase a = defaultAddress then d = 18
         else case getTrackedTokenInfo (w_tokens w) ch a of
                Some tok \<Rightarrow> d = TokenData.decimals tok
              | None \<Rightarrow>
                  (\<exists>res l0. multicallOneContractQuery (w_registry w) (w_helper w) ch a (minABI w)
                               metadata_calls = (Inr res, l0)
                     \<and> first_decimals res ''decimals'' = Inr d))"
proof (cases "toLowerCase a = defaultAddress")
  case True
  with run show ?thesis by (auto simp: addDebtToken_native)
next
  case False
  show ?thesis
  proof (cases "getTrackedTokenInfo (w_tokens w) ch a")
    case (Some tok)
    with False run show ?thesis by (auto simp: addDebtToken_tracked)
  next
    case None
    with False run show ?thesis
      unfolding addDebtToken_untracked[OF False None]
      by (elim and_then_InrE lift_InrE ret_InrE) auto
  qed
qed

text \<open>
  The balance of a holding is the raw balance over \<open>10^decimals\<close>, with numbers as exact
  rationals: 18 decimals for the native token, the entry's decimals for a tracked token,
  and for \<open>addToken\<close> and \<open>addDebtToken\<close> the decimals of the sentinel, the catalog or the
  batch call. An LP holding has its own balance so normalized, and the balance of each
  underlying token is its reserve over \<open>10^decimals\<close> of that token (from the catalog entry
  or the batch call at the address the pool reports) times the holder's share. A
  derivative holding has its own balance so normalized; its underlying balance is divided
  by the decimals that \<open>addXToken\<close> resolved, under the derivative's own address when that
  is in the catalog.
\<close>

lemma balances_by_resolved_decimals:
  "Token.balance (addNativeToken w ch raw ow) = js_div raw (pow10 18)
   \<and> Token.balance (addTrackedToken w ch loc st tok raw ow) =
       js_div raw (pow10 (TokenData.decimals tok))
   \<and> (addToken w ch loc st a raw ow = (Inr t, l) \<longrightarrow>
        (\<exists>d. Token.balance t = js_div raw (pow10 d)
           \<and> (if toLowerCase a = defaultAddress then d = 18
               else case getTrackedTokenInfo (w_tokens w) ch a of
                      Some tok \<Rightarrow> d = TokenData.decimals tok
                    | None \<Rightarrow>
                        (\<exists>res l0. multicallOneContractQuery (w_registry w) (w_helper w) ch a
                                     (minABI w) metadata_calls = (Inr res, l0)
                           \<and> first_decimals res ''decimals'' = Inr d))))
   \<and> (addDebtToken w ch loc a raw ow = (Inr t', l') \<longrightarrow>
        (\<exists>d. Token.balance t' = js_div raw (pow10 d)
           \<and> (if toLowerCase a = defaultAddress then d = 18
               else case getTrackedTokenInfo (w_tokens w) ch a of
                      Some tok \<Rightarrow> d = TokenData.decimals tok
                    | None \<Rightarrow>
                        (\<exists>res l0. multicallOneContractQuery (w_registry w) (w_helper w) ch a
                                     (minABI w) metadata_calls = (Inr res, l0)
                           \<and> first_decimals res ''decimals'' = Inr d))))
   \<and> (addLPToken w ch loc st a raw ow = (Inr lp, l'') \<longrightarrow>
        (\<exists>res l0 d ts a0 a1 r0 r1 d0 d1.
           multicallOneContractQuery (w_registry w) (w_helper w) ch a (lpABI w) lp_calls
             = (Inr res, l0)
           \<and> first_decimals res ''decimals'' = Inr d
           \<and> first_bignumber res ''totalSupply'' = Inr ts
           \<and> first_string res ''token0'' = Inr a0
           \<and> first_string res ''token1'' = Inr a1
           \<and> bignumber_at (res ''reserves'') 0 = Inr r0
           \<and> bignumber_at (res ''reserves'') 1 = Inr r1
           \<and> (case getTrackedTokenInfo (w_tokens w) ch a0 of
                 Some t0 \<Rightarrow> d0 = TokenData.decimals t0
               | None \<Rightarrow>
                   (\<exists>res0 k0. multicallOneContractQuery (w_registry w) (w_helper w) ch a0
                                 (minABI w) metadata_calls = (Inr res0, k0)
                      \<and> first_decimals res0 ''decimals'' = Inr d0))
           \<and> (case getTrackedTokenInfo (w_tokens w) ch a1 of
                 Some t1 \<Rightarrow> d1 = TokenData.decimals t1
               | None \<Rightarrow>
                   (\<exists>res1 k1. multicallOneContractQuery (w_registry w) (w_helper w) ch a1
                                 (minABI w) metadata_calls = (Inr res1, k1)
                      \<and> first_decimals res1 ''decimals'' = Inr d1))
           \<and> LPToken.balance lp = js_div raw (pow10 d)
           \<and> PricedToken.address (token0 lp) = a0
           \<and> PricedToken.address (token1 lp) = a1
           \<and> PricedToken.balance (token0 lp) =
               js_mul (js_div (Num (of_int r0)) (pow10 d0))
                 (js_div (js_div raw (pow10 d)) (js_div (Num (of_int ts)) (pow10 d)))
           \<and> PricedToken.balance (token1 lp) =
               js_mul (js_div (Num (of_int r1)) (pow10 d1))
                 (js_div (js_div raw (pow10 d)) (js_div (Num (of_int ts)) (pow10 d)))))
   \<and> (addXToken w ch loc st a raw ow ua uraw = (Inr x, l''') \<longrightarrow>
        (\<exists>res l0 d ud.
           multicallOneContractQuery (w_registry w) (w_helper w) ch a (minABI w) metadata_calls
             = (Inr res, l0)
           \<and> first_decimals res ''decimals'' = Inr d
           \<and> XToken.balance x = js_div raw (pow10 d)
           \<and> PricedToken.balance (underlyingToken x) = js_div uraw (pow10 ud)
           \<and> (case getTrackedTokenInfo (w_tokens w) ch a of
                 Some tok \<Rightarrow> ud = TokenData.decimals tok
               | None \<Rightarrow>
                   (\<exists>res1 l1. multicallOneContractQuery (w_registry w) (w_helper w) ch ua
                                 (minABI w) metadata_calls = (Inr res1, l1)
                      \<and> first_decimals res1 ''decimals'' = Inr ud))))"
  (is "?N \<and> ?TR \<and> ?TK \<and> ?DB \<and> (?RL \<longrightarrow> ?LP) \<and> (?RX \<longrightarrow> ?XT)")
proof -
  have n: ?N
    by (simp add: addNativeToken_def Let_def)
  have tr: ?TR
    by (simp add: addTrackedToken_def Let_def)
  have tk: ?TK
    using addToken_InrD[of w ch loc st a raw ow t l] by blast
  have db: ?DB
    using addDebtToken_InrD[of w ch loc a raw ow t' l'] by blast
  have lpt: "?RL \<longrightarrow> ?LP"
  proof
    assume run: ?RL
    from addLPToken_InrD[OF run] obtain res l0 sym d ts a0 a1 s0 d0 s1 d1 r0 r1 where
      f: "multicallOneContractQuery (w_registry w) (w_helper w) ch a (lpABI w) lp_calls = (Inr res, l0)"
         "first_decimals res ''decimals'' = Inr d"
         "first_bignumber res ''totalSupply'' = Inr ts"
         "first_string res ''token0'' = Inr a0"
         "first_string res ''token1'' = Inr a1"
         "bignumber_at (res ''reserves'') 0 = Inr r0"
         "bignumber_at (res ''reserves'') 1 = Inr r1"
      and m0: "case getTrackedTokenInfo (w_tokens w) ch a0 of
           Some t0 \<Rightarrow> s0 = TokenData.symbol t0 \<and> d0 = TokenData.decimals t0
         | None \<Rightarrow>
             (\<exists>res0 l0. multicallOneContractQuery (w_registry w) (w_helper w) ch a0 (minABI w)
                           metadata_calls = (Inr res0, l0)
                \<and> first_string res0 ''symbol'' = Inr s0
                \<and> first_decimals res0 ''decimals'' = Inr d0)"
      and m1: "case getTrackedTokenInfo (w_tokens w) ch a1 of
           Some t1 \<Rightarrow> s1 = TokenData.symbol t1 \<and> d1 = TokenData.decimals t1
         | None \<Rightarrow>
             (\<exists>res1 l1. multicallOneContractQuery (w_registry w) (w_helper w) ch a1 (minABI w)
                           metadata_calls = (Inr res1, l1)
                \<and> first_string res1 ''symbol'' = Inr s1
                \<and> first_decimals res1 ''decimals'' = Inr d1)"
      and lp: "lp = \<lparr>LPToken.type = ''lpToken'', chain = ch, location = loc, status = st,
              owner = ow, symbol = sym, address = a, balance = js_div raw (pow10 d),
              token0 =
                \<lparr>PricedToken.symbol = s0, address = a0,
                 balance = js_mul (js_div (Num (of_int r0)) (pow10 d0))
                             (js_div (js_div raw (pow10 d)) (js_div (Num (of_int ts)) (pow10 d))),
                 price = getTokenPrice w ch a0 d0,
                 logo = getTokenLogo (w_tokens w) ch s0\<rparr>,
              token1 =
                \<lparr>PricedToken.symbol = s1, address = a1,
                 balance = js_mul (js_div (Num (of_int r1)) (pow10 d1))
                             (js_div (js_div raw (pow10 d)) (js_div (Num (of_int ts)) (pow10 d))),
                 price = getTokenPrice w ch a1 d1,
                 logo = getTokenLogo (w_tokens w) ch s1\<rparr>\<rparr>"
      by blast
    have m0': "case getTrackedTokenInfo (w_tokens w) ch a0 of
                 Some t0 \<Rightarrow> d0 = TokenData.decimals t0
               | None \<Rightarrow>
                   (\<exists>res0 k0. multicallOneContractQuery (w_registry w) (w_helper w) ch a0
                                 (minABI w) metadata_calls = (Inr res0, k0)
                      \<and> first_decimals res0 ''decimals'' = Inr d0)"
      using m0 by (auto split: option.splits)
    have m1': "case getTrackedTokenInfo (w_tokens w) ch a1 of
                 Some t1 \<Rightarrow> d1 = TokenData.decimals t1
               | None \<Rightarrow>
                   (\<exists>res1 k1. multicallOneContractQuery (w_registry w) (w_helper w) ch a1
                                 (minABI w) metadata_calls = (Inr res1, k1)
                      \<and> first_decimals res1 ''decimals'' = Inr d1)"
      using m1 by (auto split: option.splits)
    have b: "LPToken.balance lp = js_div raw (pow10 d)"
      "PricedToken.address (token0 lp) = a0"
      "PricedToken.address (token1 lp) = a1"
      "PricedToken.balance (token0 lp) =
               js_mul (js_div (Num (of_int r0)) (pow10 d0))
                 (js_div (js_div raw (pow10 d)) (js_div (Num (of_int ts)) (pow10 d)))"
      "PricedToken.balance (token1 lp) =
               js_mul (js_div (Num (of_int r1)) (pow10 d1))
                 (js_div (js_div raw (pow10 d)) (js_div (Num (of_int ts)) (pow10 d)))"
      by (simp_all add: lp)
    show ?LP
      apply (rule exI[of _ res], rule exI[of _ l0], rule exI[of _ d], rule exI[of _ ts],
          rule exI[of _ a0], rule exI[of _ a1], rule exI[of _ r0], rule exI[of _ r1],
          rule exI[of _ d0], rule exI[of _ d1])
      apply (intro conjI)
      apply (rule f m0' m1' b)+
      done
  qed
  have xt: "?RX \<longrightarrow> ?XT"
  proof
    assume run: ?RX
    from addXToken_InrD[OF run] obtain res l0 sym d us ud ulogo where
      f: "multicallOneContractQuery (w_registry w) (w_helper w) ch a (minABI w) metadata_calls
            = (Inr res, l0)"
         "first_decimals res ''decimals'' = Inr d"
      and m: "case getTrackedTokenInfo (w_tokens w) ch a of
           Some t \<Rightarrow> us = TokenData.symbol t \<and> ud = TokenData.decimals t
                     \<and> ulogo = TokenData.logo t
         | None \<Rightarrow>
             (\<exists>res1 l1. multicallOneContractQuery (w_registry w) (w_helper w) ch ua (minABI w)
                           metadata_calls = (Inr res1, l1)
                \<and> first_string res1 ''symbol'' = Inr us
                \<and> first_decimals res1 ''decimals'' = Inr ud
                \<and> ulogo = getTokenLogo (w_tokens w) ch us)"
      and x: "x = \<lparr>XToken.type = ''xToken'', chain = ch, location = loc, status = st, owner = ow,
             symbol = sym, address = a, balance = js_div raw (pow10 d),
             logo = getTokenLogo (w_tokens w) ch sym,
             underlyingToken =
               \<lparr>PricedToken.symbol = us, address = ua,
                balance = js_div uraw (pow10 ud),
                price = getTokenPrice w ch ua ud, logo = ulogo\<rparr>\<rparr>"
      by blast
    have m': "case getTrackedTokenInfo (w_tokens w) ch a of
                 Some tok \<Rightarrow> ud = TokenData.decimals tok
               | None \<Rightarrow>
                   (\<exists>res1 l1. multicallOneContractQuery (w_registry w) (w_helper w) ch ua
                                 (minABI w) metadata_calls = (Inr res1, l1)
                      \<and> first_decimals res1 ''decimals'' = Inr ud)"
      using m by (auto split: option.splits)
    have b: "XToken.balance x = js_div raw (pow10 d)"
      "PricedToken.balance (underlyingToken x) = js_div uraw (pow10 ud)"
      by (simp_all add: x)
    show ?XT
      apply (rule exI[of _ res], rule exI[of _ l0], rule exI[of _ d], rule exI[of _ ud])
      apply (intro conjI)
      apply (rule f m' b)+
      done
  qed
  from n tr tk db lpt xt show ?thesis by (intro conjI)
qed

text \<open>
  C9. The underlying balance of a derivative holding is not the raw balance over the
  underlying token's \<open>10^decimals\<close>: \<open>addXToken\<close> divides it by the decimals found under
  the derivative's own address. With both tokens in the catalog, \<open>3000000\<close> base units of
  the underlying token, which has 6 decimals, are stored as \<open>3000000 / 10^18\<close> where
  \<open>3000000 / 10^6\<close> is \<open>3\<close>. The holding's own balance is normalized, and so is the native
  example: \<open>1500000000000000000\<close> gives \<open>3/2\<close>.
\<close>

theorem underlying_balance_uses_derivative_decimals:
  "Token.balance (addNativeToken w ch (Num 1500000000000000000) ow) = Num (3 / 2)
   \<and> (\<exists>x l. addXToken both_tracked_world ''avax'' ''project'' ''staked''
        ''0x1111111111111111111111111111111111111111'' (Num 2000000000000000000) ''0xowner''
        ''0x2222222222222222222222222222222222222222'' (Num 3000000) = (Inr x, l)
      \<and> XToken.balance x = js_div (Num 2000000000000000000) (pow10 18)
      \<and> PricedToken.address (underlyingToken x) = ''0x2222222222222222222222222222222222222222''
      \<and> PricedToken.balance (underlyingToken x) = Num (3 / 1000000000000)
      \<and> PricedToken.balance (underlyingToken x) = js_div (Num 3000000) (pow10 18))
   \<and> getTrackedTokenInfo (w_tokens both_tracked_world) ''avax''
        ''0x2222222222222222222222222222222222222222'' = Some usdc_entry
   \<and> TokenData.decimals usdc_entry = 6
   \<and> js_div (Num 3000000) (pow10 6) = Num 3"
proof -
  have n15: "Token.balance (addNativeToken w ch (Num 1500000000000000000) ow) = Num (3 / 2)"
    by (simp add: addNativeToken_def Let_def pow10_def)
  have t1: "getTrackedTokenInfo (w_tokens both_tracked_world) ''avax''
      ''0x2222222222222222222222222222222222222222'' = Some usdc_entry"
    by (simp add: getTrackedTokenInfo_def getChainTokenData_def both_tracked_world_def
        base_world_def empty_tokens_def lower_u) (simp add: xusdc_entry_def usdc_entry_def lower_x lower_u)
  have d6: "TokenData.decimals usdc_entry = 6" by (simp add: usdc_entry_def)
  have j: "js_div (Num 3000000) (pow10 6) = Num 3" by (simp add: pow10_def)
  have j18: "js_div (Num 3000000) (pow10 18) = Num (3 / 1000000000000)"
       "js_div (Num 2000000000000000000) (pow10 18) = Num 2"
    by (simp_all add: pow10_def)
  have x: "\<exists>x l. addXToken both_tracked_world ''avax'' ''project'' ''staked''
        ''0x1111111111111111111111111111111111111111'' (Num 2000000000000000000) ''0xowner''
        ''0x2222222222222222222222222222222222222222'' (Num 3000000) = (Inr x, l)
      \<and> XToken.balance x = js_div (Num 2000000000000000000) (pow10 18)
      \<and> PricedToken.address (underlyingToken x) = ''0x2222222222222222222222222222222222222222''
      \<and> PricedToken.balance (underlyingToken x) = Num (3 / 1000000000000)
      \<and> PricedToken.balance (underlyingToken x) = js_div (Num 3000000) (pow10 18)"
    unfolding both_tracked_run j18 by simp
  from n15 x t1 d6 j show ?thesis by (intro conjI)
qed

section \<open>Properties of the wallet scan\<close>

lemma native_body_balance:
  "nb_balance (native_body registry gb ch wallet st) = Some b \<Longrightarrow>
   nb_balance st = Some b \<or> (\<exists>t u. gb t u wallet = Inr b)"
  by (auto simp: native_body_def Let_def split: option.splits sum.splits if_splits)

lemma native_steps_balance:
  "nb_balance (native_steps n registry gb ch wallet st) = Some b \<Longrightarrow>
   nb_balance st = Some b \<or> (\<exists>t u. gb t u wallet = Inr b)"
proof (induction n arbitrary: st)
  case 0
  then show ?case by simp
next
  case (Suc n)
  show ?case
  proof (cases "native_looping st")
    case True
    with Suc.prems have "nb_balance (native_steps n registry gb ch wallet
        (native_body registry gb ch wallet st)) = Some b" by simp
    from Suc.IH[OF this] show ?thesis
      using native_body_balance[of registry gb ch wallet st b] by blast
  next
    case False
    with Suc.prems show ?thesis by simp
  qed
qed

lemma getWalletNativeTokenBalance_Inr:
  assumes "getWalletNativeTokenBalance fuel w gb ch wallet = Some (Inr native)"
  shows "native = [] \<or>
     (\<exists>b t u. gb t u wallet = Inr b \<and> 0 < b
        \<and> native = [addNativeToken w ch (Num (of_nat b)) wallet])"
proof -
  let ?st = "native_steps fuel (w_registry w) gb ch wallet native_init"
  from assms have stop: "\<not> native_looping ?st"
    by (auto simp: getWalletNativeTokenBalance_def Let_def split: if_splits)
  from assms stop have r: "(case nb_thrown ?st of
           Some e \<Rightarrow> Inl e
         | None \<Rightarrow>
             (case nb_balance ?st of
                None \<Rightarrow> Inr []
              | Some bal \<Rightarrow>
                  if bal > 0
                  then Inr [addNativeToken w ch (Num (of_nat bal)) wallet]
                  else Inr [])) = Inr native"
    by (simp add: getWalletNativeTokenBalance_def Let_def)
  show ?thesis
  proof (cases "nb_balance ?st")
    case None
    with r show ?thesis by (auto split: option.splits)
  next
    case (Some b)
    from native_steps_balance[OF Some] have "\<exists>t u. gb t u wallet = Inr b"
      by (simp add: native_init_def)
    with r Some show ?thesis by (auto split: option.splits if_splits)
  qed
qed

lemma wallet_branches_Inr:
  "wallet_branches w ch wallet res toks = Inr found \<Longrightarrow> r \<in> set found \<Longrightarrow>
   \<exists>tok vs raw. tok \<in> set toks \<and> res (TokenData.address tok) = Some vs
      \<and> parseBN (index_any vs 0) = Inr raw \<and> 0 < raw
      \<and> r = addTrackedToken w ch ''wallet'' ''none'' tok (Num (of_int raw)) wallet"
proof (induction toks arbitrary: found)
  case Nil
  then show ?case by simp
next
  case (Cons tok toks)
  show ?case
  proof (cases "res (TokenData.address tok)")
    case None
    with Cons.prems have "wallet_branches w ch wallet res toks = Inr found" by simp
    from Cons.IH[OF this Cons.prems(2)] show ?thesis by auto
  next
    case (Some vs)
    show ?thesis
    proof (cases "parseBN (index_any vs 0)")
      case (Inl e)
      with Some Cons.prems show ?thesis by simp
    next
      case (Inr raw)
      show ?thesis
      proof (cases "0 < raw")
        case False
        with Some Inr Cons.prems have "wallet_branches w ch wallet res toks = Inr found" by simp
        from Cons.IH[OF this Cons.prems(2)] show ?thesis by auto
      next
        case True
        with Some Inr Cons.prems obtain pushed where
          p: "wallet_branches w ch wallet res toks = Inr pushed"
          and f: "found = addTrackedToken w ch ''wallet'' ''none'' tok (Num (of_int raw)) wallet # pushed"
          by (auto split: sum.splits)
        show ?thesis
        proof (cases "r \<in> set pushed")
          case True
          from Cons.IH[OF p True] show ?thesis by auto
        next
          case False
          with f Cons.prems(2) have "r = addTrackedToken w ch ''wallet'' ''none'' tok (Num (of_int raw)) wallet"
            by simp
          with Some Inr \<open>0 < raw\<close> show ?thesis by auto
        qed
      qed
    qed
  qed
qed

lemma js_div_pow10: "js_div (Num x) (pow10 d) = Num (x / 10 ^ d)"
  by (simp add: pow10_def)

lemma native_balance_positive:
  "0 < b \<Longrightarrow> \<exists>q. Token.balance (addNativeToken w ch (Num (of_nat b)) wallet) = Num q \<and> 0 < q"
proof -
  assume "0 < b"
  then have "0 < (of_nat b :: rat) / 10 ^ 18" by simp
  moreover have "Token.balance (addNativeToken w ch (Num (of_nat b)) wallet) =
      Num (of_nat b / 10 ^ 18)"
    by (simp add: addNativeToken_def Let_def js_div_pow10)
  ultimately show ?thesis by blast
qed

lemma tracked_balance_positive:
  "0 < raw \<Longrightarrow>
   \<exists>q. Token.balance (addTrackedToken w ch loc st tok (Num (of_int raw)) wallet) = Num q \<and> 0 < q"
proof -
  assume "0 < raw"
  then have "0 < (of_int raw :: rat) / 10 ^ TokenData.decimals tok" by simp
  moreover have "Token.balance (addTrackedToken w ch loc st tok (Num (of_int raw)) wallet) =
      Num (of_int raw / 10 ^ TokenData.decimals tok)"
    by (simp add: addTrackedToken_def Let_def js_div_pow10)
  ultimately show ?thesis by blast
qed

text \<open>
  Whenever \<open>getWalletBalance\<close> returns a list, each record in it is either the
  native record, built from a balance that the provider reported and that is greater than
  zero, or the record of a tracked token whose address is a key of the \<open>balanceOf\<close> batch
  results with a first value that parses to a number greater than zero. So every record
  has a balance greater than zero; a token with balance zero or without a result is not
  in the list.
\<close>

lemma returned_wallet_records_positive:
  assumes run: "getWalletBalance fuel w gb ch wallet = Some (Inr recs, l)"
  shows "(\<forall>r\<in>set recs.
            (\<exists>b t u. gb t u wallet = Inr b \<and> 0 < b
               \<and> r = addNativeToken w ch (Num (of_nat b)) wallet)
          \<or> (\<exists>data res l0 tok vs raw.
                getChainTokenData (w_tokens w) ch = Some data
              \<and> multicallOneMethodQuery (w_registry w) (w_helper w) ch
                   (map TokenData.address (tokens data)) (minABI w) ''balanceOf'' [Str wallet]
                 = (Inr res, l0)
              \<and> tok \<in> set (tokens data)
              \<and> res (TokenData.address tok) = Some vs
              \<and> parseBN (index_any vs 0) = Inr raw \<and> 0 < raw
              \<and> r = addTrackedToken w ch ''wallet'' ''none'' tok (Num (of_int raw)) wallet))
       \<and> (\<forall>r\<in>set recs. \<exists>q. Token.balance r = Num q \<and> 0 < q)"
proof -
  from run obtain native where
    n: "getWalletNativeTokenBalance fuel w gb ch wallet = Some (Inr native)"
    and rest: "and_then (getWalletTokenBalance w ch wallet) (\<lambda>tokens. ret (native @ tokens))
        = (Inr recs, l)"
    by (auto simp: getWalletBalance_def split: option.splits sum.splits)
  from rest obtain toks l1 where
    t: "getWalletTokenBalance w ch wallet = (Inr toks, l1)" and recs: "recs = native @ toks"
    by (elim and_then_InrE ret_InrE) auto
  have nat_case: "\<And>r. r \<in> set native \<Longrightarrow>
      \<exists>b t u. gb t u wallet = Inr b \<and> 0 < b \<and> r = addNativeToken w ch (Num (of_nat b)) wallet"
    using getWalletNativeTokenBalance_Inr[OF n] by fastforce
  have tok_case: "\<And>r. r \<in> set toks \<Longrightarrow>
      \<exists>data res l0 tok vs raw.
                getChainTokenData (w_tokens w) ch = Some data
              \<and> multicallOneMethodQuery (w_registry w) (w_helper w) ch
                   (map TokenData.address (tokens data)) (minABI w) ''balanceOf'' [Str wallet]
                 = (Inr res, l0)
              \<and> tok \<in> set (tokens data)
              \<and> res (TokenData.address tok) = Some vs
              \<and> parseBN (index_any vs 0) = Inr raw \<and> 0 < raw
              \<and> r = addTrackedToken w ch ''wallet'' ''none'' tok (Num (of_int raw)) wallet"
  proof -
    fix r assume r: "r \<in> set toks"
    show "\<exists>data res l0 tok vs raw.
                getChainTokenData (w_tokens w) ch = Some data
              \<and> multicallOneMethodQuery (w_registry w) (w_helper w) ch
                   (map TokenData.address (tokens data)) (minABI w) ''balanceOf'' [Str wallet]
                 = (Inr res, l0)
              \<and> tok \<in> set (tokens data)
              \<and> res (TokenData.address tok) = Some vs
              \<and> parseBN (index_any vs 0) = Inr raw \<and> 0 < raw
              \<and> r = addTrackedToken w ch ''wallet'' ''none'' tok (Num (of_int raw)) wallet"
    proof (cases "getChainTokenData (w_tokens w) ch")
      case None
      with t r show ?thesis by (simp add: getWalletTokenBalance_def ret_def)
    next
      case (Some data)
      with t have "and_then
             (multicallOneMethodQuery (w_registry w) (w_helper w) ch
                (map TokenData.address (tokens data)) (minABI w) ''balanceOf'' [Str wallet])
             (\<lambda>multicallResults.
                lift (wallet_branches w ch wallet multicallResults (tokens data)))
           = (Inr toks, l1)"
        by (simp add: getWalletTokenBalance_def Let_def)
      then obtain res l0 where
        q: "multicallOneMethodQuery (w_registry w) (w_helper w) ch
                (map TokenData.address (tokens data)) (minABI w) ''balanceOf'' [Str wallet]
              = (Inr res, l0)"
        and b: "wallet_branches w ch wallet res (tokens data) = Inr toks"
        by (elim and_then_InrE lift_InrE) auto
      from wallet_branches_Inr[OF b r] Some q show ?thesis by blast
    qed
  qed
  have first: "\<forall>r\<in>set recs.
            (\<exists>b t u. gb t u wallet = Inr b \<and> 0 < b
               \<and> r = addNativeToken w ch (Num (of_nat b)) wallet)
          \<or> (\<exists>data res l0 tok vs raw.
                getChainTokenData (w_tokens w) ch = Some data
              \<and> multicallOneMethodQuery (w_registry w) (w_helper w) ch
                   (map TokenData.address (tokens data)) (minABI w) ''balanceOf'' [Str wallet]
                 = (Inr res, l0)
              \<and> tok \<in> set (tokens data)
              \<and> res (TokenData.address tok) = Some vs
              \<and> parseBN (index_any vs 0) = Inr raw \<and> 0 < raw
              \<and> r = addTrackedToken w ch ''wallet'' ''none'' tok (Num (of_int raw)) wallet)"
    using nat_case tok_case unfolding recs by (metis Un_iff set_append)
  have second: "\<forall>r\<in>set recs. \<exists>q. Token.balance r = Num q \<and> 0 < q"
  proof
    fix r assume "r \<in> set recs"
    with first consider
      (n) b where "0 < b" "r = addNativeToken w ch (Num (of_nat b)) wallet"
      | (t) tok raw where "0 < raw"
          "r = addTrackedToken w ch ''wallet'' ''none'' tok (Num (of_int raw)) wallet"
      by blast
    then show "\<exists>q. Token.balance r = Num q \<and> 0 < q"
    proof cases
      case n
      then show ?thesis using native_balance_positive[of b w ch wallet] by simp
    next
      case t
      then show ?thesis
        using tracked_balance_positive[of raw w ch "''wallet''" "''none''" tok wallet] by simp
    qed
  qed
  from first second show ?thesis by simp
qed


lemma wallet_batch:
  "multicallOneMethodQuery one_rpc_registry (answering wallet_table) ''avax''
     [''0xB31f66AA3C1e785363F0875A1B74E27b85FD66c7'',
      ''0x2222222222222222222222222222222222222222'',
      ''0x1111111111111111111111111111111111111111''] ab ''balanceOf'' [Str ''0xowner''] =
   (Inr [''0xB31f66AA3C1e785363F0875A1B74E27b85FD66c7'' \<mapsto> [BigNumber 0],
         ''0x2222222222222222222222222222222222222222'' \<mapsto> [BigNumber 5000000]],
    [map (\<lambda>contract. \<lparr>ContractCallContext.reference = contract, contractAddress = contract,
            abi = ab,
            calls = [\<lparr>CallContext.reference = [], methodName = ''balanceOf'',
                      methodParameters = [Str ''0xowner'']\<rparr>]\<rparr>)
       [''0xB31f66AA3C1e785363F0875A1B74E27b85FD66c7'',
        ''0x2222222222222222222222222222222222222222'',
        ''0x1111111111111111111111111111111111111111'']])"
  by (simp add: multicallOneMethodQuery_def multicallQuery_def one_rpc_registry_def
      answering_def wallet_table_def at_index_def and_then_def lift_def)

lemma wallet_native_run:
  "getWalletNativeTokenBalance 1 wallet_world three_units ''avax'' ''0xowner'' =
     Some (Inr [addNativeToken wallet_world ''avax'' (Num 3000000000000000000) ''0xowner''])"
  by (simp add: getWalletNativeTokenBalance_def Let_def native_init_def native_looping_def
      native_body_def wallet_world_def base_world_def one_rpc_registry_def three_units_def
      maxQueryRetries_def at_index_def)

lemma wallet_tokens_run:
  "getWalletTokenBalance wallet_world ''avax'' ''0xowner'' =
      (Inr (tl wallet_holdings),
       [map (\<lambda>contract. \<lparr>ContractCallContext.reference = contract, contractAddress = contract,
            abi = [''symbol'', ''decimals'', ''balanceOf''],
            calls = [\<lparr>CallContext.reference = [], methodName = ''balanceOf'',
                      methodParameters = [Str ''0xowner'']\<rparr>]\<rparr>)
       [''0xB31f66AA3C1e785363F0875A1B74E27b85FD66c7'',
        ''0x2222222222222222222222222222222222222222'',
        ''0x1111111111111111111111111111111111111111'']])"
proof -
  have w: "w_registry wallet_world = one_rpc_registry" "w_helper wallet_world = answering wallet_table"
      "minABI wallet_world = [''symbol'', ''decimals'', ''balanceOf'']"
    by (simp_all add: wallet_world_def base_world_def)
  have d: "getChainTokenData (w_tokens wallet_world) ''avax'' =
      Some \<lparr>tokens = [wavax_entry, usdc_entry, xusdc_entry], logos = []\<rparr>"
    by (simp add: getChainTokenData_def wallet_world_def base_world_def empty_tokens_def)
  have addrs: "map TokenData.address [wavax_entry, usdc_entry, xusdc_entry] =
      [''0xB31f66AA3C1e785363F0875A1B74E27b85FD66c7'',
       ''0x2222222222222222222222222222222222222222'',
       ''0x1111111111111111111111111111111111111111'']"
    by (simp add: wavax_entry_def usdc_entry_def xusdc_entry_def)
  have p: "\<And>a d. getTokenPrice wallet_world ''avax'' a d = None"
    by (simp add: getTokenPrice_def wallet_world_def base_world_def)
  show ?thesis
    unfolding getWalletTokenBalance_def d Let_def
    apply (simp only: option.case ChainTokenData.simps addrs w wallet_batch)
    apply (simp add: and_then_def lift_def wavax_entry_def usdc_entry_def xusdc_entry_def
        index_any_def at_index_def parseBN_def addTrackedToken_def Let_def p pow10_def
        wallet_holdings_def)
    done
qed

lemma wallet_run:
  "getWalletBalance 1 wallet_world three_units ''avax'' ''0xowner'' =
     Some (Inr wallet_holdings,
       [map (\<lambda>contract. \<lparr>ContractCallContext.reference = contract, contractAddress = contract,
            abi = [''symbol'', ''decimals'', ''balanceOf''],
            calls = [\<lparr>CallContext.reference = [], methodName = ''balanceOf'',
                      methodParameters = [Str ''0xowner'']\<rparr>]\<rparr>)
       [''0xB31f66AA3C1e785363F0875A1B74E27b85FD66c7'',
        ''0x2222222222222222222222222222222222222222'',
        ''0x1111111111111111111111111111111111111111'']])"
proof -
  have d: "getChainTokenData (w_tokens wallet_world) ''avax'' =
      Some \<lparr>tokens = [wavax_entry, usdc_entry, xusdc_entry], logos = []\<rparr>"
    by (simp add: getChainTokenData_def wallet_world_def base_world_def empty_tokens_def)
  have p: "\<And>a d. getTokenPrice wallet_world ''avax'' a d = None"
    by (simp add: getTokenPrice_def wallet_world_def base_world_def)
  have sym: "getNativeTokenSymbol ''avax'' = ''AVAX''"
    by (simp add: getNativeTokenSymbol_def toUpperCase_def upper_char_def)
  have logo: "getTokenLogo (w_tokens wallet_world) ''avax'' ''AVAX'' = defaultTokenLogo"
    by (simp add: getTokenLogo_def d wavax_entry_def usdc_entry_def xusdc_entry_def)
  have native: "addNativeToken wallet_world ''avax'' (Num 3000000000000000000) ''0xowner'' =
      hd wallet_holdings"
    by (simp add: addNativeToken_def Let_def sym logo p pow10_def wallet_holdings_def
        defaultAddress_def)
  show ?thesis
    unfolding getWalletBalance_def wallet_native_run native wallet_tokens_run
    by (simp add: and_then_def ret_def wallet_holdings_def)
qed

text \<open>
  At the example wallet with a native balance of three units: the native record and the
  one token with a positive balance are returned; the token with balance zero and the
  token whose call failed are not.
\<close>

lemma returned_wallet_records_example:
  "getWalletBalance 1 wallet_world three_units ''avax'' ''0xowner'' =
     Some (Inr wallet_holdings,
       [map (\<lambda>contract. \<lparr>ContractCallContext.reference = contract, contractAddress = contract,
            abi = [''symbol'', ''decimals'', ''balanceOf''],
            calls = [\<lparr>CallContext.reference = [], methodName = ''balanceOf'',
                      methodParameters = [Str ''0xowner'']\<rparr>]\<rparr>)
       [''0xB31f66AA3C1e785363F0875A1B74E27b85FD66c7'',
        ''0x2222222222222222222222222222222222222222'',
        ''0x1111111111111111111111111111111111111111'']])
   \<and> map Token.symbol wallet_holdings = [''AVAX'', ''USDC'']
   \<and> list_all (\<lambda>r. \<exists>q. Token.balance r = Num q \<and> 0 < q) wallet_holdings"
proof -
  from returned_wallet_records_positive[OF wallet_run]
  have "\<forall>r\<in>set wallet_holdings. \<exists>q. Token.balance r = Num q \<and> 0 < q" by blast
  then have "list_all (\<lambda>r. \<exists>q. Token.balance r = Num q \<and> 0 < q) wallet_holdings"
    by (simp add: list_all_iff)
  moreover have "map Token.symbol wallet_holdings = [''AVAX'', ''USDC'']"
    by (simp add: wallet_holdings_def)
  ultimately show ?thesis using wallet_run by blast
qed

text \<open>
  The loop of \<open>getWalletNativeTokenBalance\<close> reads \<open>!balance\<close>, and a balance of zero
  is falsy: while the endpoint answers zero, each iteration makes one more attempt, counts
  no error and leaves the loop running.
\<close>

lemma native_steps_zero_any:
  "registry ch = Some cd \<Longrightarrow>
   nb_balance st = None \<or> nb_balance st = Some 0 \<Longrightarrow> nb_thrown st = None \<Longrightarrow>
   nb_errors st = 0 \<Longrightarrow>
   native_looping (native_steps n registry zero_units ch wallet st)
   \<and> nb_attempts (native_steps n registry zero_units ch wallet st) = nb_attempts st + n"
proof (induction n arbitrary: st)
  case 0
  then show ?case by (auto simp: native_looping_def maxQueryRetries_def)
next
  case (Suc n)
  have lp: "native_looping st"
    using Suc.prems by (auto simp: native_looping_def maxQueryRetries_def)
  let ?st' = "native_body registry zero_units ch wallet st"
  have b: "nb_balance ?st' = Some 0" "nb_thrown ?st' = None" "nb_errors ?st' = 0"
      "nb_attempts ?st' = nb_attempts st + 1"
    using Suc.prems
    by (simp_all add: native_body_def zero_units_def Let_def)
  from Suc.IH[of ?st'] Suc.prems(1) b lp show ?case by simp
qed

text \<open>
  C10. A wallet with a native balance of zero: the scan of the native balance makes one
  more attempt with every iteration and returns for no amount of fuel, so
  \<open>getWalletBalance\<close> does not return either, although the wallet holds five units of a
  tracked token and \<open>getWalletTokenBalance\<close> alone returns that holding. The native
  record is not left out of a returned list: no list is returned.
\<close>

theorem wallet_scan_never_returns_on_zero_native_balance:
  "getWalletNativeTokenBalance fuel wallet_world zero_units ''avax'' ''0xowner'' = None
   \<and> getWalletBalance fuel wallet_world zero_units ''avax'' ''0xowner'' = None
   \<and> nb_attempts (native_steps fuel (w_registry wallet_world) zero_units ''avax'' ''0xowner''
        native_init) = fuel
   \<and> getWalletTokenBalance wallet_world ''avax'' ''0xowner'' =
      (Inr (tl wallet_holdings),
       [map (\<lambda>contract. \<lparr>ContractCallContext.reference = contract, contractAddress = contract,
            abi = [''symbol'', ''decimals'', ''balanceOf''],
            calls = [\<lparr>CallContext.reference = [], methodName = ''balanceOf'',
                      methodParameters = [Str ''0xowner'']\<rparr>]\<rparr>)
       [''0xB31f66AA3C1e785363F0875A1B74E27b85FD66c7'',
        ''0x2222222222222222222222222222222222222222'',
        ''0x1111111111111111111111111111111111111111'']])
   \<and> map Token.symbol (tl wallet_holdings) = [''USDC'']"
proof -
  have reg: "w_registry wallet_world ''avax'' = Some \<lparr>rpcs = [''https://rpc''], multicall = ''0xmc''\<rparr>"
    by (simp add: wallet_world_def base_world_def one_rpc_registry_def)
  from native_steps_zero_any[where registry="w_registry wallet_world" and ch="''avax''"
      and st=native_init and n=fuel and wallet="''0xowner''", OF reg]
  have lp: "native_looping (native_steps fuel (w_registry wallet_world) zero_units ''avax''
        ''0xowner'' native_init)"
    and at: "nb_attempts (native_steps fuel (w_registry wallet_world) zero_units ''avax''
        ''0xowner'' native_init) = fuel"
    by (simp_all add: native_init_def)
  have n: "getWalletNativeTokenBalance fuel wallet_world zero_units ''avax'' ''0xowner'' = None"
    using lp by (simp add: getWalletNativeTokenBalance_def Let_def)
  have b: "getWalletBalance fuel wallet_world zero_units ''avax'' ''0xowner'' = None"
    by (simp add: getWalletBalance_def n)
  have s: "map Token.symbol (tl wallet_holdings) = [''USDC'']"
    by (simp add: wallet_holdings_def)
  from n b at wallet_tokens_run s show ?thesis by (intro conjI)
qed

section \<open>Failure isolation in the adapter\<close>

lemma pool_branch_two_pools_0: "snd (pool_branch two_pools 0) \<noteq> None"
  by (simp add: pool_branch_def two_pools_def)

lemma pool_branch_two_pools_1:
  "pool_branch two_pools (Suc 0) = ([LPHolding (lp_holding 10 100 200)], None)"
  by (simp add: pool_branch_def two_pools_def)

text \<open>
  C8, as stated, fails inside an adapter. Of two pool branches joined by \<open>Promise.all\<close>,
  branch 0 rejects and branch 1 pushes one holding and resolves: \<open>getPoolBalances\<close>
  throws, \<open>get\<close> catches, and the result of the adapter is empty, not the holding of
  branch 1.
\<close>

theorem sibling_results_lost_when_branch_raises:
  "q_poolLength two_pools = Inr 2
   \<and> snd (pool_branch two_pools 0) \<noteq> None
   \<and> pool_branch two_pools 1 = ([LPHolding (lp_holding 10 100 200)], None)
   \<and> get two_pools = []"
proof -
  have n: "q_poolLength two_pools = Inr 2" by (simp add: two_pools_def)
  have up: "[0..<2] = [0, Suc 0]" by (simp add: upt_rec)
  have g: "get two_pools = []"
    using pool_branch_two_pools_0
    by (auto simp: get_def getPoolBalances_def n up Let_def split: option.splits sum.splits)
  from n pool_branch_two_pools_0 pool_branch_two_pools_1 g show ?thesis by simp
qed

lemma getPoolBalances_rejects:
  assumes "q_poolLength env = Inr n" and "j < n" and "snd (pool_branch env j) \<noteq> None"
  shows "\<exists>e. getPoolBalances env = Inl e"
proof -
  have "pool_branch env j \<in> set (map (pool_branch env) [0..<n])" using assms(2) by simp
  with assms(3) have "\<exists>x. x \<in> set (map (pool_branch env) [0..<n]) \<and> snd x \<noteq> None"
    by blast
  then have "List.find (\<lambda>p. snd p \<noteq> None) (map (pool_branch env) [0..<n]) \<noteq> None"
    unfolding find_None_iff by blast
  then show ?thesis
    using assms(1) by (auto simp: getPoolBalances_def Let_def split: option.splits)
qed

lemma getPoolBalances_resolves:
  assumes "q_poolLength env = Inr n" and "\<forall>j<n. snd (pool_branch env j) = None"
  shows "getPoolBalances env = Inr (concat (map (\<lambda>j. fst (pool_branch env j)) [0..<n]))"
proof -
  have "List.find (\<lambda>p. snd p \<noteq> None) (map (pool_branch env) [0..<n]) = None"
    using assms(2) by (auto simp: find_None_iff)
  then show ?thesis
    using assms(1) by (simp add: getPoolBalances_def Let_def comp_def)
qed

text \<open>
  C8, amended. Failures are isolated at the boundary of the adapter, not between its
  branches: \<open>get\<close> never throws; if a branch (or the query of the pool count) throws, \<open>get\<close>
  returns the empty list; if no branch throws, it returns exactly what the branches have
  pushed, the union of their results.
\<close>

theorem adapter_join_is_all_or_nothing:
  "(q_poolLength env = Inr n \<and> (\<exists>j<n. snd (pool_branch env j) \<noteq> None) \<longrightarrow> get env = [])
   \<and> (q_poolLength env = Inr n \<and> (\<forall>j<n. snd (pool_branch env j) = None) \<longrightarrow>
        get env = concat (map (\<lambda>j. fst (pool_branch env j)) [0..<n])
        \<and> mset (get env) = (\<Sum>j\<in>{0..<n}. mset (fst (pool_branch env j))))
   \<and> (\<forall>e. q_poolLength env = Inl e \<longrightarrow> get env = [])"
proof (intro conjI impI allI)
  assume "q_poolLength env = Inr n \<and> (\<exists>j<n. snd (pool_branch env j) \<noteq> None)"
  then obtain j where "q_poolLength env = Inr n" "j < n" "snd (pool_branch env j) \<noteq> None"
    by blast
  from getPoolBalances_rejects[OF this] show "get env = []"
    by (auto simp: get_def)
next
  assume a: "q_poolLength env = Inr n \<and> (\<forall>j<n. snd (pool_branch env j) = None)"
  then show g: "get env = concat (map (\<lambda>j. fst (pool_branch env j)) [0..<n])"
    using getPoolBalances_resolves[of env n] by (simp add: get_def)
  have "mset (concat (map (\<lambda>j. fst (pool_branch env j)) [0..<n])) =
      (\<Sum>j\<in>{0..<n}. mset (fst (pool_branch env j)))"
    by (induction n) simp_all
  with g show "mset (get env) = (\<Sum>j\<in>{0..<n}. mset (fst (pool_branch env j)))" by simp
next
  fix e assume "q_poolLength env = Inl e"
  then show "get env = []" by (simp add: get_def getPoolBalances_def)
qed

text \<open>
  The theorem at the two pools: with a rejecting branch the adapter returns nothing;
  when that branch resolves with nothing to report, the adapter returns the holding of
  the other branch.
\<close>

theorem adapter_join_is_all_or_nothing_witness:
  "get two_pools = []
   \<and> get two_pools_ok = [LPHolding (lp_holding 10 100 200)]"
proof -
  have n: "q_poolLength two_pools = Inr 2" "q_poolLength two_pools_ok = Inr 2"
    by (simp_all add: two_pools_def two_pools_ok_def)
  have r: "\<exists>j<2. snd (pool_branch two_pools j) \<noteq> None"
    using pool_branch_two_pools_0 by (intro exI[of _ 0]) simp
  have b0: "pool_branch two_pools_ok 0 = ([], None)"
    by (simp add: pool_branch_def two_pools_ok_def two_pools_def)
  have b1: "pool_branch two_pools_ok (Suc 0) = ([LPHolding (lp_holding 10 100 200)], None)"
    by (simp add: pool_branch_def two_pools_ok_def two_pools_def)
  have ok: "\<forall>j<2. snd (pool_branch two_pools_ok j) = None"
    using b0 b1 by (auto simp: less_Suc_eq numeral_2_eq_2)
  have up: "[0..<2] = [0, Suc 0]" by (simp add: upt_rec)
  from adapter_join_is_all_or_nothing[of two_pools 2] n r
  have g1: "get two_pools = []" by blast
  from adapter_join_is_all_or_nothing[of two_pools_ok 2] n ok
  have "get two_pools_ok = concat (map (\<lambda>j. fst (pool_branch two_pools_ok j)) [0..<2])"
    by blast
  then have g2: "get two_pools_ok = [LPHolding (lp_holding 10 100 200)]"
    by (simp add: up b0 b1)
  from g1 g2 show ?thesis by simp
qed

section \<open>Failure of the price lookup\<close>







end
